(* ===== verification/QuizLab_Prelude.thy ===== *)
theory QuizLab_Prelude
  imports Complex_Main "HOL-Library.Multiset"
begin

text \<open>
  Shared layer of the QuizLab development: the fragments of JavaScript semantics that
  \<^verbatim>\<open>src/script.js\<close> relies on, written as total HOL functions, and the fact collections
  the component theories extend.

  \<^item> \<open>nth_opt\<close> is array indexing \<^verbatim>\<open>a[i]\<close>: \<open>None\<close> stands for \<^verbatim>\<open>undefined\<close>.
  \<^item> \<open>truthy\<close> is the boolean coercion of a value that is a string or \<^verbatim>\<open>undefined\<close>
    (\<^verbatim>\<open>!state.answers[i]\<close>): the empty string is falsy.
  \<^item> \<open>nullish\<close> is the operator \<^verbatim>\<open>??\<close>: only \<^verbatim>\<open>undefined\<close> selects the default.
  \<^item> \<open>string_of_nat\<close> is the decimal text a template literal produces for a non-negative
    integer; \<open>join\<close> is \<^verbatim>\<open>Array.prototype.join\<close>.
  \<^item> \<open>random_index\<close> is \<^verbatim>\<open>Math.floor(Math.random() * n)\<close> for a drawn value \<open>u\<close>.
    Floating point numbers are idealised as reals; \<open>unit_interval\<close> is the contract of
    \<^verbatim>\<open>Math.random\<close>.

  Strings are \<^typ>\<open>string\<close>; only equality, emptiness and concatenation of strings are
  used by the program, so the difference between UTF-16 code units and bytes is not
  observable in the model.
\<close>

section \<open>Fact collections\<close>

named_theorems js_defs "definitions of the modelled JavaScript primitives"
named_theorems dom_defs "definitions of the DOM operations and renderers"
named_theorems handler_defs "definitions of the event handlers"
named_theorems inv_defs "definitions of the invariants"
named_theorems frame "fields an operation leaves unchanged"

section \<open>Values\<close>

datatype js_error = TypeError | InvalidCharacterError

type_synonym rand = "nat \<Rightarrow> real"

definition nth_opt :: "'a list \<Rightarrow> nat \<Rightarrow> 'a option" where
  "nth_opt xs i = (if i < length xs then Some (xs ! i) else None)"

definition truthy :: "string option \<Rightarrow> bool" where
  "truthy v = (case v of None \<Rightarrow> False | Some s \<Rightarrow> s \<noteq> [])"

definition nullish :: "'a option \<Rightarrow> 'a \<Rightarrow> 'a" where
  "nullish v d = (case v of None \<Rightarrow> d | Some x \<Rightarrow> x)"

definition unit_interval :: "rand \<Rightarrow> bool" where
  "unit_interval rnd \<longleftrightarrow> (\<forall>k. 0 \<le> rnd k \<and> rnd k < 1)"

definition random_index :: "real \<Rightarrow> nat \<Rightarrow> nat" where
  "random_index u n = nat \<lfloor>u * real n\<rfloor>"

section \<open>Text\<close>

definition digit_char :: "nat \<Rightarrow> char" where
  "digit_char d = ''0123456789'' ! d"

fun string_of_nat :: "nat \<Rightarrow> string" where
  "string_of_nat n =
     (if n < 10 then [digit_char n] else string_of_nat (n div 10) @ [digit_char (n mod 10)])"

fun join :: "string \<Rightarrow> string list \<Rightarrow> string" where
  "join sep [] = []"
| "join sep [x] = x"
| "join sep (x # y # ys) = x @ sep @ join sep (y # ys)"

declare string_of_nat.simps [simp del]

lemmas [js_defs] = nth_opt_def truthy_def nullish_def random_index_def

section \<open>Indexing, coercion and defaulting\<close>

lemma nth_opt_Some [simp]: "i < length xs \<Longrightarrow> nth_opt xs i = Some (xs ! i)"
  by (simp add: nth_opt_def)

lemma nth_opt_None [simp]: "length xs \<le> i \<Longrightarrow> nth_opt xs i = None"
  by (simp add: nth_opt_def)

lemma nth_opt_eq_None_iff: "nth_opt xs i = None \<longleftrightarrow> length xs \<le> i"
  by (auto simp: nth_opt_def)

lemma nth_opt_eq_Some_iff: "nth_opt xs i = Some x \<longleftrightarrow> i < length xs \<and> xs ! i = x"
  by (auto simp: nth_opt_def)

lemma nth_opt_Nil [simp]: "nth_opt [] i = None"
  by simp

lemma nth_opt_in_set: "nth_opt xs i = Some x \<Longrightarrow> x \<in> set xs"
  by (auto simp: nth_opt_eq_Some_iff)

lemma truthy_simps [simp]:
  "truthy None = False"
  "truthy (Some s) = (s \<noteq> [])"
  by (simp_all add: truthy_def)

lemma nullish_simps [simp]:
  "nullish None d = d"
  "nullish (Some x) d = x"
  by (simp_all add: nullish_def)

lemma truthy_imp_Some: "truthy v \<Longrightarrow> \<exists>s. v = Some s \<and> s \<noteq> []"
  by (cases v) auto

lemma concat_map_if:
  "concat (map (\<lambda>x. if P x then [f x] else []) xs) = map f (filter P xs)"
  by (induction xs) simp_all

section \<open>Random indices\<close>

lemma random_index_less:
  assumes "0 \<le> u" and "u < 1" and "0 < n"
  shows "random_index u n < n"
proof -
  have "u * real n < real n"
    using assms by simp
  then have "\<lfloor>u * real n\<rfloor> < int n"
    by (simp add: floor_less_iff)
  moreover have "0 \<le> \<lfloor>u * real n\<rfloor>"
    using assms by simp
  ultimately show ?thesis
    by (simp add: random_index_def nat_less_iff)
qed

lemma random_index_unit:
  "unit_interval rnd \<Longrightarrow> 0 < n \<Longrightarrow> random_index (rnd k) n < n"
  by (simp add: unit_interval_def random_index_less)

lemma random_index_mid:
  "j < n \<Longrightarrow> random_index ((real j + 1 / 2) / real n) n = j"
proof -
  assume "j < n"
  then have "(real j + 1 / 2) / real n * real n = real j + 1 / 2"
    by simp
  moreover have "\<lfloor>real j + 1 / 2\<rfloor> = int j"
    by (simp add: floor_eq_iff)
  ultimately show ?thesis
    by (simp add: random_index_def)
qed

lemma mid_in_unit:
  "j < n \<Longrightarrow> 0 \<le> (real j + 1 / 2) / real n \<and> (real j + 1 / 2) / real n < 1"
  by (simp add: field_simps)

lemma unit_interval_const [simp]: "unit_interval (\<lambda>_. 0)"
  by (simp add: unit_interval_def)

lemma unit_interval_upd:
  "unit_interval rnd \<Longrightarrow> 0 \<le> u \<Longrightarrow> u < 1 \<Longrightarrow> unit_interval (rnd(k := u))"
  by (simp add: unit_interval_def)

section \<open>Decimal text\<close>

lemma string_of_nat_small [simp]: "n < 10 \<Longrightarrow> string_of_nat n = [digit_char n]"
  by (simp add: string_of_nat.simps)

lemma string_of_nat_large:
  "10 \<le> n \<Longrightarrow> string_of_nat n = string_of_nat (n div 10) @ [digit_char (n mod 10)]"
  by (subst string_of_nat.simps) simp

lemma string_of_nat_nonempty [simp]: "string_of_nat n \<noteq> []"
  by (subst string_of_nat.simps) simp

lemma digit_char_inj: "a < 10 \<Longrightarrow> b < 10 \<Longrightarrow> digit_char a = digit_char b \<Longrightarrow> a = b"
proof -
  have "distinct ''0123456789''" by simp
  moreover assume "a < 10" "b < 10" "digit_char a = digit_char b"
  ultimately show "a = b"
    by (simp add: digit_char_def nth_eq_iff_index_eq del: distinct.simps)
qed

lemma string_of_nat_inj: "string_of_nat m = string_of_nat n \<Longrightarrow> m = n"
proof (induction m arbitrary: n rule: string_of_nat.induct)
  case (1 m)
  show ?case
  proof (cases "m < 10")
    case True
    with "1.prems" have "length (string_of_nat n) = 1"
      by (metis length_Cons list.size(3) One_nat_def string_of_nat_small)
    then have "n < 10"
      by (cases "n < 10") (simp_all add: string_of_nat_large)
    with True "1.prems" show ?thesis
      by (auto dest: digit_char_inj)
  next
    case False
    then have m: "string_of_nat m = string_of_nat (m div 10) @ [digit_char (m mod 10)]"
      by (simp add: string_of_nat_large)
    have "\<not> n < 10"
    proof
      assume "n < 10"
      with "1.prems" m show False by simp
    qed
    then have n: "string_of_nat n = string_of_nat (n div 10) @ [digit_char (n mod 10)]"
      by (simp add: string_of_nat_large)
    from "1.prems" m n have "string_of_nat (m div 10) = string_of_nat (n div 10)"
      and "digit_char (m mod 10) = digit_char (n mod 10)"
      by simp_all
    with False "1.IH" have "m div 10 = n div 10" and "m mod 10 = n mod 10"
      by (simp_all add: digit_char_inj)
    then show ?thesis
      by (metis div_mult_mod_eq)
  qed
qed

lemma join_map_inj_nonempty: "join sep xs = [] \<longleftrightarrow> (xs = [] \<or> (xs = [[]]))" if "sep \<noteq> []"
  using that by (induction sep xs rule: join.induct) auto

end
