(* ===== verification/Shuffle.thy ===== *)
theory Shuffle
  imports QuizLab_Prelude "HOL-Library.While_Combinator"
begin

text \<open>
  The sampler of \<^verbatim>\<open>src/script.js\<close>: \<open>shuffle\<close> (lines 20-27), a backward Fisher-Yates
  pass over a copy of its argument, and \<open>sample\<close>, the expression
  \<^verbatim>\<open>shuffle(all).slice(0, 10)\<close> of \<open>loadCategory\<close> (line 124).

  \<^verbatim>\<open>Math.random\<close> is an input of the model: a sequence \<open>rnd\<close> of drawn values and the
  number \<open>k\<close> of values consumed so far. \<open>shuffle_loop rnd k i a\<close> is the \<^verbatim>\<open>for\<close> loop
  entered with loop variable \<open>i\<close> and array \<open>a\<close>; it returns the final array and the new
  position in the random sequence. \<open>shuffle_while\<close> is the same loop written with
  \<open>while_option\<close> over the triple of loop variable, array and position, with the
  loop's own condition \<^verbatim>\<open>i > 0\<close> and body \<open>shuffle_body\<close>; its value is \<open>None\<close> when the
  loop does not end.

  The lemmas show that under the contract of \<^verbatim>\<open>Math.random\<close> the result is a
  permutation of the pool, that the loop consumes one draw per iteration, that positions
  above the loop variable are never touched, that the loop ends for every input with
  the result of the recursive form, and that every permutation of the pool (and every
  duplicate-free selection of ten questions, in every order) is the result for some
  sequence of draws.
\<close>

section \<open>Definitions\<close>

definition swap :: "'a list \<Rightarrow> nat \<Rightarrow> nat \<Rightarrow> 'a list" where
  "swap a i j = (let ai = a ! i; aj = a ! j in (a[i := aj])[j := ai])"

fun shuffle_loop :: "rand \<Rightarrow> nat \<Rightarrow> nat \<Rightarrow> 'a list \<Rightarrow> 'a list \<times> nat" where
  "shuffle_loop rnd k 0 a = (a, k)"
| "shuffle_loop rnd k (Suc i) a =
     (let j = random_index (rnd k) (Suc i + 1)
      in shuffle_loop rnd (Suc k) i (swap a (Suc i) j))"

definition shuffle :: "rand \<Rightarrow> nat \<Rightarrow> 'a list \<Rightarrow> 'a list \<times> nat" where
  "shuffle rnd k arr = shuffle_loop rnd k (length arr - 1) arr"

definition sample :: "rand \<Rightarrow> nat \<Rightarrow> 'a list \<Rightarrow> 'a list \<times> nat" where
  "sample rnd k all = (let (a, k') = shuffle rnd k all in (take 10 a, k'))"

definition shuffle_body :: "rand \<Rightarrow> nat \<times> 'a list \<times> nat \<Rightarrow> nat \<times> 'a list \<times> nat" where
  "shuffle_body rnd = (\<lambda>(i, a, k). (i - 1, swap a i (random_index (rnd k) (i + 1)), Suc k))"

definition shuffle_while :: "rand \<Rightarrow> nat \<Rightarrow> 'a list \<Rightarrow> ('a list \<times> nat) option" where
  "shuffle_while rnd k arr =
     map_option (\<lambda>(i, a, k). (a, k))
       (while_option (\<lambda>(i, a, k). 0 < i) (shuffle_body rnd) (length arr - 1, arr, k))"

section \<open>Swapping two positions\<close>

lemma length_swap [simp]: "length (swap a i j) = length a"
  by (simp add: swap_def)

lemma swap_same [simp]: "swap a i i = a"
  by (simp add: swap_def)

lemma mset_swap [simp]: "i < length a \<Longrightarrow> j < length a \<Longrightarrow> mset (swap a i j) = mset a"
  by (simp add: swap_def mset_update nth_list_update)

lemma nth_swap:
  "i < length a \<Longrightarrow> j < length a \<Longrightarrow>
   swap a i j ! m = (if m = j then a ! i else if m = i then a ! j else a ! m)"
  by (simp add: swap_def nth_list_update)

lemma drop_swap [simp]: "i < n \<Longrightarrow> j < n \<Longrightarrow> drop n (swap a i j) = drop n a"
  by (simp add: swap_def)

lemma take_swap: "i < n \<Longrightarrow> j < n \<Longrightarrow> take n (swap a i j) = swap (take n a) i j"
  by (simp add: swap_def take_update_swap)

section \<open>The loop\<close>

lemma length_shuffle_loop [simp]: "length (fst (shuffle_loop rnd k i a)) = length a"
  by (induction i arbitrary: k a) (simp_all add: Let_def)

lemma snd_shuffle_loop [simp]: "snd (shuffle_loop rnd k i a) = k + i"
  by (induction i arbitrary: k a) (simp_all add: Let_def)

lemma mset_shuffle_loop:
  "unit_interval rnd \<Longrightarrow> i < length a \<Longrightarrow> mset (fst (shuffle_loop rnd k i a)) = mset a"
proof (induction i arbitrary: k a)
  case 0
  then show ?case by simp
next
  case (Suc i)
  from Suc.prems(1) have "random_index (rnd k) (Suc i + 1) < Suc i + 1"
    by (rule random_index_unit) simp
  with Suc.prems(2) have j: "random_index (rnd k) (Suc i + 1) < length a"
    by simp
  with Suc show ?case
    by (simp add: Let_def)
qed

lemma drop_shuffle_loop:
  "unit_interval rnd \<Longrightarrow> drop (Suc i) (fst (shuffle_loop rnd k i a)) = drop (Suc i) a"
proof (induction i arbitrary: k a)
  case 0
  then show ?case by simp
next
  case (Suc i)
  let ?j = "random_index (rnd k) (Suc i + 1)"
  let ?b = "swap a (Suc i) ?j"
  from Suc.prems have j: "?j < Suc (Suc i)"
    using random_index_unit [of rnd "Suc i + 1" k] by simp
  have "drop (Suc (Suc i)) (fst (shuffle_loop rnd (Suc k) i ?b))
      = drop 1 (drop (Suc i) (fst (shuffle_loop rnd (Suc k) i ?b)))"
    by simp
  also have "\<dots> = drop 1 (drop (Suc i) ?b)"
    using Suc.IH [OF Suc.prems] by simp
  also have "\<dots> = drop (Suc (Suc i)) a"
    using j by simp
  finally show ?case
    by (simp add: Let_def)
qed

lemma shuffle_loop_cong:
  "(\<And>m. k \<le> m \<Longrightarrow> m < k + i \<Longrightarrow> rnd m = rnd' m) \<Longrightarrow>
   shuffle_loop rnd k i a = shuffle_loop rnd' k i a"
  by (induction i arbitrary: k a) (simp_all add: Let_def)

lemma shuffle_body_Suc:
  "shuffle_body rnd (Suc i, a, k) = (i, swap a (Suc i) (random_index (rnd k) (Suc i + 1)), Suc k)"
  by (simp add: shuffle_body_def)

lemma while_shuffle_loop:
  "while_option (\<lambda>(i, a, k). 0 < i) (shuffle_body rnd) (i, a, k) = Some (0, shuffle_loop rnd k i a)"
proof (induction i arbitrary: a k)
  case 0
  show ?case by (subst while_option_unfold) simp
next
  case (Suc i)
  show ?case by (subst while_option_unfold) (simp add: shuffle_body_Suc Suc Let_def)
qed

lemma shuffle_while_example: "shuffle_while (\<lambda>_. 0) 0 [1, 2, 3 :: nat] = Some ([2, 3, 1], 2)"
  by code_simp

section \<open>Every arrangement can be drawn\<close>

lemma take_Suc_mset:
  "n < length xs \<Longrightarrow> mset (take (Suc n) xs) = add_mset (xs ! n) (mset (take n xs))"
  by (simp add: take_Suc_conv_app_nth)

lemma swap_places_last:
  assumes "Suc i < length a" and "length ys = length a"
    and "mset (take (Suc (Suc i)) ys) = mset (take (Suc (Suc i)) a)"
    and "drop (Suc (Suc i)) ys = drop (Suc (Suc i)) a"
  obtains j where "j < Suc (Suc i)"
    and "mset (take (Suc i) ys) = mset (take (Suc i) (swap a (Suc i) j))"
    and "drop (Suc i) ys = drop (Suc i) (swap a (Suc i) j)"
proof -
  let ?n = "Suc (Suc i)"
  have "ys ! Suc i \<in> set (take ?n ys)"
    using assms(1,2) by (simp add: in_set_conv_nth) (metis lessI min_less_iff_conj nth_take length_take)
  then have "ys ! Suc i \<in> set (take ?n a)"
    using assms(3) by (metis set_mset_mset)
  then obtain j where j: "j < ?n" "a ! j = ys ! Suc i"
    using assms(1) by (auto simp: in_set_conv_nth)
  let ?b = "swap a (Suc i) j"
  from j assms(1) have jl: "j < length a" by simp
  have bi: "?b ! Suc i = ys ! Suc i"
    using nth_swap [OF assms(1) jl, of "Suc i"] j by simp
  have "mset (take ?n ?b) = mset (take ?n ys)"
    using j(1) assms(1,3) jl by (simp add: take_swap)
  then have m: "mset (take (Suc i) ys) = mset (take (Suc i) ?b)"
    using bi assms(1,2) by (simp add: take_Suc_mset [of "Suc i"])
  have "drop (Suc i) ?b = ?b ! Suc i # drop ?n ?b"
    using assms(1) by (simp add: Cons_nth_drop_Suc)
  also have "\<dots> = ys ! Suc i # drop ?n ys"
    using bi j(1) assms(4) by simp
  also have "\<dots> = drop (Suc i) ys"
    using assms(1,2) by (simp add: Cons_nth_drop_Suc)
  finally have "drop (Suc i) ys = drop (Suc i) ?b" ..
  with j(1) m show thesis
    by (rule that)
qed

lemma draw_index:
  assumes "unit_interval rnd" and "j < n"
  obtains u where "unit_interval (rnd(k := u))" and "random_index u n = j"
proof
  let ?u = "(real j + 1 / 2) / real n"
  have "0 \<le> ?u" "?u < 1"
    using assms(2) by simp_all
  with assms(1) show "unit_interval (rnd(k := ?u))"
    by (rule unit_interval_upd)
  from assms(2) show "random_index ?u n = j"
    by (rule random_index_mid)
qed

lemma shuffle_loop_complete:
  assumes "i < length a" "length ys = length a"
    and "mset (take (Suc i) ys) = mset (take (Suc i) a)"
    and "drop (Suc i) ys = drop (Suc i) a"
  shows "\<exists>rnd. unit_interval rnd \<and> fst (shuffle_loop rnd k i a) = ys"
  using assms
proof (induction i arbitrary: k a)
  case 0
  then have "take 1 ys = take 1 a"
    by (cases ys; cases a) auto
  with 0 have "ys = a"
    by (metis One_nat_def append_take_drop_id)
  then show ?case
    by (intro exI [of _ "\<lambda>_. 0"]) simp
next
  case (Suc i)
  from Suc.prems obtain j where j: "j < Suc i + 1"
    and b: "mset (take (Suc i) ys) = mset (take (Suc i) (swap a (Suc i) j))"
      "drop (Suc i) ys = drop (Suc i) (swap a (Suc i) j)"
    by (auto elim: swap_places_last)
  let ?b = "swap a (Suc i) j"
  from Suc.IH [of ?b "Suc k"] b Suc.prems(1,2)
  obtain rnd where rnd: "unit_interval rnd" "fst (shuffle_loop rnd (Suc k) i ?b) = ys"
    by auto
  from rnd(1) j obtain u where u: "unit_interval (rnd(k := u))" "random_index u (Suc i + 1) = j"
    by (rule draw_index)
  have "shuffle_loop (rnd(k := u)) (Suc k) i ?b = shuffle_loop rnd (Suc k) i ?b"
    by (rule shuffle_loop_cong) simp
  with u rnd(2) have "unit_interval (rnd(k := u)) \<and> fst (shuffle_loop (rnd(k := u)) k (Suc i) a) = ys"
    by (simp add: Let_def)
  then show ?case
    by blast
qed

section \<open>The shuffle and the sample\<close>

lemma length_shuffle [simp]: "length (fst (shuffle rnd k arr)) = length arr"
  by (simp add: shuffle_def)

lemma snd_shuffle [simp]: "snd (shuffle rnd k arr) = k + (length arr - 1)"
  by (simp add: shuffle_def)

lemma shuffle_Nil [simp]: "shuffle rnd k [] = ([], k)"
  by (simp add: shuffle_def)

lemma shuffle_single [simp]: "shuffle rnd k [x] = ([x], k)"
  by (simp add: shuffle_def)

lemma mset_shuffle: "unit_interval rnd \<Longrightarrow> mset (fst (shuffle rnd k arr)) = mset arr"
  by (cases arr) (simp_all add: shuffle_def mset_shuffle_loop)

lemma set_shuffle: "unit_interval rnd \<Longrightarrow> set (fst (shuffle rnd k arr)) = set arr"
  by (metis mset_shuffle set_mset_mset)

lemma distinct_shuffle:
  "unit_interval rnd \<Longrightarrow> distinct (fst (shuffle rnd k arr)) = distinct arr"
  by (metis mset_shuffle mset_eq_imp_distinct_iff)

lemma sample_eq:
  "sample rnd k all = (take 10 (fst (shuffle rnd k all)), snd (shuffle rnd k all))"
  by (simp add: sample_def case_prod_beta del: snd_shuffle)

lemma sample_Nil [simp]: "sample rnd k [] = ([], k)"
  by (simp add: sample_eq)

lemma fst_sample: "fst (sample rnd k all) = take 10 (fst (shuffle rnd k all))"
  by (simp add: sample_eq)

lemma snd_sample [simp]: "snd (sample rnd k all) = k + (length all - 1)"
  by (simp add: sample_eq)

lemma length_sample [simp]: "length (fst (sample rnd k all)) = min 10 (length all)"
  by (simp add: fst_sample min.commute)

lemma set_sample_subset: "unit_interval rnd \<Longrightarrow> set (fst (sample rnd k all)) \<subseteq> set all"
proof -
  assume "unit_interval rnd"
  then have "set (fst (shuffle rnd k all)) = set all"
    by (rule set_shuffle)
  moreover have "set (take 10 (fst (shuffle rnd k all))) \<subseteq> set (fst (shuffle rnd k all))"
    by (rule set_take_subset)
  ultimately show ?thesis
    by (simp add: fst_sample)
qed

lemma distinct_sample:
  "unit_interval rnd \<Longrightarrow> distinct all \<Longrightarrow> distinct (fst (sample rnd k all))"
  by (simp add: fst_sample distinct_shuffle)

lemma mset_take_subseteq: "mset (take n xs) \<subseteq># mset xs"
proof -
  have "mset xs = mset (take n xs) + mset (drop n xs)"
    by (simp flip: mset_append)
  then show ?thesis
    by simp
qed

lemma mset_sample_subset:
  "unit_interval rnd \<Longrightarrow> mset (fst (sample rnd k all)) \<subseteq># mset all"
  using mset_take_subseteq [of 10 "fst (shuffle rnd k all)"]
  by (simp add: fst_sample mset_shuffle)

text \<open>
  Every arrangement of the pool can be drawn: for each list \<open>ys\<close> with the elements of
  \<open>arr\<close> there is a sequence of values in \<open>[0, 1)\<close> for which \<open>shuffle\<close> returns \<open>ys\<close>.
\<close>

lemma shuffle_complete:
  assumes "mset ys = mset arr"
  shows "\<exists>rnd. unit_interval rnd \<and> fst (shuffle rnd k arr) = ys"
proof (cases arr)
  case Nil
  with assms show ?thesis
    by (intro exI [of _ "\<lambda>_. 0"]) simp
next
  case (Cons x xs)
  from assms have "length ys = length arr"
    by (rule mset_eq_length)
  with assms Cons show ?thesis
    unfolding shuffle_def by (intro shuffle_loop_complete) simp_all
qed

lemma mset_selection_rest:
  assumes "distinct ys" "distinct all" "set ys \<subseteq> set all"
  shows "mset (ys @ filter (\<lambda>x. x \<notin> set ys) all) = mset all"
proof -
  have "distinct (ys @ filter (\<lambda>x. x \<notin> set ys) all)"
    using assms by auto
  moreover have "set (ys @ filter (\<lambda>x. x \<notin> set ys) all) = set all"
    using assms(3) by auto
  ultimately show ?thesis
    using assms(2) by (metis set_eq_iff_mset_eq_distinct)
qed

section \<open>Contract of the sampler\<close>

text \<open>
  C1. Whenever \<^verbatim>\<open>Math.random\<close> keeps its contract (every value in \<open>[0, 1)\<close>), the array
  returned by \<open>shuffle\<close> is a permutation of its argument: same elements with the same
  multiplicities, and hence the same length. The loop consumes exactly one random value
  per iteration, \<open>length arr - 1\<close> in all.
\<close>

theorem shuffle_permutation:
  assumes "unit_interval rnd"
  shows "mset (fst (shuffle rnd k arr)) = mset arr
    \<and> length (fst (shuffle rnd k arr)) = length arr
    \<and> snd (shuffle rnd k arr) = k + (length arr - 1)"
  using assms by (simp add: mset_shuffle)

theorem shuffle_permutation_witness:
  "unit_interval (\<lambda>_. 0)
   \<and> fst (shuffle (\<lambda>_. 0) 0 [1, 2, 3 :: nat]) = [2, 3, 1]
   \<and> mset (fst (shuffle (\<lambda>_. 0) 0 [1, 2, 3 :: nat])) = mset [1, 2, 3]
   \<and> snd (shuffle (\<lambda>_. 0) 0 [1, 2, 3 :: nat]) = 2"
  using shuffle_permutation [of "\<lambda>_. 0" 0 "[1, 2, 3 :: nat]"]
  by (simp add: shuffle_def swap_def random_index_def numeral_2_eq_2)

text \<open>
  C2. The sample \<^verbatim>\<open>shuffle(all).slice(0, 10)\<close> has \<open>min 10 (length all)\<close> elements, each
  of them an element of the pool, and no element of a duplicate-free pool occurs twice:
  a pool shorter than ten questions is used as it is, without padding or repetition.
\<close>

theorem sample_contract:
  assumes "unit_interval rnd" and "distinct all"
  shows "length (fst (sample rnd k all)) = min 10 (length all)
    \<and> set (fst (sample rnd k all)) \<subseteq> set all
    \<and> distinct (fst (sample rnd k all))"
  using assms by (simp add: set_sample_subset distinct_sample)

theorem sample_contract_witness:
  "unit_interval (\<lambda>_. 0) \<and> distinct [1, 2, 3 :: nat]
   \<and> fst (sample (\<lambda>_. 0) 0 [1, 2, 3 :: nat]) = [2, 3, 1]
   \<and> length (fst (sample (\<lambda>_. 0) 0 [1, 2, 3 :: nat])) = min 10 (length [1, 2, 3 :: nat])
   \<and> distinct (fst (sample (\<lambda>_. 0) 0 [1, 2, 3 :: nat]))"
  using sample_contract [of "\<lambda>_. 0" "[1, 2, 3 :: nat]" 0]
  by (simp add: sample_eq shuffle_def swap_def random_index_def numeral_2_eq_2)

text \<open>
  C25. Every selection can be drawn: for a duplicate-free pool, each duplicate-free list of
  \<open>min 10 (length all)\<close> of its questions, in any order, is the sample for some sequence
  of values in \<open>[0, 1)\<close>. The sampler excludes no question, no combination and no
  ordering.
\<close>

theorem every_selection_drawn:
  assumes "distinct ys" and "distinct all" and "set ys \<subseteq> set all"
    and "length ys = min 10 (length all)"
  shows "\<exists>rnd. unit_interval rnd \<and> fst (sample rnd k all) = ys"
proof -
  let ?zs = "ys @ filter (\<lambda>x. x \<notin> set ys) all"
  have m: "mset ?zs = mset all"
    using assms(1-3) by (rule mset_selection_rest)
  then have "length ?zs = length all"
    by (rule mset_eq_length)
  with assms(4) have "take 10 ?zs = ys"
    by (auto simp: min_def split: if_splits)
  moreover from m obtain rnd where "unit_interval rnd" "fst (shuffle rnd k all) = ?zs"
    using shuffle_complete by blast
  ultimately show ?thesis
    by (auto simp: fst_sample)
qed

theorem every_selection_drawn_witness:
  "distinct (rev [2 ..< 12]) \<and> distinct [0 ..< 12] \<and> set (rev [2 ..< 12]) \<subseteq> set [0 ..< 12]
   \<and> length (rev [2 ..< 12]) = min 10 (length [0 ..< 12])
   \<and> (\<exists>rnd. unit_interval rnd \<and> fst (sample rnd 0 [0 ..< 12]) = rev [2 ..< 12])"
  using every_selection_drawn [of "rev [2 ..< 12]" "[0 ..< 12]" 0] by simp

text \<open>
  C26. The \<^verbatim>\<open>for\<close> loop of \<open>shuffle\<close> ends for every array and every sequence of draws, also
  one that breaks the contract of \<^verbatim>\<open>Math.random\<close>: the loop written with \<open>while_option\<close>
  returns a result, and it is the result of the recursive form \<open>shuffle\<close> that the other
  theorems are about.
\<close>

theorem shuffle_terminates: "shuffle_while rnd k arr = Some (shuffle rnd k arr)"
  by (simp add: shuffle_while_def while_shuffle_loop shuffle_def)

end
