(* ===== verification/Session.thy ===== *)
theory Session
  imports QuizLab_Prelude
begin

text \<open>
  The session state of \<^verbatim>\<open>src/script.js\<close>: the question records delivered by the question
  bank and the global variable \<^verbatim>\<open>state\<close> (lines 112-118), together with the three ways
  the program builds a whole new state: the initial value, the state installed by
  \<open>loadCategory\<close> (line 125) and the state installed by the retry button (lines 286-292).

  \<^item> \<open>answers\<close> is the object \<^verbatim>\<open>state.answers\<close>: a partial map from question indices to
    the selected option text; an absent key reads as \<^verbatim>\<open>undefined\<close>.
  \<^item> \<open>index\<close> is a natural number: the only decrement is guarded by \<^verbatim>\<open>state.index > 0\<close>.
  \<^item> \<open>category\<close> is \<open>None\<close> for the initial \<^verbatim>\<open>null\<close>.

  \<open>ex_state\<close> is the session of the specification's scoring example, used to evaluate
  the operations on a concrete input.

  \<open>state_ok\<close> is the well-formedness of a state on which the quiz screen operates;
  \<open>question_ok\<close> is the data model's requirement on a question record.
\<close>

section \<open>Data\<close>

record question =
  question :: string
  options :: "string list"
  answer :: string

record state =
  category :: "string option"
  questions :: "question list"
  index :: nat
  answers :: "nat \<rightharpoonup> string"
  submitted :: bool

definition init_state :: state where
  "init_state =
     \<lparr>category = None, questions = [], index = 0, answers = Map.empty, submitted = False\<rparr>"

definition loaded_state :: "string option \<Rightarrow> question list \<Rightarrow> state" where
  "loaded_state catKey picked =
     \<lparr>category = catKey, questions = picked, index = 0, answers = Map.empty,
      submitted = False\<rparr>"

definition retry_state :: "state \<Rightarrow> state" where
  "retry_state st =
     \<lparr>category = category st, questions = [], index = 0, answers = Map.empty,
      submitted = False\<rparr>"

section \<open>Example data\<close>

text \<open>
  The scoring example of the specification (section 8): three questions with the correct
  answers Paris, 4 and Blue; the user chose Paris for the first and Green for the third
  and left the second open.
\<close>

definition q_paris :: question where
  "q_paris = \<lparr>question = ''Capital of France?'', options = [''Paris'', ''Rome''],
              answer = ''Paris''\<rparr>"

definition q_four :: question where
  "q_four = \<lparr>question = ''2 + 2?'', options = [''3'', ''4''], answer = ''4''\<rparr>"

definition q_blue :: question where
  "q_blue = \<lparr>question = ''Colour of the sky?'', options = [''Blue'', ''Green''],
             answer = ''Blue''\<rparr>"

definition ex_state :: state where
  "ex_state =
     \<lparr>category = Some ''programming'', questions = [q_paris, q_four, q_blue], index = 0,
      answers = [0 \<mapsto> ''Paris'', 2 \<mapsto> ''Green''], submitted = False\<rparr>"

lemmas ex_defs = q_paris_def q_four_def q_blue_def ex_state_def

section \<open>Well-formedness\<close>

definition question_ok :: "question \<Rightarrow> bool" where
  "question_ok q \<longleftrightarrow> 2 \<le> length (options q) \<and> answer q \<in> set (options q)"

definition index_ok :: "state \<Rightarrow> bool" where
  "index_ok st \<longleftrightarrow> index st < length (questions st) \<or> (questions st = [] \<and> index st = 0)"

definition answers_ok :: "state \<Rightarrow> bool" where
  "answers_ok st \<longleftrightarrow>
     (\<forall>i v. answers st i = Some v \<longrightarrow>
        i < length (questions st) \<and> v \<in> set (options (questions st ! i)))"

definition state_ok :: "state \<Rightarrow> bool" where
  "state_ok st \<longleftrightarrow> index_ok st \<and> answers_ok st"

lemmas [inv_defs] = index_ok_def answers_ok_def state_ok_def

section \<open>Fields of the example data\<close>

lemma ex_question_fields [simp]:
  "question q_paris = ''Capital of France?''" "options q_paris = [''Paris'', ''Rome'']"
  "answer q_paris = ''Paris''"
  "question q_four = ''2 + 2?''" "options q_four = [''3'', ''4'']" "answer q_four = ''4''"
  "question q_blue = ''Colour of the sky?''" "options q_blue = [''Blue'', ''Green'']"
  "answer q_blue = ''Blue''"
  by (simp_all add: q_paris_def q_four_def q_blue_def)

lemma ex_state_fields [simp]:
  "questions ex_state = [q_paris, q_four, q_blue]"
  "index ex_state = 0"
  "answers ex_state = [0 \<mapsto> ''Paris'', 2 \<mapsto> ''Green'']"
  "submitted ex_state = False"
  "category ex_state = Some ''programming''"
  by (simp_all add: ex_state_def)

section \<open>Fresh states\<close>

lemma init_state_simps [simp]:
  "category init_state = None"
  "questions init_state = []"
  "index init_state = 0"
  "answers init_state = Map.empty"
  "submitted init_state = False"
  by (simp_all add: init_state_def)

lemma loaded_state_simps [simp]:
  "category (loaded_state c qs) = c"
  "questions (loaded_state c qs) = qs"
  "index (loaded_state c qs) = 0"
  "answers (loaded_state c qs) = Map.empty"
  "submitted (loaded_state c qs) = False"
  by (simp_all add: loaded_state_def)

lemma retry_state_simps [simp]:
  "category (retry_state st) = category st"
  "questions (retry_state st) = []"
  "index (retry_state st) = 0"
  "answers (retry_state st) = Map.empty"
  "submitted (retry_state st) = False"
  by (simp_all add: retry_state_def)

lemma state_ok_init [simp]: "state_ok init_state"
  by (simp add: inv_defs)

lemma state_ok_loaded [simp]: "state_ok (loaded_state c qs)"
  by (cases qs) (simp_all add: inv_defs)

lemma state_ok_retry [simp]: "state_ok (retry_state st)"
  by (simp add: inv_defs)

lemma index_ok_bound: "index_ok st \<Longrightarrow> questions st \<noteq> [] \<Longrightarrow> index st < length (questions st)"
  by (auto simp: index_ok_def)

lemma answers_okD:
  "answers_ok st \<Longrightarrow> answers st i = Some v \<Longrightarrow>
   i < length (questions st) \<and> v \<in> set (options (questions st ! i))"
  by (simp add: answers_ok_def)

lemma answers_ok_dom: "answers_ok st \<Longrightarrow> dom (answers st) \<subseteq> {..<length (questions st)}"
  by (auto simp: answers_ok_def)

end
