(* ===== verification/Page.thy ===== *)
theory Page
  imports QuizLab_Prelude
begin

text \<open>
  The part of the document that \<^verbatim>\<open>src/script.js\<close> reads and writes, as a record.

  \<^item> \<open>screen\<close> names the five sections the program shows and hides; \<open>hidden\<close> is the set
    of sections that carry the class \<^verbatim>\<open>hidden\<close>. \<open>show_el\<close> and \<open>hide\<close> are the functions
    \<^verbatim>\<open>show\<close> and \<^verbatim>\<open>hide\<close> (lines 30-31).
  \<^item> \<open>option_btns\<close> is the content of \<^verbatim>\<open>#options\<close>: one entry per button, with its text
    and whether it carries the class \<^verbatim>\<open>selected\<close>.
  \<^item> \<open>review_list\<close> is the content of \<^verbatim>\<open>#review-list\<close>: one entry per item, holding the
    values the template at lines 197-202 interpolates. The markup around them is fixed
    text and is not modelled.
  \<^item> \<open>blank_page\<close> is a page as a signed-in user sees it before the first quiz: the
    dashboard is shown, the quiz and review screens are hidden and empty. It serves as a
    concrete input; no lemma depends on the initial page being this one.
  \<^item> \<open>progress\<close> is the number of percent assigned to the width of \<^verbatim>\<open>#progress\<close>.
\<close>

section \<open>Data\<close>

datatype screen = AuthScreen | Topbar | Dashboard | QuizScreen | ReviewScreen

record option_btn =
  label :: string
  selected :: bool

record review_item =
  is_correct :: bool
  q_label :: string
  q_text :: string
  your :: string
  your_muted :: bool
  correct_answer :: string

record page =
  hidden :: "screen set"
  quiz_title :: string
  question_text :: string
  option_btns :: "option_btn list"
  prev_disabled :: bool
  next_disabled :: bool
  progress :: real
  review_list :: "review_item list"
  score :: string

definition show_el :: "screen \<Rightarrow> page \<Rightarrow> page" where
  "show_el el p = p\<lparr>hidden := hidden p - {el}\<rparr>"

definition hide :: "screen \<Rightarrow> page \<Rightarrow> page" where
  "hide el p = p\<lparr>hidden := insert el (hidden p)\<rparr>"

definition visible :: "page \<Rightarrow> screen \<Rightarrow> bool" where
  "visible p el \<longleftrightarrow> el \<notin> hidden p"

definition blank_page :: page where
  "blank_page =
     \<lparr>hidden = {AuthScreen, QuizScreen, ReviewScreen}, quiz_title = [], question_text = [],
      option_btns = [], prev_disabled = False, next_disabled = False, progress = 0,
      review_list = [], score = []\<rparr>"

lemmas [dom_defs] = show_el_def hide_def visible_def

section \<open>Showing and hiding\<close>

lemma hidden_show_el [simp]: "hidden (show_el el p) = hidden p - {el}"
  by (simp add: show_el_def)

lemma hidden_hide [simp]: "hidden (hide el p) = insert el (hidden p)"
  by (simp add: hide_def)

lemma visible_show_el [simp]: "visible (show_el el p) el' \<longleftrightarrow> el' = el \<or> visible p el'"
  by (auto simp: visible_def)

lemma visible_hide [simp]: "visible (hide el p) el' \<longleftrightarrow> el' \<noteq> el \<and> visible p el'"
  by (auto simp: visible_def)

lemma visible_update_other [simp]:
  "visible (p\<lparr>quiz_title := t\<rparr>) el = visible p el"
  "visible (p\<lparr>question_text := t\<rparr>) el = visible p el"
  "visible (p\<lparr>option_btns := bs\<rparr>) el = visible p el"
  "visible (p\<lparr>prev_disabled := b\<rparr>) el = visible p el"
  "visible (p\<lparr>next_disabled := b\<rparr>) el = visible p el"
  "visible (p\<lparr>progress := r\<rparr>) el = visible p el"
  "visible (p\<lparr>review_list := rs\<rparr>) el = visible p el"
  "visible (p\<lparr>score := t\<rparr>) el = visible p el"
  by (simp_all add: visible_def)

lemma show_el_fields [simp, frame]:
  "quiz_title (show_el el p) = quiz_title p"
  "question_text (show_el el p) = question_text p"
  "option_btns (show_el el p) = option_btns p"
  "prev_disabled (show_el el p) = prev_disabled p"
  "next_disabled (show_el el p) = next_disabled p"
  "progress (show_el el p) = progress p"
  "review_list (show_el el p) = review_list p"
  "score (show_el el p) = score p"
  by (simp_all add: show_el_def)

lemma hide_fields [simp, frame]:
  "quiz_title (hide el p) = quiz_title p"
  "question_text (hide el p) = question_text p"
  "option_btns (hide el p) = option_btns p"
  "prev_disabled (hide el p) = prev_disabled p"
  "next_disabled (hide el p) = next_disabled p"
  "progress (hide el p) = progress p"
  "review_list (hide el p) = review_list p"
  "score (hide el p) = score p"
  by (simp_all add: hide_def)

lemma show_el_idem [simp]: "show_el el (show_el el p) = show_el el p"
  by (simp add: show_el_def)

lemma hide_idem [simp]: "hide el (hide el p) = hide el p"
  by (simp add: hide_def)

lemma show_hide_cancel [simp]: "show_el el (hide el p) = show_el el p"
  by (simp add: show_el_def hide_def)

lemma hide_show_cancel [simp]: "hide el (show_el el p) = hide el p"
  by (simp add: show_el_def hide_def)

end
