(* ===== verification/Render.thy ===== *)
theory Render
  imports Session Page
begin

text \<open>
  The renderers of \<^verbatim>\<open>src/script.js\<close>: \<open>renderProgress\<close> (lines 133-136),
  \<open>renderQuestion\<close> (lines 138-161) and \<open>showReview\<close> (lines 187-208). Each takes
  the session state and the page and returns the new page; none of them writes the
  state.

  \<^item> \<open>renderQuestion\<close> reads \<^verbatim>\<open>state.questions[state.index]\<close>. When the index is out
    of range the value is \<^verbatim>\<open>undefined\<close> and the property access at line 140 throws
    before anything has been written: the result is \<open>Inl TypeError\<close>.
  \<^item> \<open>renderProgress\<close> divides by the number of questions. With no questions the
    JavaScript value is \<^verbatim>\<open>NaN\<close> or \<^verbatim>\<open>Infinity\<close>, the assigned width is not a valid
    length and the style keeps its old value: the page is unchanged.
  \<^item> \<open>question_view\<close> is the body of \<open>renderQuestion\<close> after the read (lines 140-160):
    the page it writes for a question \<open>q\<close>; \<open>option_button\<close> is one button built by
    the \<^verbatim>\<open>forEach\<close> callback (lines 143-147).
  \<^item> \<open>review_item_of\<close> is the body of the \<^verbatim>\<open>forEach\<close> callback of \<open>showReview\<close> for
    one question; \<open>correctCount\<close> is the counter the callback increments.

  The lemmas give the result of each renderer field by field, the frame (what a
  renderer leaves alone), the range of the progress value, the way the recorded answer
  is restored as the selected button, and the scoring rule.
\<close>

section \<open>Definitions\<close>

definition renderProgress :: "state \<Rightarrow> page \<Rightarrow> page" where
  "renderProgress st p =
     (if questions st = [] then p
      else p\<lparr>progress := real (index st) / real (length (questions st)) * 100\<rparr>)"

definition option_button :: "state \<Rightarrow> string \<Rightarrow> option_btn" where
  "option_button st opt = \<lparr>label = opt, selected = (answers st (index st) = Some opt)\<rparr>"

definition question_view :: "state \<Rightarrow> question \<Rightarrow> page \<Rightarrow> page" where
  "question_view st q p =
     renderProgress st
       (p\<lparr>question_text := string_of_nat (index st + 1) @ ''. '' @ question q,
          option_btns := map (option_button st) (options q),
          prev_disabled := (index st = 0),
          next_disabled := (int (index st) \<ge> int (length (questions st)) - 1)\<rparr>)"

definition renderQuestion :: "state \<Rightarrow> page \<Rightarrow> js_error + page" where
  "renderQuestion st p =
     (case nth_opt (questions st) (index st) of
        None \<Rightarrow> Inl TypeError
      | Some q \<Rightarrow> Inr (question_view st q p))"

definition review_item_of :: "state \<Rightarrow> nat \<Rightarrow> question \<Rightarrow> review_item" where
  "review_item_of st i q =
     (let your = nullish (answers st i) ''(no answer)'';
          isCorrect = (your = answer q)
      in \<lparr>is_correct = isCorrect,
          q_label = ''Q'' @ string_of_nat (i + 1),
          q_text = question q,
          your = your,
          your_muted = isCorrect,
          correct_answer = answer q\<rparr>)"

definition review_items :: "state \<Rightarrow> review_item list" where
  "review_items st = map (\<lambda>(i, q). review_item_of st i q) (enumerate 0 (questions st))"

definition correctCount :: "state \<Rightarrow> nat" where
  "correctCount st = length (filter is_correct (review_items st))"

definition score_text :: "state \<Rightarrow> string" where
  "score_text st =
     ''Score: '' @ string_of_nat (correctCount st) @ '' / ''
       @ string_of_nat (length (questions st))"

definition showReview :: "state \<Rightarrow> page \<Rightarrow> page" where
  "showReview st p =
     show_el ReviewScreen (hide QuizScreen
       (p\<lparr>review_list := review_items st, score := score_text st\<rparr>))"

lemmas [dom_defs] = renderProgress_def option_button_def question_view_def renderQuestion_def
  review_item_of_def review_items_def correctCount_def score_text_def showReview_def

section \<open>Progress\<close>

lemma renderProgress_fields [simp, frame]:
  "hidden (renderProgress st p) = hidden p"
  "quiz_title (renderProgress st p) = quiz_title p"
  "question_text (renderProgress st p) = question_text p"
  "option_btns (renderProgress st p) = option_btns p"
  "prev_disabled (renderProgress st p) = prev_disabled p"
  "next_disabled (renderProgress st p) = next_disabled p"
  "review_list (renderProgress st p) = review_list p"
  "score (renderProgress st p) = score p"
  by (simp_all add: renderProgress_def)

lemma progress_renderProgress:
  "questions st \<noteq> [] \<Longrightarrow>
   progress (renderProgress st p) = real (index st) / real (length (questions st)) * 100"
  by (simp add: renderProgress_def)

lemma renderProgress_empty [simp]: "questions st = [] \<Longrightarrow> renderProgress st p = p"
  by (simp add: renderProgress_def)

lemma ratio_percent_range:
  fixes i n :: nat
  assumes "i < n"
  shows "0 \<le> real i / real n * 100 \<and> real i / real n * 100 < 100"
proof -
  define x where "x = real i / real n"
  from assms have "0 < real n" by simp
  with assms have "x < 1" and "0 \<le> x"
    by (simp_all add: x_def divide_less_eq_1_pos)
  then have "0 \<le> x * 100 \<and> x * 100 < 100"
    by simp
  then show ?thesis
    by (simp only: x_def)
qed

lemma progress_range:
  assumes "index st < length (questions st)"
  shows "0 \<le> progress (renderProgress st p) \<and> progress (renderProgress st p) < 100"
proof -
  from assms have ne: "questions st \<noteq> []" by auto
  from ne have "progress (renderProgress st p)
      = real (index st) / real (length (questions st)) * 100"
    by (rule progress_renderProgress)
  with ratio_percent_range [OF assms] show ?thesis
    by (simp only:)
qed

section \<open>The question view\<close>

lemma label_option_button [simp]: "label (option_button st opt) = opt"
  by (simp add: option_button_def)

lemma selected_option_button [simp]:
  "selected (option_button st opt) \<longleftrightarrow> answers st (index st) = Some opt"
  by (simp add: option_button_def)

lemma label_comp_option_button [simp]: "label \<circ> option_button st = (\<lambda>opt. opt)"
  by (simp add: fun_eq_iff)

lemma question_view_fields [simp]:
  "question_text (question_view st q p) = string_of_nat (index st + 1) @ ''. '' @ question q"
  "option_btns (question_view st q p) = map (option_button st) (options q)"
  "prev_disabled (question_view st q p) \<longleftrightarrow> index st = 0"
  "next_disabled (question_view st q p) \<longleftrightarrow> length (questions st) \<le> index st + 1"
  "hidden (question_view st q p) = hidden p"
  "quiz_title (question_view st q p) = quiz_title p"
  "review_list (question_view st q p) = review_list p"
  "score (question_view st q p) = score p"
  by (auto simp: question_view_def)

lemma progress_question_view:
  "questions st \<noteq> [] \<Longrightarrow>
   progress (question_view st q p) = real (index st) / real (length (questions st)) * 100"
  by (simp add: question_view_def progress_renderProgress)

lemma visible_question_view [simp]: "visible (question_view st q p) el = visible p el"
  by (simp add: visible_def)

lemma labels_question_view: "map label (option_btns (question_view st q p)) = options q"
  by simp

lemma question_view_cong:
  assumes "questions st = questions st'" and "index st = index st'"
    and "answers st (index st) = answers st' (index st')"
  shows "question_view st q p = question_view st' q p"
proof -
  from assms have "option_button st = option_button st'"
    by (simp add: option_button_def fun_eq_iff)
  moreover from assms have "renderProgress st = renderProgress st'"
    by (simp add: renderProgress_def fun_eq_iff)
  ultimately show ?thesis
    using assms(1,2) by (simp add: question_view_def)
qed

lemma renderQuestion_in_range:
  "index st < length (questions st) \<Longrightarrow>
   renderQuestion st p = Inr (question_view st (questions st ! index st) p)"
  by (simp add: renderQuestion_def)

lemma renderQuestion_out_of_range:
  "length (questions st) \<le> index st \<Longrightarrow> renderQuestion st p = Inl TypeError"
  by (simp add: renderQuestion_def)

lemma renderQuestion_error_iff:
  "renderQuestion st p = Inl e \<longleftrightarrow> e = TypeError \<and> length (questions st) \<le> index st"
  by (cases "index st < length (questions st)")
     (auto simp: renderQuestion_in_range renderQuestion_out_of_range)

lemma renderQuestion_Inr_iff:
  "renderQuestion st p = Inr p' \<longleftrightarrow>
   index st < length (questions st) \<and> p' = question_view st (questions st ! index st) p"
  by (cases "index st < length (questions st)")
     (auto simp: renderQuestion_in_range renderQuestion_out_of_range)

lemma renderQuestion_total:
  "index st < length (questions st) \<Longrightarrow> \<exists>p'. renderQuestion st p = Inr p'"
  by (simp add: renderQuestion_in_range)

lemma renderQuestion_visible:
  "renderQuestion st p = Inr p' \<Longrightarrow> visible p' el = visible p el"
  by (simp add: renderQuestion_Inr_iff)

lemma renderQuestion_labels:
  "renderQuestion st p = Inr p' \<Longrightarrow>
   map label (option_btns p') = options (questions st ! index st)"
  by (simp add: renderQuestion_Inr_iff)

lemma renderQuestion_selected:
  assumes "renderQuestion st p = Inr p'" and "b \<in> set (option_btns p')"
  shows "selected b \<longleftrightarrow> answers st (index st) = Some (label b)"
  using assms by (auto simp: renderQuestion_Inr_iff)

lemma renderQuestion_none_selected:
  assumes "renderQuestion st p = Inr p'" and "answers st (index st) = None"
  shows "\<forall>b \<in> set (option_btns p'). \<not> selected b"
  using assms by (auto simp: renderQuestion_Inr_iff)

lemma renderQuestion_state_cong:
  assumes "questions st = questions st'" and "index st = index st'"
    and "answers st (index st) = answers st' (index st')"
  shows "renderQuestion st p = renderQuestion st' p"
  using assms question_view_cong [OF assms]
  by (simp add: renderQuestion_def split: option.splits)

lemma renderQuestion_progress_range:
  assumes "renderQuestion st p = Inr p'"
  shows "0 \<le> progress p' \<and> progress p' < 100"
proof -
  from assms have lt: "index st < length (questions st)"
    and p': "p' = question_view st (questions st ! index st) p"
    by (simp_all add: renderQuestion_Inr_iff)
  from lt have "questions st \<noteq> []" by auto
  then have "progress p' = real (index st) / real (length (questions st)) * 100"
    by (simp add: p' progress_question_view)
  with ratio_percent_range [OF lt] show ?thesis
    by (simp only:)
qed

section \<open>The review\<close>

lemma length_review_items [simp]: "length (review_items st) = length (questions st)"
  by (simp add: review_items_def)

lemma nth_review_items:
  "i < length (questions st) \<Longrightarrow> review_items st ! i = review_item_of st i (questions st ! i)"
  by (simp add: review_items_def nth_enumerate_eq)

lemma review_item_of_simps [simp]:
  "is_correct (review_item_of st i q) \<longleftrightarrow> nullish (answers st i) ''(no answer)'' = answer q"
  "your (review_item_of st i q) = nullish (answers st i) ''(no answer)''"
  "correct_answer (review_item_of st i q) = answer q"
  "q_text (review_item_of st i q) = question q"
  "q_label (review_item_of st i q) = ''Q'' @ string_of_nat (i + 1)"
  "your_muted (review_item_of st i q) \<longleftrightarrow> nullish (answers st i) ''(no answer)'' = answer q"
  by (simp_all add: review_item_of_def Let_def)

lemma correctCount_le: "correctCount st \<le> length (questions st)"
  unfolding correctCount_def
  by (rule order_trans [OF length_filter_le]) simp

lemma review_items_cong:
  "questions st = questions st' \<Longrightarrow> answers st = answers st' \<Longrightarrow>
   review_items st = review_items st'"
  by (simp add: review_items_def review_item_of_def)

lemma correctCount_cong:
  "questions st = questions st' \<Longrightarrow> answers st = answers st' \<Longrightarrow>
   correctCount st = correctCount st'"
  using review_items_cong [of st st'] by (simp add: correctCount_def)

lemma correctCount_card:
  "correctCount st =
     card {i. i < length (questions st) \<and>
              nullish (answers st i) ''(no answer)'' = answer (questions st ! i)}"
proof -
  have "correctCount st = card {i. i < length (review_items st) \<and> is_correct (review_items st ! i)}"
    by (simp add: correctCount_def length_filter_conv_card)
  also have "{i. i < length (review_items st) \<and> is_correct (review_items st ! i)}
      = {i. i < length (questions st) \<and>
            nullish (answers st i) ''(no answer)'' = answer (questions st ! i)}"
    by (auto simp: nth_review_items)
  finally show ?thesis .
qed

lemma review_items_update [simp]:
  "review_items (st\<lparr>index := i\<rparr>) = review_items st"
  "review_items (st\<lparr>submitted := b\<rparr>) = review_items st"
  "review_items (st\<lparr>category := c\<rparr>) = review_items st"
  by (rule review_items_cong; simp)+

lemma correctCount_update [simp]:
  "correctCount (st\<lparr>index := i\<rparr>) = correctCount st"
  "correctCount (st\<lparr>submitted := b\<rparr>) = correctCount st"
  "correctCount (st\<lparr>category := c\<rparr>) = correctCount st"
  by (simp_all add: correctCount_def)

lemma score_text_update [simp]:
  "score_text (st\<lparr>index := i\<rparr>) = score_text st"
  "score_text (st\<lparr>submitted := b\<rparr>) = score_text st"
  "score_text (st\<lparr>category := c\<rparr>) = score_text st"
  by (simp_all add: score_text_def)

lemma showReview_fields [simp]:
  "review_list (showReview st p) = review_items st"
  "score (showReview st p) = score_text st"
  "hidden (showReview st p) = insert QuizScreen (hidden p) - {ReviewScreen}"
  "quiz_title (showReview st p) = quiz_title p"
  "question_text (showReview st p) = question_text p"
  "option_btns (showReview st p) = option_btns p"
  "prev_disabled (showReview st p) = prev_disabled p"
  "next_disabled (showReview st p) = next_disabled p"
  "progress (showReview st p) = progress p"
  by (simp_all add: showReview_def)

lemma visible_showReview [simp]:
  "visible (showReview st p) el \<longleftrightarrow> el = ReviewScreen \<or> (el \<noteq> QuizScreen \<and> visible p el)"
  by (auto simp: visible_def)

lemma showReview_idem: "showReview st (showReview st p) = showReview st p"
proof -
  have "insert QuizScreen (insert QuizScreen (hidden p) - {ReviewScreen}) - {ReviewScreen}
      = insert QuizScreen (hidden p) - {ReviewScreen}"
    by auto
  then show ?thesis
    by (simp add: showReview_def show_el_def hide_def)
qed

section \<open>Contract of the renderers\<close>


text \<open>
  C10. Scoring rule: the score is the number of questions whose recorded answer, or the
  placeholder text when there is none, is equal to the correct answer as a string; it
  never exceeds the number of questions; item \<open>i\<close> of the review list is the verdict for
  question \<open>i\<close>; and the score line shows the count and the number of questions.
\<close>

theorem scoring_rule:
  "correctCount st =
     card {i. i < length (questions st) \<and>
              nullish (answers st i) ''(no answer)'' = answer (questions st ! i)}
   \<and> correctCount st \<le> length (questions st)
   \<and> length (review_list (showReview st p)) = length (questions st)
   \<and> score (showReview st p) =
       ''Score: '' @ string_of_nat (correctCount st) @ '' / ''
         @ string_of_nat (length (questions st))"
  using correctCount_card [of st] correctCount_le [of st] by (simp add: score_text_def)

text \<open>
  C7. A successful \<open>renderQuestion\<close> shows the question at the current index: the
  numbered prompt, one button per option in order, a button selected exactly when its
  text is the answer recorded for this index, the previous button disabled exactly on
  the first question and the next button exactly on the last. It does not show or hide
  any screen.
\<close>

theorem renderQuestion_shows_current:
  assumes "renderQuestion st p = Inr p'"
  shows "question_text p' =
           string_of_nat (index st + 1) @ ''. '' @ question (questions st ! index st)
    \<and> map label (option_btns p') = options (questions st ! index st)
    \<and> (\<forall>b \<in> set (option_btns p'). selected b \<longleftrightarrow> answers st (index st) = Some (label b))
    \<and> (prev_disabled p' \<longleftrightarrow> index st = 0)
    \<and> (next_disabled p' \<longleftrightarrow> index st + 1 = length (questions st))
    \<and> hidden p' = hidden p"
  using assms by (auto simp: renderQuestion_Inr_iff)

theorem renderQuestion_shows_current_witness:
  "renderQuestion ex_state blank_page =
     Inr (blank_page\<lparr>question_text := ''1. Capital of France?'',
            option_btns := [\<lparr>label = ''Paris'', selected = True\<rparr>,
                            \<lparr>label = ''Rome'', selected = False\<rparr>],
            prev_disabled := True, next_disabled := False, progress := 0\<rparr>)
   \<and> map label (option_btns (blank_page\<lparr>question_text := ''1. Capital of France?'',
            option_btns := [\<lparr>label = ''Paris'', selected = True\<rparr>,
                            \<lparr>label = ''Rome'', selected = False\<rparr>],
            prev_disabled := True, next_disabled := False, progress := 0\<rparr>))
       = options (questions ex_state ! index ex_state)"
proof -
  have r: "renderQuestion ex_state blank_page =
     Inr (blank_page\<lparr>question_text := ''1. Capital of France?'',
            option_btns := [\<lparr>label = ''Paris'', selected = True\<rparr>,
                            \<lparr>label = ''Rome'', selected = False\<rparr>],
            prev_disabled := True, next_disabled := False, progress := 0\<rparr>)"
    by (simp add: renderQuestion_def question_view_def renderProgress_def option_button_def
          ex_defs blank_page_def digit_char_def)
  from renderQuestion_shows_current [OF r] r show ?thesis
    by simp
qed

text \<open>
  \<open>renderQuestion\<close> fails exactly when the current index is not the index of a
  question, in particular whenever the question list is empty; the failure is a
  \<open>TypeError\<close> and nothing has been written to the page.
\<close>

theorem renderQuestion_fails_iff:
  "(\<exists>e. renderQuestion st p = Inl e) \<longleftrightarrow> length (questions st) \<le> index st"
  by (auto simp: renderQuestion_error_iff)

text \<open>
  C40. The progress value written by a successful \<open>renderQuestion\<close> is the share of
  questions before the current one, in percent: it is at least 0 and strictly below 100,
  also on the last question.
\<close>

theorem progress_bounds:
  assumes "renderQuestion st p = Inr p'"
  shows "progress p' = real (index st) / real (length (questions st)) * 100
    \<and> 0 \<le> progress p' \<and> progress p' < 100"
proof -
  from assms have "index st < length (questions st)"
    by (simp add: renderQuestion_Inr_iff)
  then have "questions st \<noteq> []" by auto
  with assms have "progress p' = real (index st) / real (length (questions st)) * 100"
    by (simp add: renderQuestion_Inr_iff progress_question_view)
  with renderQuestion_progress_range [OF assms] show ?thesis
    by simp
qed

theorem progress_bounds_witness:
  "renderQuestion (ex_state\<lparr>index := 2\<rparr>) blank_page =
     Inr (question_view (ex_state\<lparr>index := 2\<rparr>) q_blue blank_page)
   \<and> progress (question_view (ex_state\<lparr>index := 2\<rparr>) q_blue blank_page) = 200 / 3
   \<and> progress (question_view (ex_state\<lparr>index := 2\<rparr>) q_blue blank_page) < 100"
proof -
  have r: "renderQuestion (ex_state\<lparr>index := 2\<rparr>) blank_page =
     Inr (question_view (ex_state\<lparr>index := 2\<rparr>) q_blue blank_page)"
    by (simp add: renderQuestion_def ex_state_def)
  from progress_bounds [OF r] r show ?thesis
    by (simp add: ex_state_def)
qed

end
