(* ===== verification/Quiz.thy ===== *)
theory Quiz
  imports Shuffle Render
begin

text \<open>
  The quiz engine of \<^verbatim>\<open>src/script.js\<close>: category loading (lines 101-130), the click
  handlers of the quiz screen (option buttons at lines 148-153, navigation at lines
  164-169, submission at lines 172-184) and of the header buttons (lines 275-303).

  The application state \<open>app\<close> holds the global variable \<^verbatim>\<open>state\<close>, the page, the
  number of values \<^verbatim>\<open>Math.random\<close> has delivered, the category keys of the fetches in
  flight, and a log of what the program has shown or requested: dialogs, fetches and
  uncaught exceptions, oldest first. Every handler is a function \<open>app \<Rightarrow> app\<close>; what the
  user or the network contributes is an argument (the answer to the confirmation
  dialog, the question pool, the random sequence).

  \<open>loadCategory\<close> is an \<^verbatim>\<open>async\<close> function. \<open>loadCategory_start\<close> is its synchronous
  part up to the first \<^verbatim>\<open>await\<close> (lines 121-122); \<open>loadCategory_resume\<close> is the
  continuation that runs once the pool has arrived (lines 124-129);
  \<open>loadCategory_reject\<close> is the rejection of its promise when the fetch or the
  parsing fails, which leaves state and page alone. The two suspension points of the
  source (lines 122 and 123) are one suspension in the model, since nothing is written
  between them.

  \<open>ex_app\<close> is a concrete application state in the middle of a quiz: the session of
  the specification's scoring example with its first question on screen.

  An exception ends the handler that raised it: \<open>rerender\<close> is a call of
  \<open>renderQuestion\<close> in the last position of a handler, which either installs the new
  page or records the uncaught \<open>TypeError\<close>.
\<close>

section \<open>Application state\<close>

datatype effect = Alert string | Confirm string | Fetch string | Uncaught js_error

record app =
  state :: state
  document :: page
  rng :: nat
  pending :: "string option list"
  log :: "effect list"

definition CATEGORY_MAP :: "(string \<times> string) list" where
  "CATEGORY_MAP =
     [(''programming'', ''Programming''),
      (''cybersecurity'', ''Cyber Security''),
      (''machine_learning'', ''Machine Learning''),
      (''web_development'', ''Web Development''),
      (''microservices'', ''Microservices''),
      (''devops'', ''DevOps''),
      (''software_development'', ''Software Development''),
      (''data_science'', ''Data Science'')]"

definition key_text :: "string option \<Rightarrow> string" where
  "key_text catKey = nullish catKey ''null''"

definition category_title :: "string option \<Rightarrow> string" where
  "category_title catKey = nullish (map_of CATEGORY_MAP (key_text catKey)) ''undefined''"

definition bullet :: string where
  "bullet = [char_of (0xE2 :: nat), char_of (0x80 :: nat), char_of (0xA2 :: nat)]"

definition title_text :: "string option \<Rightarrow> string" where
  "title_text catKey = ''Quiz '' @ bullet @ '' '' @ category_title catKey"

section \<open>Category loading\<close>

definition loadCategory_start :: "string option \<Rightarrow> app \<Rightarrow> app" where
  "loadCategory_start catKey a =
     (let file = key_text catKey @ ''.json''
      in a\<lparr>pending := pending a @ [catKey], log := log a @ [Fetch file]\<rparr>)"

definition loadCategory_resume :: "rand \<Rightarrow> string option \<Rightarrow> question list \<Rightarrow> app \<Rightarrow> app" where
  "loadCategory_resume rnd catKey all a =
     (let (picked, k) = sample rnd (rng a) all;
          st = loaded_state catKey picked;
          p = (document a)\<lparr>quiz_title := title_text catKey\<rparr>;
          a1 = a\<lparr>state := st, document := p, rng := k\<rparr>
      in case renderQuestion st p of
           Inl e \<Rightarrow> a1\<lparr>log := log a1 @ [Uncaught e]\<rparr>
         | Inr p' \<Rightarrow> a1\<lparr>document := show_el QuizScreen (hide Dashboard p')\<rparr>)"

definition loadCategory_reject :: "js_error \<Rightarrow> app \<Rightarrow> app" where
  "loadCategory_reject e a = a\<lparr>log := log a @ [Uncaught e]\<rparr>"

section \<open>Quiz screen\<close>

definition rerender :: "app \<Rightarrow> app" where
  "rerender a =
     (case renderQuestion (state a) (document a) of
        Inl e \<Rightarrow> a\<lparr>log := log a @ [Uncaught e]\<rparr>
      | Inr p \<Rightarrow> a\<lparr>document := p\<rparr>)"

definition option_click :: "nat \<Rightarrow> app \<Rightarrow> app" where
  "option_click n a =
     (case nth_opt (option_btns (document a)) n of
        None \<Rightarrow> a
      | Some btn \<Rightarrow>
          a\<lparr>state := (state a)\<lparr>answers := (answers (state a))(index (state a) \<mapsto> label btn)\<rparr>,
            document := (document a)\<lparr>option_btns :=
              (map (\<lambda>b. b\<lparr>selected := False\<rparr>) (option_btns (document a)))
                [n := btn\<lparr>selected := True\<rparr>]\<rparr>\<rparr>)"

definition prev_click :: "app \<Rightarrow> app" where
  "prev_click a =
     (if index (state a) > 0
      then rerender (a\<lparr>state := (state a)\<lparr>index := index (state a) - 1\<rparr>\<rparr>)
      else a)"

definition next_click :: "app \<Rightarrow> app" where
  "next_click a =
     (if int (index (state a)) < int (length (questions (state a))) - 1
      then rerender (a\<lparr>state := (state a)\<lparr>index := index (state a) + 1\<rparr>\<rparr>)
      else a)"

definition unanswered :: "state \<Rightarrow> nat list" where
  "unanswered st = [i + 1. i \<leftarrow> [0..<length (questions st)], \<not> truthy (answers st i)]"

definition confirm_text :: "nat list \<Rightarrow> string" where
  "confirm_text us =
     ''You have unanswered questions: '' @ join '', '' (map string_of_nat us)
       @ ''.'' @ [char_of (10 :: nat)] @ ''Submit anyway?''"

definition submit_click :: "bool \<Rightarrow> app \<Rightarrow> app" where
  "submit_click go a =
     (let us = unanswered (state a);
          a1 = (if us \<noteq> [] then a\<lparr>log := log a @ [Confirm (confirm_text us)]\<rparr> else a)
      in if us \<noteq> [] \<and> \<not> go then a1
         else (let st = (state a1)\<lparr>submitted := True\<rparr>
               in a1\<lparr>state := st, document := showReview st (document a1)\<rparr>))"

section \<open>Header buttons\<close>

definition back_to_dashboard_click :: "app \<Rightarrow> app" where
  "back_to_dashboard_click a = a\<lparr>document := show_el Dashboard (hide QuizScreen (document a))\<rparr>"

definition back_to_categories_click :: "app \<Rightarrow> app" where
  "back_to_categories_click a =
     a\<lparr>document := show_el Dashboard (hide ReviewScreen (document a))\<rparr>"

definition home_click :: "app \<Rightarrow> app" where
  "home_click a = a\<lparr>document := show_el Dashboard (hide ReviewScreen (document a))\<rparr>"

definition retry_click :: "app \<Rightarrow> app" where
  "retry_click a =
     (let a1 = a\<lparr>state := retry_state (state a)\<rparr>;
          a2 = a1\<lparr>document := show_el QuizScreen (hide ReviewScreen (document a1))\<rparr>;
          a3 = loadCategory_start (category (state a2)) a2
      in rerender a3)"

definition ex_app :: app where
  "ex_app =
     \<lparr>state = ex_state,
      document = show_el QuizScreen (hide Dashboard (question_view ex_state q_paris blank_page)),
      rng = 0, pending = [], log = []\<rparr>"

lemmas [handler_defs] = loadCategory_start_def loadCategory_resume_def loadCategory_reject_def
  rerender_def option_click_def prev_click_def next_click_def submit_click_def
  back_to_dashboard_click_def back_to_categories_click_def home_click_def retry_click_def

section \<open>Results of category loading\<close>

lemma loadCategory_start_fields [simp]:
  "state (loadCategory_start c a) = state a"
  "document (loadCategory_start c a) = document a"
  "rng (loadCategory_start c a) = rng a"
  "pending (loadCategory_start c a) = pending a @ [c]"
  "log (loadCategory_start c a) = log a @ [Fetch (key_text c @ ''.json'')]"
  by (simp_all add: loadCategory_start_def)

lemma loadCategory_reject_fields [simp]:
  "state (loadCategory_reject e a) = state a"
  "document (loadCategory_reject e a) = document a"
  "rng (loadCategory_reject e a) = rng a"
  "pending (loadCategory_reject e a) = pending a"
  "log (loadCategory_reject e a) = log a @ [Uncaught e]"
  by (simp_all add: loadCategory_reject_def)

lemma sample_empty_iff [simp]: "fst (sample rnd k all) = [] \<longleftrightarrow> all = []"
  using length_sample [of rnd k all] by (cases all) (auto simp del: length_sample)

lemma loadCategory_resume_empty:
  "loadCategory_resume rnd c [] a =
     a\<lparr>state := loaded_state c [],
       document := (document a)\<lparr>quiz_title := title_text c\<rparr>,
       rng := rng a,
       log := log a @ [Uncaught TypeError]\<rparr>"
  by (simp add: loadCategory_resume_def sample_eq renderQuestion_out_of_range)

lemma loadCategory_resume_nonempty:
  assumes "all \<noteq> []"
  shows "loadCategory_resume rnd c all a =
     (let st = loaded_state c (fst (sample rnd (rng a) all))
      in a\<lparr>state := st,
           document := show_el QuizScreen (hide Dashboard
             (question_view st (questions st ! 0)
                ((document a)\<lparr>quiz_title := title_text c\<rparr>))),
           rng := rng a + (length all - 1)\<rparr>)"
proof -
  let ?picked = "fst (sample rnd (rng a) all)"
  from assms have "0 < length ?picked"
    by (simp del: length_sample)
  then have "renderQuestion (loaded_state c ?picked) p
      = Inr (question_view (loaded_state c ?picked) (?picked ! 0) p)" for p
    by (simp add: renderQuestion_in_range)
  then show ?thesis
    by (simp add: loadCategory_resume_def Let_def case_prod_beta)
qed

lemma state_loadCategory_resume [simp]:
  "state (loadCategory_resume rnd c all a) = loaded_state c (fst (sample rnd (rng a) all))"
  by (cases "all = []") (simp_all add: loadCategory_resume_empty loadCategory_resume_nonempty Let_def)

lemma rng_loadCategory_resume [simp]:
  "rng (loadCategory_resume rnd c all a) = rng a + (length all - 1)"
  by (cases "all = []") (simp_all add: loadCategory_resume_empty loadCategory_resume_nonempty Let_def)

lemma pending_loadCategory_resume [simp]:
  "pending (loadCategory_resume rnd c all a) = pending a"
  by (cases "all = []") (simp_all add: loadCategory_resume_empty loadCategory_resume_nonempty Let_def)

lemma log_loadCategory_resume [simp]:
  "log (loadCategory_resume rnd c all a)
     = (if all = [] then log a @ [Uncaught TypeError] else log a)"
  by (cases "all = []") (simp_all add: loadCategory_resume_empty loadCategory_resume_nonempty Let_def)

lemma document_loadCategory_resume:
  "document (loadCategory_resume rnd c all a) =
     (if all = [] then (document a)\<lparr>quiz_title := title_text c\<rparr>
      else show_el QuizScreen (hide Dashboard
             (question_view (loaded_state c (fst (sample rnd (rng a) all)))
                (fst (sample rnd (rng a) all) ! 0)
                ((document a)\<lparr>quiz_title := title_text c\<rparr>))))"
  by (cases "all = []") (simp_all add: loadCategory_resume_empty loadCategory_resume_nonempty Let_def)

section \<open>Results of rendering in tail position\<close>

lemma rerender_in_range:
  "index (state a) < length (questions (state a)) \<Longrightarrow>
   rerender a =
     a\<lparr>document := question_view (state a) (questions (state a) ! index (state a)) (document a)\<rparr>"
  by (simp add: rerender_def renderQuestion_in_range)

lemma rerender_out_of_range:
  "length (questions (state a)) \<le> index (state a) \<Longrightarrow>
   rerender a = a\<lparr>log := log a @ [Uncaught TypeError]\<rparr>"
  by (simp add: rerender_def renderQuestion_out_of_range)

lemma rerender_fields [simp]:
  "state (rerender a) = state a"
  "rng (rerender a) = rng a"
  "pending (rerender a) = pending a"
  by (simp_all add: rerender_def split: sum.splits)

lemma hidden_rerender [simp]: "hidden (document (rerender a)) = hidden (document a)"
  by (cases "index (state a) < length (questions (state a))")
     (simp_all add: rerender_in_range rerender_out_of_range)


section \<open>Results of navigation\<close>

lemma next_guard_iff:
  "int (index st) < int (length (questions st)) - 1 \<longleftrightarrow> index st + 1 < length (questions st)"
  by auto

lemma prev_click_first: "index (state a) = 0 \<Longrightarrow> prev_click a = a"
  by (simp add: prev_click_def)

lemma next_click_last:
  "length (questions (state a)) \<le> index (state a) + 1 \<Longrightarrow> next_click a = a"
  by (simp add: next_click_def next_guard_iff)

lemma prev_click_moves:
  assumes "0 < index (state a)" and "index (state a) \<le> length (questions (state a))"
  shows "prev_click a =
     a\<lparr>state := (state a)\<lparr>index := index (state a) - 1\<rparr>,
       document := question_view ((state a)\<lparr>index := index (state a) - 1\<rparr>)
                     (questions (state a) ! (index (state a) - 1)) (document a)\<rparr>"
  using assms by (simp add: prev_click_def rerender_in_range)

lemma next_click_moves:
  assumes "index (state a) + 1 < length (questions (state a))"
  shows "next_click a =
     a\<lparr>state := (state a)\<lparr>index := index (state a) + 1\<rparr>,
       document := question_view ((state a)\<lparr>index := index (state a) + 1\<rparr>)
                     (questions (state a) ! (index (state a) + 1)) (document a)\<rparr>"
  using assms by (simp add: next_click_def next_guard_iff rerender_in_range)

lemma state_prev_click [simp]:
  "state (prev_click a) = (state a)\<lparr>index := index (state a) - 1\<rparr>"
  by (simp add: prev_click_def)

lemma state_next_click [simp]:
  "state (next_click a) =
     (if index (state a) + 1 < length (questions (state a))
      then (state a)\<lparr>index := index (state a) + 1\<rparr> else state a)"
  by (simp add: next_click_def next_guard_iff)

lemma nav_frame [simp, frame]:
  "rng (prev_click a) = rng a" "pending (prev_click a) = pending a"
  "rng (next_click a) = rng a" "pending (next_click a) = pending a"
  "hidden (document (prev_click a)) = hidden (document a)"
  "hidden (document (next_click a)) = hidden (document a)"
  by (simp_all add: prev_click_def next_click_def)

lemma log_prev_click:
  "index (state a) \<le> length (questions (state a)) \<Longrightarrow> log (prev_click a) = log a"
  by (cases "0 < index (state a)") (simp_all add: prev_click_moves Let_def prev_click_first)

lemma log_next_click [simp]: "log (next_click a) = log a"
  by (cases "index (state a) + 1 < length (questions (state a))")
     (simp_all add: next_click_moves next_click_last)

section \<open>Results of selecting an option\<close>

lemma option_click_no_button:
  "length (option_btns (document a)) \<le> n \<Longrightarrow> option_click n a = a"
  by (simp add: option_click_def)

lemma option_click_button:
  assumes "n < length (option_btns (document a))"
  shows "option_click n a =
     a\<lparr>state := (state a)\<lparr>answers :=
          (answers (state a))(index (state a) \<mapsto> label (option_btns (document a) ! n))\<rparr>,
       document := (document a)\<lparr>option_btns :=
          (map (\<lambda>b. b\<lparr>selected := False\<rparr>) (option_btns (document a)))
            [n := (option_btns (document a) ! n)\<lparr>selected := True\<rparr>]\<rparr>\<rparr>"
  using assms by (simp add: option_click_def)

lemma answers_option_click:
  "n < length (option_btns (document a)) \<Longrightarrow>
   answers (state (option_click n a)) =
     (answers (state a))(index (state a) \<mapsto> label (option_btns (document a) ! n))"
  by (simp add: option_click_button)

lemma option_click_frame [simp, frame]:
  "category (state (option_click n a)) = category (state a)"
  "questions (state (option_click n a)) = questions (state a)"
  "index (state (option_click n a)) = index (state a)"
  "submitted (state (option_click n a)) = submitted (state a)"
  "rng (option_click n a) = rng a"
  "pending (option_click n a) = pending a"
  "log (option_click n a) = log a"
  "hidden (document (option_click n a)) = hidden (document a)"
  "question_text (document (option_click n a)) = question_text (document a)"
  "review_list (document (option_click n a)) = review_list (document a)"
  "score (document (option_click n a)) = score (document a)"
  by (cases "n < length (option_btns (document a))";
      simp add: option_click_button option_click_no_button)+

lemma length_btns_option_click [simp]:
  "length (option_btns (document (option_click n a))) = length (option_btns (document a))"
  by (cases "n < length (option_btns (document a))")
     (simp_all add: option_click_button option_click_no_button)

lemma labels_option_click [simp]:
  "map label (option_btns (document (option_click n a))) = map label (option_btns (document a))"
proof (cases "n < length (option_btns (document a))")
  case True
  then show ?thesis
    by (simp add: option_click_button map_update comp_def list_update_same_conv)
next
  case False
  then show ?thesis
    by (simp add: option_click_no_button)
qed

lemma selected_option_click:
  assumes "n < length (option_btns (document a))" and "m < length (option_btns (document a))"
  shows "selected (option_btns (document (option_click n a)) ! m) \<longleftrightarrow> m = n"
  using assms by (simp add: option_click_button nth_list_update)

section \<open>The unanswered questions\<close>

lemma unanswered_eq:
  "unanswered st = map Suc (filter (\<lambda>i. \<not> truthy (answers st i)) [0..<length (questions st)])"
  by (simp add: unanswered_def concat_map_if)

lemma set_unanswered:
  "set (unanswered st) = {i + 1 | i. i < length (questions st) \<and> \<not> truthy (answers st i)}"
  by (auto simp: unanswered_def)

lemma unanswered_Nil_iff:
  "unanswered st = [] \<longleftrightarrow> (\<forall>i < length (questions st). truthy (answers st i))"
  by (auto simp: unanswered_eq filter_empty_conv)

lemma sorted_unanswered: "sorted (unanswered st) \<and> distinct (unanswered st)"
proof -
  have "sorted (filter (\<lambda>i. \<not> truthy (answers st i)) [0..<length (questions st)])"
    and "distinct (filter (\<lambda>i. \<not> truthy (answers st i)) [0..<length (questions st)])"
    by (simp_all add: sorted_wrt_filter)
  then show ?thesis
    by (simp add: unanswered_eq sorted_map distinct_map sorted_wrt_iff_nth_less)
qed

lemma unanswered_bounds: "n \<in> set (unanswered st) \<Longrightarrow> 1 \<le> n \<and> n \<le> length (questions st)"
  by (auto simp: set_unanswered)

lemma unanswered_cong:
  "questions st = questions st' \<Longrightarrow> answers st = answers st' \<Longrightarrow>
   unanswered st = unanswered st'"
  by (simp add: unanswered_def)

section \<open>Results of submitting\<close>

lemma submit_click_complete:
  assumes "unanswered (state a) = []"
  shows "submit_click go a =
     a\<lparr>state := (state a)\<lparr>submitted := True\<rparr>,
       document := showReview ((state a)\<lparr>submitted := True\<rparr>) (document a)\<rparr>"
  using assms by (simp add: submit_click_def Let_def)

lemma submit_click_declined:
  assumes "unanswered (state a) \<noteq> []"
  shows "submit_click False a =
     a\<lparr>log := log a @ [Confirm (confirm_text (unanswered (state a)))]\<rparr>"
  using assms by (simp add: submit_click_def Let_def)

lemma submit_click_confirmed:
  assumes "unanswered (state a) \<noteq> []"
  shows "submit_click True a =
     a\<lparr>state := (state a)\<lparr>submitted := True\<rparr>,
       document := showReview ((state a)\<lparr>submitted := True\<rparr>) (document a),
       log := log a @ [Confirm (confirm_text (unanswered (state a)))]\<rparr>"
  using assms by (simp add: submit_click_def Let_def)

lemma submit_click_frame [simp, frame]:
  "category (state (submit_click go a)) = category (state a)"
  "questions (state (submit_click go a)) = questions (state a)"
  "index (state (submit_click go a)) = index (state a)"
  "answers (state (submit_click go a)) = answers (state a)"
  "rng (submit_click go a) = rng a"
  "pending (submit_click go a) = pending a"
  "option_btns (document (submit_click go a)) = option_btns (document a)"
  by (simp_all add: submit_click_def Let_def)

lemma state_submit_click:
  "state (submit_click go a) =
     (if unanswered (state a) = [] \<or> go then (state a)\<lparr>submitted := True\<rparr> else state a)"
  by (auto simp: submit_click_def Let_def)

lemma submitted_submit_click:
  "submitted (state (submit_click go a)) \<longleftrightarrow>
   submitted (state a) \<or> unanswered (state a) = [] \<or> go"
  by (auto simp: submit_click_def Let_def)

lemma showReview_submitted_cong [simp]:
  "showReview (st\<lparr>submitted := b\<rparr>) p = showReview st p"
  by (simp add: showReview_def)

lemma document_submit_click:
  "document (submit_click go a) =
     (if unanswered (state a) = [] \<or> go then showReview (state a) (document a)
      else document a)"
  by (auto simp: submit_click_def Let_def)

lemma log_submit_click:
  "log (submit_click go a) =
     (if unanswered (state a) = [] then log a
      else log a @ [Confirm (confirm_text (unanswered (state a)))])"
  by (auto simp: submit_click_def Let_def)

section \<open>Results of the header buttons\<close>

lemma header_click_frame [simp, frame]:
  "state (back_to_dashboard_click a) = state a"
  "state (back_to_categories_click a) = state a"
  "state (home_click a) = state a"
  "log (back_to_dashboard_click a) = log a"
  "log (back_to_categories_click a) = log a"
  "log (home_click a) = log a"
  "pending (back_to_dashboard_click a) = pending a"
  "pending (back_to_categories_click a) = pending a"
  "pending (home_click a) = pending a"
  "rng (back_to_dashboard_click a) = rng a"
  "rng (back_to_categories_click a) = rng a"
  "rng (home_click a) = rng a"
  "option_btns (document (back_to_dashboard_click a)) = option_btns (document a)"
  "option_btns (document (back_to_categories_click a)) = option_btns (document a)"
  "option_btns (document (home_click a)) = option_btns (document a)"
  by (simp_all add: back_to_dashboard_click_def back_to_categories_click_def home_click_def)

lemma hidden_header_click [simp]:
  "hidden (document (back_to_dashboard_click a)) = insert QuizScreen (hidden (document a)) - {Dashboard}"
  "hidden (document (back_to_categories_click a)) = insert ReviewScreen (hidden (document a)) - {Dashboard}"
  "hidden (document (home_click a)) = insert ReviewScreen (hidden (document a)) - {Dashboard}"
  by (simp_all add: back_to_dashboard_click_def back_to_categories_click_def home_click_def)

lemma home_click_eq: "home_click = back_to_categories_click"
  by (simp add: fun_eq_iff home_click_def back_to_categories_click_def)

lemma retry_click_eq:
  "retry_click a =
     a\<lparr>state := retry_state (state a),
       document := show_el QuizScreen (hide ReviewScreen (document a)),
       pending := pending a @ [category (state a)],
       log := log a @ [Fetch (key_text (category (state a)) @ ''.json''), Uncaught TypeError]\<rparr>"
  by (simp add: retry_click_def rerender_out_of_range loadCategory_start_def)

lemma retry_click_fields [simp]:
  "state (retry_click a) = retry_state (state a)"
  "document (retry_click a) = show_el QuizScreen (hide ReviewScreen (document a))"
  "pending (retry_click a) = pending a @ [category (state a)]"
  "rng (retry_click a) = rng a"
  "log (retry_click a) =
     log a @ [Fetch (key_text (category (state a)) @ ''.json''), Uncaught TypeError]"
  by (simp_all add: retry_click_eq)

section \<open>The example state\<close>

lemma ex_app_simps [simp]:
  "state ex_app = ex_state"
  "rng ex_app = 0" "pending ex_app = []" "log ex_app = []"
  "hidden (document ex_app) = {AuthScreen, Dashboard, ReviewScreen}"
  "option_btns (document ex_app) =
     [\<lparr>label = ''Paris'', selected = True\<rparr>, \<lparr>label = ''Rome'', selected = False\<rparr>]"
  by (auto simp: ex_app_def blank_page_def ex_defs option_button_def)

lemma unanswered_ex [simp]: "unanswered ex_state = [2]"
  by (simp add: unanswered_def)

section \<open>Contract of the quiz screen\<close>

text \<open>
  C3. Navigation stays in bounds: if the current index is the index of a question (or 0
  for an empty quiz), it still is after a click on the next or the previous button. The
  next button moves forward by one unless the current question is the last, the
  previous button moves back by one unless it is the first, and at these boundaries the
  handlers change nothing at all.
\<close>

theorem navigation_in_bounds:
  assumes "index_ok (state a)"
  shows "index_ok (state (next_click a)) \<and> index_ok (state (prev_click a))
    \<and> (index (state a) + 1 < length (questions (state a))
         \<longrightarrow> index (state (next_click a)) = index (state a) + 1)
    \<and> (0 < index (state a) \<longrightarrow> index (state (prev_click a)) = index (state a) - 1)
    \<and> (length (questions (state a)) \<le> index (state a) + 1 \<longrightarrow> next_click a = a)
    \<and> (index (state a) = 0 \<longrightarrow> prev_click a = a)"
  using assms by (auto simp: index_ok_def next_click_last prev_click_first)

theorem navigation_in_bounds_witness:
  "index_ok (state ex_app) \<and> index (state (next_click ex_app)) = 1
   \<and> index_ok (state (next_click ex_app)) \<and> prev_click ex_app = ex_app"
  using navigation_in_bounds [of ex_app] by (simp add: index_ok_def)

text \<open>
  Navigation is purely positional: neither handler changes the recorded answers, the
  submission flag or the question list, and neither shows or hides a screen.
\<close>

theorem navigation_frame:
  "answers (state (next_click a)) = answers (state a)
   \<and> answers (state (prev_click a)) = answers (state a)
   \<and> submitted (state (next_click a)) = submitted (state a)
   \<and> submitted (state (prev_click a)) = submitted (state a)
   \<and> questions (state (next_click a)) = questions (state a)
   \<and> questions (state (prev_click a)) = questions (state a)
   \<and> hidden (document (next_click a)) = hidden (document a)
   \<and> hidden (document (prev_click a)) = hidden (document a)"
  by simp

lemma option_click_twice:
  assumes n: "n < length (option_btns (document a))" and m: "m < length (option_btns (document a))"
  shows "option_click m (option_click n a) = option_click m a"
proof -
  let ?bs = "option_btns (document a)"
  let ?bs' = "(map (\<lambda>b. b\<lparr>selected := False\<rparr>) ?bs)[n := (?bs ! n)\<lparr>selected := True\<rparr>]"
  have "map (\<lambda>b. b\<lparr>selected := False\<rparr>) ?bs' = map (\<lambda>b. b\<lparr>selected := False\<rparr>) ?bs"
    using n by (intro nth_equalityI) (auto simp: nth_list_update)
  moreover have "?bs' ! m = (?bs ! m)\<lparr>selected := (m = n)\<rparr>"
    using n m by (simp add: nth_list_update)
  ultimately show ?thesis
    using n m by (simp add: option_click_button)
qed

text \<open>
  C4. Recording an answer overwrites: after a click on option button \<open>n\<close> followed by a
  click on option button \<open>m\<close> of the same question, the recorded answers are those of a
  single click on \<open>m\<close>: the answer for the current index is the text of button \<open>m\<close> and
  the answers of all other questions are untouched. Clicking the same button twice is the
  same as clicking it once.
\<close>

theorem record_overwrites:
  assumes "n < length (option_btns (document a))" and "m < length (option_btns (document a))"
  shows "answers (state (option_click m (option_click n a)))
           = (answers (state a))(index (state a) \<mapsto> label (option_btns (document a) ! m))
    \<and> option_click m (option_click n a) = option_click m a
    \<and> option_click n (option_click n a) = option_click n a"
  using assms by (simp add: option_click_twice answers_option_click)

theorem record_overwrites_witness:
  "answers (state (option_click 1 (option_click 0 ex_app))) 0 = Some ''Rome''
   \<and> answers (state (option_click 1 (option_click 0 ex_app))) 2 = Some ''Green''
   \<and> map selected (option_btns (document (option_click 1 (option_click 0 ex_app)))) = [False, True]"
  using record_overwrites [of 0 ex_app 1]
  by (simp add: option_click_button)

text \<open>
  C9. Submitting a quiz in which every question has a (non-empty) recorded answer needs
  no confirmation: whatever the user would have answered to a dialog, no dialog is shown,
  the session becomes submitted with its answers unchanged, and the page switches from
  the quiz screen to the review of exactly this state.
\<close>

theorem submit_all_answered:
  assumes "unanswered (state a) = []"
  shows "submitted (state (submit_click go a))
    \<and> log (submit_click go a) = log a
    \<and> document (submit_click go a) = showReview (state a) (document a)
    \<and> answers (state (submit_click go a)) = answers (state a)
    \<and> visible (document (submit_click go a)) ReviewScreen
    \<and> \<not> visible (document (submit_click go a)) QuizScreen"
  using assms
  by (simp add: submitted_submit_click log_submit_click document_submit_click)

theorem submit_all_answered_witness:
  "unanswered (state (option_click 1 (next_click ex_app))) = []
   \<and> submitted (state (submit_click False (option_click 1 (next_click ex_app))))
   \<and> log (submit_click False (option_click 1 (next_click ex_app))) = []
   \<and> score (document (submit_click False (option_click 1 (next_click ex_app)))) = ''Score: 2 / 3''"
proof -
  have n: "next_click ex_app = ex_app\<lparr>state := ex_state\<lparr>index := 1\<rparr>,
      document := question_view (ex_state\<lparr>index := 1\<rparr>) q_four (document ex_app)\<rparr>"
    by (simp add: next_click_moves)
  have u: "unanswered (state (option_click 1 (next_click ex_app))) = []"
    by (simp add: n option_click_button unanswered_def ex_defs)
  from submit_all_answered [OF u, of False] u show ?thesis
    by (simp add: n option_click_button score_text_def correctCount_def review_items_def
          ex_defs digit_char_def)
qed

text \<open>
  C5. Submitting with open questions asks for confirmation, naming the open questions.
  If the user declines, nothing but the dialog has happened: state and page are
  unchanged and the session stays editable. If the user confirms, the session becomes
  submitted and the review is shown.
\<close>

theorem submit_incomplete:
  assumes "unanswered (state a) \<noteq> []"
  shows "submit_click False a = a\<lparr>log := log a @ [Confirm (confirm_text (unanswered (state a)))]\<rparr>
    \<and> state (submit_click False a) = state a
    \<and> document (submit_click False a) = document a
    \<and> submitted (state (submit_click True a))
    \<and> document (submit_click True a) = showReview (state a) (document a)
    \<and> log (submit_click True a) = log a @ [Confirm (confirm_text (unanswered (state a)))]"
  using assms
  by (simp add: submit_click_declined submitted_submit_click log_submit_click
        document_submit_click)

theorem submit_incomplete_witness:
  "unanswered (state ex_app) = [2]
   \<and> log (submit_click False ex_app)
       = [Confirm (''You have unanswered questions: 2.'' @ [char_of (10 :: nat)] @ ''Submit anyway?'')]
   \<and> state (submit_click False ex_app) = ex_state
   \<and> submitted (state (submit_click True ex_app))"
  using submit_incomplete [of ex_app]
  by (simp add: confirm_text_def digit_char_def)

text \<open>
  The numbers listed by the submit handler are exactly the one-based positions of
  the questions whose recorded answer is absent or falsy, in ascending order and without
  repetition; the list is empty exactly when every question has a truthy answer. For
  five questions of which the second and the fifth are open the list is 2, 5.
\<close>

theorem unanswered_numbers:
  "set (unanswered st) = {i + 1 | i. i < length (questions st) \<and> \<not> truthy (answers st i)}
   \<and> sorted (unanswered st) \<and> distinct (unanswered st)
   \<and> (unanswered st = [] \<longleftrightarrow> (\<forall>i < length (questions st). truthy (answers st i)))"
  using set_unanswered [of st] sorted_unanswered [of st] unanswered_Nil_iff [of st] by simp

theorem unanswered_numbers_witness:
  "unanswered (ex_state\<lparr>questions := [q_paris, q_four, q_blue, q_paris, q_four],
                        answers := [0 \<mapsto> ''Paris'', 2 \<mapsto> ''Green'', 3 \<mapsto> ''Rome'']\<rparr>) = [2, 5]
   \<and> set (unanswered (ex_state\<lparr>questions := [q_paris, q_four, q_blue, q_paris, q_four],
                        answers := [0 \<mapsto> ''Paris'', 2 \<mapsto> ''Green'', 3 \<mapsto> ''Rome'']\<rparr>)) = {2, 5}"
proof -
  have "unanswered (ex_state\<lparr>questions := [q_paris, q_four, q_blue, q_paris, q_four],
      answers := [0 \<mapsto> ''Paris'', 2 \<mapsto> ''Green'', 3 \<mapsto> ''Rome'']\<rparr>) = [2, 5]"
    by (simp add: unanswered_def upt_rec)
  with unanswered_numbers [of "ex_state\<lparr>questions := [q_paris, q_four, q_blue, q_paris, q_four],
      answers := [0 \<mapsto> ''Paris'', 2 \<mapsto> ''Green'', 3 \<mapsto> ''Rome'']\<rparr>"]
  show ?thesis by simp
qed

section \<open>Contract of category loading\<close>

text \<open>
  C8. When a non-empty pool arrives, \<open>loadCategory\<close> installs a fresh session: the
  sampled questions (ten, or the whole pool if it is smaller), position 0, no answers, not
  submitted, the category key of the request. It shows the quiz screen instead of the
  dashboard, with the category's title and the first question on it, no option selected
  and the previous button disabled, and raises nothing.
\<close>

theorem load_starts_fresh_session:
  assumes "all \<noteq> []"
  shows "questions (state (loadCategory_resume rnd c all a)) = fst (sample rnd (rng a) all)
    \<and> length (questions (state (loadCategory_resume rnd c all a))) = min 10 (length all)
    \<and> category (state (loadCategory_resume rnd c all a)) = c
    \<and> index (state (loadCategory_resume rnd c all a)) = 0
    \<and> answers (state (loadCategory_resume rnd c all a)) = Map.empty
    \<and> \<not> submitted (state (loadCategory_resume rnd c all a))
    \<and> visible (document (loadCategory_resume rnd c all a)) QuizScreen
    \<and> \<not> visible (document (loadCategory_resume rnd c all a)) Dashboard
    \<and> quiz_title (document (loadCategory_resume rnd c all a)) = title_text c
    \<and> map label (option_btns (document (loadCategory_resume rnd c all a)))
        = options (fst (sample rnd (rng a) all) ! 0)
    \<and> (\<forall>b \<in> set (option_btns (document (loadCategory_resume rnd c all a))). \<not> selected b)
    \<and> prev_disabled (document (loadCategory_resume rnd c all a))
    \<and> log (loadCategory_resume rnd c all a) = log a"
  using assms by (auto simp: document_loadCategory_resume)

theorem load_starts_fresh_session_witness:
  "questions (state (loadCategory_resume (\<lambda>_. 0) (Some ''devops'') [q_paris, q_four, q_blue] ex_app))
     = [q_four, q_blue, q_paris]
   \<and> answers (state (loadCategory_resume (\<lambda>_. 0) (Some ''devops'') [q_paris, q_four, q_blue] ex_app))
     = Map.empty
   \<and> map label (option_btns (document
        (loadCategory_resume (\<lambda>_. 0) (Some ''devops'') [q_paris, q_four, q_blue] ex_app)))
     = [''3'', ''4'']
   \<and> quiz_title (document
        (loadCategory_resume (\<lambda>_. 0) (Some ''devops'') [q_paris, q_four, q_blue] ex_app))
     = ''Quiz '' @ bullet @ '' DevOps''"
proof -
  have s: "fst (sample (\<lambda>_. 0) 0 [q_paris, q_four, q_blue]) = [q_four, q_blue, q_paris]"
    by (simp add: sample_eq shuffle_def swap_def random_index_def numeral_2_eq_2)
  have o: "options q_four = [''3'', ''4'']"
    by (simp add: q_four_def)
  from load_starts_fresh_session [of "[q_paris, q_four, q_blue]" "\<lambda>_. 0" "Some ''devops''" ex_app]
  show ?thesis
    by (simp add: s o title_text_def category_title_def key_text_def CATEGORY_MAP_def)
qed

text \<open>
  C18. When an empty pool arrives, \<open>loadCategory\<close> ends with an uncaught \<open>TypeError\<close>:
  the session has been replaced by one without questions and the title has been written,
  but no screen is shown or hidden and the question area keeps its old content.
\<close>

theorem load_empty_pool_throws:
  "log (loadCategory_resume rnd c [] a) = log a @ [Uncaught TypeError]
   \<and> questions (state (loadCategory_resume rnd c [] a)) = []
   \<and> category (state (loadCategory_resume rnd c [] a)) = c
   \<and> hidden (document (loadCategory_resume rnd c [] a)) = hidden (document a)
   \<and> option_btns (document (loadCategory_resume rnd c [] a)) = option_btns (document a)
   \<and> question_text (document (loadCategory_resume rnd c [] a)) = question_text (document a)
   \<and> quiz_title (document (loadCategory_resume rnd c [] a)) = title_text c"
  by (simp add: document_loadCategory_resume)

text \<open>
  A load replaces the session completely: the session it installs depends on the
  request, the pool and the random numbers only, never on the session it replaces. In
  particular no answer and no submission flag of an earlier attempt survives.
\<close>

theorem load_replaces_session:
  assumes "rng a = rng b"
  shows "state (loadCategory_resume rnd c all a) = state (loadCategory_resume rnd c all b)
    \<and> answers (state (loadCategory_resume rnd c all a)) = Map.empty
    \<and> \<not> submitted (state (loadCategory_resume rnd c all a))
    \<and> index (state (loadCategory_resume rnd c all a)) = 0"
  using assms by simp

theorem load_replaces_session_witness:
  "rng (submit_click True ex_app) = rng ex_app
   \<and> state (loadCategory_resume (\<lambda>_. 0) (Some ''devops'') [q_paris] (submit_click True ex_app))
     = state (loadCategory_resume (\<lambda>_. 0) (Some ''devops'') [q_paris] ex_app)
   \<and> answers (state (loadCategory_resume (\<lambda>_. 0) (Some ''devops'') [q_paris]
        (submit_click True ex_app))) = Map.empty"
  using load_replaces_session [of "submit_click True ex_app" ex_app "\<lambda>_. 0" "Some ''devops''" "[q_paris]"]
  by simp

text \<open>
  C19. The retry button always ends with an uncaught \<open>TypeError\<close>: it empties the
  session, shows the quiz screen, requests the category again, and then calls
  \<open>renderQuestion\<close> on the empty session. Until the pool arrives the quiz screen is
  visible with the question and the option buttons of the previous attempt.
\<close>

theorem retry_throws:
  "log (retry_click a) =
     log a @ [Fetch (key_text (category (state a)) @ ''.json''), Uncaught TypeError]
   \<and> pending (retry_click a) = pending a @ [category (state a)]
   \<and> questions (state (retry_click a)) = []
   \<and> answers (state (retry_click a)) = Map.empty
   \<and> \<not> submitted (state (retry_click a))
   \<and> visible (document (retry_click a)) QuizScreen
   \<and> \<not> visible (document (retry_click a)) ReviewScreen
   \<and> option_btns (document (retry_click a)) = option_btns (document a)
   \<and> question_text (document (retry_click a)) = question_text (document a)"
  by simp

end
