(* ===== verification/App.thy ===== *)
theory App
  imports Quiz
begin

text \<open>
  The quiz engine as a state machine. An \<open>event\<close> is one run of one handler of
  \<^verbatim>\<open>src/script.js\<close>: a click listener, or the resumption or rejection of a pending
  \<open>loadCategory\<close>. \<open>step\<close> dispatches an event to its handler; \<open>run\<close> executes a
  sequence of events, which is how the single-threaded event loop interleaves user input
  with arriving responses.

  \<open>enabled\<close> says when the browser can deliver an event: a click needs its button to be
  on a visible screen and not disabled, a response needs its request to be pending. The
  assignment of buttons to screens follows the element ids (\<^verbatim>\<open>#prev-btn\<close>, \<^verbatim>\<open>#next-btn\<close>,
  \<^verbatim>\<open>#submit-btn\<close>, \<^verbatim>\<open>#back-to-dashboard\<close> and the option buttons on the quiz screen;
  \<^verbatim>\<open>#retry-btn\<close>, \<^verbatim>\<open>#home-btn\<close>, \<^verbatim>\<open>#back-to-categories\<close> on the review screen; the category
  buttons on the dashboard); the markup itself is not part of the sources.
  \<open>reachable\<close> are the states the machine can be in, starting from the initial state
  with an arbitrary initial page and taking enabled events only.

  \<open>navigate_to k\<close> is the shortest sequence of navigation clicks that leads to question
  \<open>k\<close>.

  \<open>ex_events\<close>, \<open>ex_submitted\<close>, \<open>ex_two_requests\<close> and \<open>stale_events\<close> are concrete runs
  from \<open>init_app blank_page\<close> with the random source that always returns 0; they show that
  the hypotheses of the theorems below can be met.

  Invariants. \<open>view_ok\<close> relates the quiz screen to the state: what the page shows is the
  question at \<open>index\<close>, the navigation buttons are disabled exactly at the ends, and a
  button is selected exactly when its text is the recorded answer. \<open>engine_inv\<close> adds the
  well-formedness of the state and the bound of ten questions. Both are kept by every
  event, enabled or not. While the question list is empty (before the first load, after
  a load of an empty pool, and between a click on the retry button and the arrival of the
  pool) the page may show stale content, so \<open>view_ok\<close> and \<open>answers_ok\<close> are required only
  of a non-empty quiz. \<open>frozen_inv\<close> says that the quiz screen is hidden while the
  session is submitted, which is what keeps a submitted session from being edited.
\<close>

section \<open>Events and steps\<close>

datatype event =
    CategoryClick string
  | LoadResolved nat "question list"
  | LoadRejected nat js_error
  | OptionClick nat
  | PrevClick
  | NextClick
  | SubmitClick bool
  | BackToDashboardClick
  | BackToCategoriesClick
  | HomeClick
  | RetryClick

definition remove_nth :: "nat \<Rightarrow> 'a list \<Rightarrow> 'a list" where
  "remove_nth n xs = take n xs @ drop (Suc n) xs"

fun step :: "rand \<Rightarrow> app \<Rightarrow> event \<Rightarrow> app" where
  "step rnd a (CategoryClick c) = loadCategory_start (Some c) a"
| "step rnd a (LoadResolved n all) =
     (case nth_opt (pending a) n of
        None \<Rightarrow> a
      | Some c \<Rightarrow> loadCategory_resume rnd c all (a\<lparr>pending := remove_nth n (pending a)\<rparr>))"
| "step rnd a (LoadRejected n e) =
     (case nth_opt (pending a) n of
        None \<Rightarrow> a
      | Some c \<Rightarrow> loadCategory_reject e (a\<lparr>pending := remove_nth n (pending a)\<rparr>))"
| "step rnd a (OptionClick n) = option_click n a"
| "step rnd a PrevClick = prev_click a"
| "step rnd a NextClick = next_click a"
| "step rnd a (SubmitClick go) = submit_click go a"
| "step rnd a BackToDashboardClick = back_to_dashboard_click a"
| "step rnd a BackToCategoriesClick = back_to_categories_click a"
| "step rnd a HomeClick = home_click a"
| "step rnd a RetryClick = retry_click a"

fun enabled :: "app \<Rightarrow> event \<Rightarrow> bool" where
  "enabled a (CategoryClick c) = visible (document a) Dashboard"
| "enabled a (LoadResolved n all) = (n < length (pending a))"
| "enabled a (LoadRejected n e) = (n < length (pending a))"
| "enabled a (OptionClick n) =
     (visible (document a) QuizScreen \<and> n < length (option_btns (document a)))"
| "enabled a PrevClick = (visible (document a) QuizScreen \<and> \<not> prev_disabled (document a))"
| "enabled a NextClick = (visible (document a) QuizScreen \<and> \<not> next_disabled (document a))"
| "enabled a (SubmitClick go) = visible (document a) QuizScreen"
| "enabled a BackToDashboardClick = visible (document a) QuizScreen"
| "enabled a BackToCategoriesClick = visible (document a) ReviewScreen"
| "enabled a HomeClick = visible (document a) ReviewScreen"
| "enabled a RetryClick = visible (document a) ReviewScreen"

fun run :: "rand \<Rightarrow> app \<Rightarrow> event list \<Rightarrow> app" where
  "run rnd a [] = a"
| "run rnd a (e # es) = run rnd (step rnd a e) es"

fun feasible :: "rand \<Rightarrow> app \<Rightarrow> event list \<Rightarrow> bool" where
  "feasible rnd a [] = True"
| "feasible rnd a (e # es) = (enabled a e \<and> feasible rnd (step rnd a e) es)"

definition init_app :: "page \<Rightarrow> app" where
  "init_app p0 = \<lparr>state = init_state, document = p0, rng = 0, pending = [], log = []\<rparr>"

inductive reachable :: "rand \<Rightarrow> page \<Rightarrow> app \<Rightarrow> bool" for rnd :: rand and p0 :: page where
  init: "reachable rnd p0 (init_app p0)"
| step: "reachable rnd p0 a \<Longrightarrow> enabled a e \<Longrightarrow> reachable rnd p0 (step rnd a e)"

section \<open>Example runs\<close>

definition ex_events :: "event list" where
  "ex_events = [CategoryClick ''devops'', LoadResolved 0 [q_paris, q_four, q_blue]]"

definition ex_submitted :: "event list" where
  "ex_submitted = ex_events @ [SubmitClick True]"

definition ex_two_requests :: app where
  "ex_two_requests = run (\<lambda>_. 0) (init_app blank_page)
     [CategoryClick ''devops'', CategoryClick ''programming'']"

definition stale_events :: "event list" where
  "stale_events = ex_submitted @ [RetryClick, SubmitClick False, LoadResolved 0 [q_paris]]"

definition navigate_to :: "nat \<Rightarrow> app \<Rightarrow> event list" where
  "navigate_to k a =
     (if index (state a) \<le> k then replicate (k - index (state a)) NextClick
      else replicate (index (state a) - k) PrevClick)"

section \<open>Invariants\<close>

definition view_ok :: "state \<Rightarrow> page \<Rightarrow> bool" where
  "view_ok st p \<longleftrightarrow>
     question_text p = string_of_nat (index st + 1) @ ''. '' @ question (questions st ! index st)
     \<and> map label (option_btns p) = options (questions st ! index st)
     \<and> (prev_disabled p \<longleftrightarrow> index st = 0)
     \<and> (next_disabled p \<longleftrightarrow> length (questions st) \<le> index st + 1)
     \<and> progress p = real (index st) / real (length (questions st)) * 100
     \<and> (\<forall>b \<in> set (option_btns p). selected b \<longrightarrow> answers st (index st) = Some (label b))
     \<and> (\<forall>v. answers st (index st) = Some v \<longrightarrow>
           (\<exists>b \<in> set (option_btns p). selected b \<and> label b = v))"

definition engine_inv :: "app \<Rightarrow> bool" where
  "engine_inv a \<longleftrightarrow>
     index_ok (state a)
     \<and> length (questions (state a)) \<le> 10
     \<and> (questions (state a) \<noteq> [] \<longrightarrow> answers_ok (state a) \<and> view_ok (state a) (document a))"

definition frozen_inv :: "app \<Rightarrow> bool" where
  "frozen_inv a \<longleftrightarrow> (submitted (state a) \<longrightarrow> \<not> visible (document a) QuizScreen)"

definition review_inv :: "app \<Rightarrow> bool" where
  "review_inv a \<longleftrightarrow>
     (submitted (state a) \<longrightarrow>
        review_list (document a) = review_items (state a)
        \<and> score (document a) = score_text (state a))"

lemmas [inv_defs] = view_ok_def engine_inv_def frozen_inv_def review_inv_def

section \<open>The view relation\<close>

lemma view_ok_page_cong:
  assumes "question_text p = question_text p'" and "option_btns p = option_btns p'"
    and "prev_disabled p = prev_disabled p'" and "next_disabled p = next_disabled p'"
    and "progress p = progress p'"
  shows "view_ok st p = view_ok st p'"
  using assms by (simp add: view_ok_def)

lemma view_ok_state_cong:
  assumes "questions st = questions st'" and "index st = index st'"
    and "answers st (index st) = answers st' (index st')"
  shows "view_ok st p = view_ok st' p"
  using assms by (simp add: view_ok_def)

lemma view_ok_show_hide [simp]:
  "view_ok st (show_el el p) = view_ok st p"
  "view_ok st (hide el p) = view_ok st p"
  by (rule view_ok_page_cong; simp)+

lemma view_ok_showReview [simp]: "view_ok st (showReview st' p) = view_ok st p"
  by (rule view_ok_page_cong) simp_all

lemma view_ok_submitted [simp]: "view_ok (st\<lparr>submitted := b\<rparr>) p = view_ok st p"
  by (rule view_ok_state_cong) simp_all

lemma view_ok_question_view:
  assumes lt: "index st < length (questions st)"
    and ans: "\<And>v. answers st (index st) = Some v \<Longrightarrow> v \<in> set (options (questions st ! index st))"
  shows "view_ok st (question_view st (questions st ! index st) p)"
proof -
  from lt have ne: "questions st \<noteq> []" by auto
  have "\<exists>b \<in> set (map (option_button st) (options (questions st ! index st))).
          selected b \<and> label b = v" if "answers st (index st) = Some v" for v
    using ans [OF that] that by (auto simp: image_iff)
  with ne show ?thesis
    by (auto simp: view_ok_def progress_question_view)
qed

lemma view_ok_option_click:
  assumes v: "view_ok st p" and n: "n < length (option_btns p)"
  shows "view_ok (st\<lparr>answers := (answers st)(index st \<mapsto> label (option_btns p ! n))\<rparr>)
           (p\<lparr>option_btns := (map (\<lambda>b. b\<lparr>selected := False\<rparr>) (option_btns p))
                                 [n := (option_btns p ! n)\<lparr>selected := True\<rparr>]\<rparr>)"
proof -
  let ?bs = "(map (\<lambda>b. b\<lparr>selected := False\<rparr>) (option_btns p))
               [n := (option_btns p ! n)\<lparr>selected := True\<rparr>]"
  have labels: "map label ?bs = map label (option_btns p)"
    using n by (simp add: map_update comp_def list_update_same_conv)
  have sel: "selected b \<longrightarrow> label b = label (option_btns p ! n)" if "b \<in> set ?bs" for b
  proof -
    from that obtain m where m: "m < length ?bs" and b: "b = ?bs ! m"
      by (auto simp: in_set_conv_nth)
    then show ?thesis
      using n by (cases "m = n") (simp_all add: nth_list_update)
  qed
  have ex: "\<exists>b \<in> set ?bs. selected b \<and> label b = label (option_btns p ! n)"
  proof
    show "?bs ! n \<in> set ?bs" using n by (simp add: set_update_memI)
    show "selected (?bs ! n) \<and> label (?bs ! n) = label (option_btns p ! n)"
      using n by simp
  qed
  from v labels sel ex show ?thesis
    by (simp add: view_ok_def)
qed

section \<open>Every handler keeps the engine invariant\<close>

lemma engine_inv_cong:
  "state a = state b \<Longrightarrow> document a = document b \<Longrightarrow> engine_inv a = engine_inv b"
  by (simp add: engine_inv_def)

lemma engine_invI:
  assumes "index_ok (state a)" and "length (questions (state a)) \<le> 10"
    and "questions (state a) \<noteq> [] \<Longrightarrow> answers_ok (state a)"
    and "questions (state a) \<noteq> [] \<Longrightarrow> view_ok (state a) (document a)"
  shows "engine_inv a"
  using assms by (auto simp: engine_inv_def)

lemma engine_invD:
  assumes "engine_inv a"
  shows "index_ok (state a)" and "length (questions (state a)) \<le> 10"
    and "questions (state a) \<noteq> [] \<Longrightarrow> answers_ok (state a)"
    and "questions (state a) \<noteq> [] \<Longrightarrow> view_ok (state a) (document a)"
    and "questions (state a) \<noteq> [] \<Longrightarrow> index (state a) < length (questions (state a))"
  using assms by (auto simp: engine_inv_def index_ok_def)

lemma answers_ok_index_update [simp]: "answers_ok (st\<lparr>index := i\<rparr>) = answers_ok st"
  by (simp add: answers_ok_def)

lemma answers_ok_submitted_update [simp]: "answers_ok (st\<lparr>submitted := b\<rparr>) = answers_ok st"
  by (simp add: answers_ok_def)

lemma index_ok_submitted_update [simp]: "index_ok (st\<lparr>submitted := b\<rparr>) = index_ok st"
  by (simp add: index_ok_def)

lemma index_ok_answers_update [simp]: "index_ok (st\<lparr>answers := m\<rparr>) = index_ok st"
  by (simp add: index_ok_def)

lemma engine_inv_init [simp]: "engine_inv (init_app p0)"
  by (simp add: engine_inv_def init_app_def index_ok_def)

lemma engine_inv_loadCategory_start [simp]:
  "engine_inv (loadCategory_start c a) = engine_inv a"
  by (rule engine_inv_cong) simp_all

lemma engine_inv_loadCategory_reject [simp]:
  "engine_inv (loadCategory_reject e a) = engine_inv a"
  by (rule engine_inv_cong) simp_all

lemma engine_inv_pending_update [simp]: "engine_inv (a\<lparr>pending := ps\<rparr>) = engine_inv a"
  by (rule engine_inv_cong) simp_all

lemma engine_inv_loadCategory_resume: "engine_inv (loadCategory_resume rnd c all a)"
proof (rule engine_invI)
  let ?a = "loadCategory_resume rnd c all a"
  let ?st = "loaded_state c (fst (sample rnd (rng a) all))"
  show "index_ok (state ?a)"
    using state_ok_loaded [of c "fst (sample rnd (rng a) all)"] by (simp add: state_ok_def)
  show "length (questions (state ?a)) \<le> 10"
    by simp
  show "answers_ok (state ?a)"
    using state_ok_loaded [of c "fst (sample rnd (rng a) all)"] by (simp add: state_ok_def)
  assume "questions (state ?a) \<noteq> []"
  then have ne: "all \<noteq> []" by simp
  then have "view_ok ?st (question_view ?st (questions ?st ! index ?st) p)" for p
    by (intro view_ok_question_view) simp_all
  with ne show "view_ok (state ?a) (document ?a)"
    by (simp add: document_loadCategory_resume)
qed

lemma engine_inv_prev_click: "engine_inv a \<Longrightarrow> engine_inv (prev_click a)"
proof (cases "0 < index (state a)")
  case False
  assume "engine_inv a"
  with False show ?thesis by (simp add: prev_click_first)
next
  case True
  assume inv: "engine_inv a"
  with True have ne: "questions (state a) \<noteq> []"
    by (auto simp: engine_inv_def index_ok_def)
  note d = engine_invD [OF inv]
  let ?st = "(state a)\<lparr>index := index (state a) - 1\<rparr>"
  from d(5) [OF ne] True have lt: "index ?st < length (questions ?st)" by simp
  have "view_ok ?st (question_view ?st (questions ?st ! index ?st) (document a))"
    using lt d(3) [OF ne] by (intro view_ok_question_view) (auto dest: answers_okD)
  moreover from d(5) [OF ne] True have "prev_click a =
      a\<lparr>state := ?st, document := question_view ?st (questions ?st ! index ?st) (document a)\<rparr>"
    by (simp add: prev_click_moves Let_def)
  ultimately show ?thesis
    using lt d(2) d(3) [OF ne] by (intro engine_invI) (simp_all add: index_ok_def)
qed

lemma engine_inv_next_click: "engine_inv a \<Longrightarrow> engine_inv (next_click a)"
proof (cases "index (state a) + 1 < length (questions (state a))")
  case False
  assume "engine_inv a"
  with False show ?thesis by (simp add: next_click_last)
next
  case True
  assume inv: "engine_inv a"
  from True have ne: "questions (state a) \<noteq> []" by auto
  note d = engine_invD [OF inv]
  let ?st = "(state a)\<lparr>index := index (state a) + 1\<rparr>"
  from True have lt: "index ?st < length (questions ?st)" by simp
  have "view_ok ?st (question_view ?st (questions ?st ! index ?st) (document a))"
    using lt d(3) [OF ne] by (intro view_ok_question_view) (auto dest: answers_okD)
  moreover from True have "next_click a =
      a\<lparr>state := ?st, document := question_view ?st (questions ?st ! index ?st) (document a)\<rparr>"
    by (simp add: next_click_moves Let_def)
  ultimately show ?thesis
    using lt d(2) d(3) [OF ne] by (intro engine_invI) (simp_all add: index_ok_def)
qed

lemma engine_inv_option_click: "engine_inv a \<Longrightarrow> engine_inv (option_click n a)"
proof (cases "n < length (option_btns (document a))")
  case False
  assume "engine_inv a"
  with False show ?thesis by (simp add: option_click_no_button)
next
  case True
  assume inv: "engine_inv a"
  note d = engine_invD [OF inv]
  let ?v = "label (option_btns (document a) ! n)"
  let ?st = "(state a)\<lparr>answers := (answers (state a))(index (state a) \<mapsto> ?v)\<rparr>"
  show ?thesis
  proof (rule engine_invI)
    show "index_ok (state (option_click n a))"
      using d(1) by (simp add: index_ok_def)
    show "length (questions (state (option_click n a))) \<le> 10"
      using d(2) by simp
    assume "questions (state (option_click n a)) \<noteq> []"
    then have ne: "questions (state a) \<noteq> []" by simp
    from d(4) [OF ne] have "map label (option_btns (document a))
        = options (questions (state a) ! index (state a))"
      by (simp add: view_ok_def)
    with True have "?v \<in> set (options (questions (state a) ! index (state a)))"
      by (metis length_map nth_map nth_mem)
    with d(3) [OF ne] d(5) [OF ne] have "answers_ok ?st"
      by (auto simp: answers_ok_def)
    with True show "answers_ok (state (option_click n a))"
      by (simp add: option_click_button)
    from view_ok_option_click [OF d(4) [OF ne] True] True
    show "view_ok (state (option_click n a)) (document (option_click n a))"
      by (simp add: option_click_button)
  qed
qed

lemma engine_inv_submit_click: "engine_inv a \<Longrightarrow> engine_inv (submit_click go a)"
  by (cases "unanswered (state a) = []"; cases go)
     (simp_all add: engine_inv_def submit_click_complete submit_click_declined
        submit_click_confirmed)

lemma engine_inv_header_clicks:
  "engine_inv a \<Longrightarrow> engine_inv (back_to_dashboard_click a)"
  "engine_inv a \<Longrightarrow> engine_inv (back_to_categories_click a)"
  "engine_inv a \<Longrightarrow> engine_inv (home_click a)"
  by (simp_all add: engine_inv_def back_to_dashboard_click_def back_to_categories_click_def
        home_click_def)

lemma engine_inv_retry_click [simp]: "engine_inv (retry_click a)"
  by (simp add: engine_inv_def index_ok_def)

lemmas engine_inv_handlers = engine_inv_loadCategory_resume engine_inv_prev_click
  engine_inv_next_click engine_inv_option_click engine_inv_submit_click
  engine_inv_header_clicks

lemma engine_inv_step: "engine_inv a \<Longrightarrow> engine_inv (step rnd a e)"
  by (cases e) (simp_all add: engine_inv_handlers split: option.splits)

section \<open>Every handler keeps a submitted session off the quiz screen\<close>

lemma frozen_inv_cong:
  "submitted (state a) = submitted (state b) \<Longrightarrow>
   hidden (document a) = hidden (document b) \<Longrightarrow> frozen_inv a = frozen_inv b"
  by (simp add: frozen_inv_def visible_def)

lemma frozen_inv_init [simp]: "frozen_inv (init_app p0)"
  by (simp add: frozen_inv_def init_app_def)

lemma frozen_inv_unsubmitted: "\<not> submitted (state a) \<Longrightarrow> frozen_inv a"
  by (simp add: frozen_inv_def)

lemma frozen_inv_pending_update [simp]: "frozen_inv (a\<lparr>pending := ps\<rparr>) = frozen_inv a"
  by (rule frozen_inv_cong) simp_all

lemma frozen_inv_same [simp]:
  "frozen_inv (loadCategory_start c a) = frozen_inv a"
  "frozen_inv (loadCategory_reject e a) = frozen_inv a"
  "frozen_inv (option_click n a) = frozen_inv a"
  "frozen_inv (prev_click a) = frozen_inv a"
  "frozen_inv (next_click a) = frozen_inv a"
  by (rule frozen_inv_cong; simp)+

lemma frozen_inv_fresh [simp]:
  "frozen_inv (loadCategory_resume rnd c all a)"
  "frozen_inv (retry_click a)"
  by (simp_all add: frozen_inv_def)

lemma frozen_inv_submit_click: "frozen_inv a \<Longrightarrow> frozen_inv (submit_click go a)"
  by (auto simp: frozen_inv_def submitted_submit_click document_submit_click)

lemma frozen_inv_header_clicks:
  "frozen_inv (back_to_dashboard_click a)"
  "frozen_inv a \<Longrightarrow> frozen_inv (back_to_categories_click a)"
  "frozen_inv a \<Longrightarrow> frozen_inv (home_click a)"
  by (auto simp: frozen_inv_def visible_def)

lemma frozen_inv_step: "frozen_inv a \<Longrightarrow> frozen_inv (step rnd a e)"
  by (cases e) (simp_all add: frozen_inv_submit_click frozen_inv_header_clicks split: option.splits)

section \<open>The review of a submitted session is the review of its state\<close>

lemma review_inv_unsubmitted: "\<not> submitted (state a) \<Longrightarrow> review_inv a"
  by (simp add: review_inv_def)

lemma review_fields_question_view [simp]:
  "review_list (question_view st q p) = review_list p"
  "score (question_view st q p) = score p"
  by simp_all

lemma review_inv_nav:
  "review_inv a \<Longrightarrow> review_inv (prev_click a)"
  "review_inv a \<Longrightarrow> review_inv (next_click a)"
proof -
  assume r: "review_inv a"
  show "review_inv (prev_click a)"
  proof (cases "0 < index (state a) \<and> index (state a) \<le> length (questions (state a))")
    case True
    with r show ?thesis by (simp add: review_inv_def prev_click_moves)
  next
    case False
    then consider "index (state a) = 0" | "length (questions (state a)) < index (state a)"
      by linarith
    then show ?thesis
    proof cases
      case 1
      with r show ?thesis by (simp add: prev_click_first)
    next
      case 2
      then have "length (questions (state a)) \<le> index (state a) - 1" by simp
      with 2 r show ?thesis
        by (simp add: review_inv_def prev_click_def rerender_out_of_range)
    qed
  qed
  show "review_inv (next_click a)"
  proof (cases "index (state a) + 1 < length (questions (state a))")
    case True
    with r show ?thesis by (simp add: review_inv_def next_click_moves)
  next
    case False
    with r show ?thesis by (simp add: next_click_last)
  qed
qed

lemma review_inv_submit_click: "review_inv a \<Longrightarrow> review_inv (submit_click go a)"
  by (simp add: review_inv_def state_submit_click document_submit_click)

lemma review_inv_step:
  assumes "review_inv a" and "frozen_inv a" and "enabled a e"
  shows "review_inv (step rnd a e)"
proof (cases e)
  case (OptionClick n)
  with assms(2,3) have "\<not> submitted (state a)"
    by (auto simp: frozen_inv_def)
  with OptionClick show ?thesis
    by (simp add: review_inv_def)
next
  case (LoadResolved n all)
  then show ?thesis
    by (simp add: review_inv_def split: option.splits) (use assms(1) in \<open>simp add: review_inv_def\<close>)
next
  case (LoadRejected n e')
  with assms(1) show ?thesis
    by (simp add: review_inv_def split: option.splits)
qed (use assms(1) in \<open>simp_all add: review_inv_nav review_inv_submit_click\<close>,
     simp_all add: review_inv_def back_to_dashboard_click_def back_to_categories_click_def
       home_click_def)

section \<open>Runs and reachable states\<close>

lemma run_append [simp]: "run rnd a (es @ es') = run rnd (run rnd a es) es'"
  by (induction es arbitrary: a) simp_all

lemma feasible_append [simp]:
  "feasible rnd a (es @ es') \<longleftrightarrow> feasible rnd a es \<and> feasible rnd (run rnd a es) es'"
  by (induction es arbitrary: a) simp_all

lemma engine_inv_run: "engine_inv a \<Longrightarrow> engine_inv (run rnd a es)"
  by (induction es arbitrary: a) (simp_all add: engine_inv_step)

lemma frozen_inv_run: "frozen_inv a \<Longrightarrow> frozen_inv (run rnd a es)"
  by (induction es arbitrary: a) (simp_all add: frozen_inv_step)

lemma reachable_run:
  "reachable rnd p0 a \<Longrightarrow> feasible rnd a es \<Longrightarrow> reachable rnd p0 (run rnd a es)"
  by (induction es arbitrary: a) (auto intro: reachable.step)

lemma reachable_iff_run:
  "reachable rnd p0 a \<longleftrightarrow> (\<exists>es. feasible rnd (init_app p0) es \<and> a = run rnd (init_app p0) es)"
proof
  assume "reachable rnd p0 a"
  then show "\<exists>es. feasible rnd (init_app p0) es \<and> a = run rnd (init_app p0) es"
  proof (induction rule: reachable.induct)
    case init
    have "feasible rnd (init_app p0) [] \<and> init_app p0 = run rnd (init_app p0) []"
      by simp
    then show ?case by blast
  next
    case (step a e)
    then obtain es where "feasible rnd (init_app p0) es" and "a = run rnd (init_app p0) es"
      by blast
    with step.hyps(2) have "feasible rnd (init_app p0) (es @ [e])
        \<and> step rnd a e = run rnd (init_app p0) (es @ [e])"
      by simp
    then show ?case by blast
  qed
next
  assume "\<exists>es. feasible rnd (init_app p0) es \<and> a = run rnd (init_app p0) es"
  then show "reachable rnd p0 a"
    by (auto intro: reachable_run reachable.init)
qed

lemma reachable_engine_inv: "reachable rnd p0 a \<Longrightarrow> engine_inv a"
  by (induction rule: reachable.induct) (simp_all add: engine_inv_step)

lemma reachable_frozen_inv: "reachable rnd p0 a \<Longrightarrow> frozen_inv a"
  by (induction rule: reachable.induct) (simp_all add: frozen_inv_step)

lemma reachable_review_inv: "reachable rnd p0 a \<Longrightarrow> review_inv a"
proof (induction rule: reachable.induct)
  case init
  show ?case by (simp add: review_inv_def init_app_def)
next
  case (step a e)
  from step.hyps(1) have "frozen_inv a" by (rule reachable_frozen_inv)
  with step.IH step.hyps(2) show ?case by (intro review_inv_step)
qed

section \<open>Evaluating the example runs\<close>

lemma init_app_simps [simp]:
  "state (init_app p0) = init_state" "document (init_app p0) = p0" "rng (init_app p0) = 0"
  "pending (init_app p0) = []" "log (init_app p0) = []"
  by (simp_all add: init_app_def)

lemma visible_blank_page [simp]:
  "visible blank_page el \<longleftrightarrow> el = Topbar \<or> el = Dashboard"
  by (cases el) (simp_all add: visible_def blank_page_def)

lemma remove_nth_simps [simp]:
  "remove_nth 0 (x # xs) = xs"
  "remove_nth n [] = []"
  "remove_nth (Suc n) (x # xs) = x # remove_nth n xs"
  by (simp_all add: remove_nth_def)

lemma length_remove_nth: "n < length xs \<Longrightarrow> length (remove_nth n xs) = length xs - 1"
  by (simp add: remove_nth_def)

lemma sample_ex [simp]:
  "sample (\<lambda>_. 0) k [q_paris, q_four, q_blue] = ([q_four, q_blue, q_paris], k + 2)"
  by (simp add: sample_eq shuffle_def swap_def random_index_def numeral_2_eq_2)

lemma feasible_ex: "feasible (\<lambda>_. 0) (init_app blank_page) ex_events"
  by (simp add: ex_events_def)

lemma reachable_ex: "reachable (\<lambda>_. 0) blank_page (run (\<lambda>_. 0) (init_app blank_page) ex_events)"
  by (intro reachable_run reachable.init feasible_ex)

lemma state_run_ex:
  "state (run (\<lambda>_. 0) (init_app blank_page) ex_events)
     = loaded_state (Some ''devops'') [q_four, q_blue, q_paris]"
  by (simp add: ex_events_def)

section \<open>Properties of reachable states\<close>

text \<open>
  C11. In every reachable state the session is well formed: it has at most ten questions;
  the current index is the index of a question (0 for an empty quiz); and for a
  non-empty quiz every recorded answer belongs to a question of the quiz and is one of
  that question's options, and the quiz screen shows the current question with the
  recorded answer selected.
\<close>

theorem reachable_session_invariants:
  assumes "reachable rnd p0 a"
  shows "length (questions (state a)) \<le> 10
    \<and> (questions (state a) = [] \<longrightarrow> index (state a) = 0)
    \<and> (questions (state a) \<noteq> [] \<longrightarrow>
         index (state a) < length (questions (state a))
         \<and> dom (answers (state a)) \<subseteq> {..<length (questions (state a))}
         \<and> (\<forall>i v. answers (state a) i = Some v \<longrightarrow> v \<in> set (options (questions (state a) ! i)))
         \<and> view_ok (state a) (document a))"
proof -
  from assms have inv: "engine_inv a" by (rule reachable_engine_inv)
  note d = engine_invD [OF inv]
  show ?thesis
    using d(1,2) d(3,4,5) answers_ok_dom [of "state a"]
    by (auto simp: index_ok_def dest: answers_okD)
qed

theorem reachable_session_invariants_witness:
  "reachable (\<lambda>_. 0) blank_page (run (\<lambda>_. 0) (init_app blank_page) ex_events)
   \<and> questions (state (run (\<lambda>_. 0) (init_app blank_page) ex_events)) = [q_four, q_blue, q_paris]
   \<and> view_ok (state (run (\<lambda>_. 0) (init_app blank_page) ex_events))
        (document (run (\<lambda>_. 0) (init_app blank_page) ex_events))"
  using reachable_session_invariants [OF reachable_ex] reachable_ex
  by (simp add: state_run_ex)

lemma step_state_cases:
  assumes "frozen_inv a" and "submitted (state a)" and "enabled a e"
  shows "state (step rnd a e) = state a \<or> e = RetryClick \<or> (\<exists>n all. e = LoadResolved n all)"
  using assms by (cases e) (auto simp: frozen_inv_def split: option.splits)

text \<open>
  C12. A submitted session is frozen: in a reachable state whose session is submitted,
  no click on an option, navigation or submit button can be delivered, and every event
  that can be delivered either leaves the session as it is or replaces it by a new,
  unsubmitted session without answers.
\<close>

theorem submitted_session_frozen:
  assumes "reachable rnd p0 a" and "submitted (state a)" and "enabled a e"
  shows "(state (step rnd a e) = state a
          \<or> (\<not> submitted (state (step rnd a e)) \<and> answers (state (step rnd a e)) = Map.empty))
    \<and> (\<forall>n. e \<noteq> OptionClick n) \<and> e \<noteq> PrevClick \<and> e \<noteq> NextClick
    \<and> (\<forall>go. e \<noteq> SubmitClick go)"
proof -
  from assms(1) have f: "frozen_inv a" by (rule reachable_frozen_inv)
  with assms(2) have hid: "\<not> visible (document a) QuizScreen"
    by (simp add: frozen_inv_def)
  with assms(3) have "(\<forall>n. e \<noteq> OptionClick n) \<and> e \<noteq> PrevClick \<and> e \<noteq> NextClick
      \<and> (\<forall>go. e \<noteq> SubmitClick go)"
    by (cases e) simp_all
  moreover from step_state_cases [OF f assms(2,3), of rnd]
  have "state (step rnd a e) = state a
      \<or> (\<not> submitted (state (step rnd a e)) \<and> answers (state (step rnd a e)) = Map.empty)"
    using assms(3) by (auto split: option.splits simp: nth_opt_def)
  ultimately show ?thesis by simp
qed

lemma document_run_ex:
  "hidden (document (run (\<lambda>_. 0) (init_app blank_page) ex_events))
     = {AuthScreen, Dashboard, ReviewScreen}"
  by (auto simp: ex_events_def document_loadCategory_resume blank_page_def)

lemma feasible_ex_submitted: "feasible (\<lambda>_. 0) (init_app blank_page) ex_submitted"
  using document_run_ex by (simp add: ex_submitted_def feasible_ex visible_def)

lemma reachable_ex_submitted:
  "reachable (\<lambda>_. 0) blank_page (run (\<lambda>_. 0) (init_app blank_page) ex_submitted)"
  by (intro reachable_run reachable.init feasible_ex_submitted)

lemma submitted_ex_submitted:
  "submitted (state (run (\<lambda>_. 0) (init_app blank_page) ex_submitted))"
  by (simp add: ex_submitted_def submitted_submit_click)

lemma visible_ex_submitted:
  "visible (document (run (\<lambda>_. 0) (init_app blank_page) ex_submitted)) el
     \<longleftrightarrow> el = Topbar \<or> el = ReviewScreen"
  using document_run_ex
  by (cases el) (simp_all add: ex_submitted_def document_submit_click visible_def)

theorem submitted_session_frozen_witness:
  "reachable (\<lambda>_. 0) blank_page (run (\<lambda>_. 0) (init_app blank_page) ex_submitted)
   \<and> submitted (state (run (\<lambda>_. 0) (init_app blank_page) ex_submitted))
   \<and> enabled (run (\<lambda>_. 0) (init_app blank_page) ex_submitted) HomeClick
   \<and> state (step (\<lambda>_. 0) (run (\<lambda>_. 0) (init_app blank_page) ex_submitted) HomeClick)
       = state (run (\<lambda>_. 0) (init_app blank_page) ex_submitted)
   \<and> \<not> enabled (run (\<lambda>_. 0) (init_app blank_page) ex_submitted) (OptionClick 0)"
  using submitted_session_frozen [OF reachable_ex_submitted submitted_ex_submitted, of HomeClick]
    reachable_ex_submitted submitted_ex_submitted
  by (simp add: visible_ex_submitted)

text \<open>
  C32. While the session is submitted, the review list and the score line on the page
  are the review and the score of the current state, and the quiz screen is hidden.
\<close>

theorem review_shows_frozen_score:
  assumes "reachable rnd p0 a" and "submitted (state a)"
  shows "review_list (document a) = review_items (state a)
    \<and> score (document a) = score_text (state a)
    \<and> \<not> visible (document a) QuizScreen"
  using reachable_review_inv [OF assms(1)] reachable_frozen_inv [OF assms(1)] assms(2)
  by (simp add: review_inv_def frozen_inv_def)

theorem review_shows_frozen_score_witness:
  "reachable (\<lambda>_. 0) blank_page (run (\<lambda>_. 0) (init_app blank_page) ex_submitted)
   \<and> submitted (state (run (\<lambda>_. 0) (init_app blank_page) ex_submitted))
   \<and> score (document (run (\<lambda>_. 0) (init_app blank_page) ex_submitted)) = ''Score: 0 / 3''"
proof -
  have "state (run (\<lambda>_. 0) (init_app blank_page) ex_submitted)
      = (loaded_state (Some ''devops'') [q_four, q_blue, q_paris])\<lparr>submitted := True\<rparr>"
    by (simp add: ex_submitted_def state_run_ex state_submit_click)
  moreover have "score_text (loaded_state (Some ''devops'') [q_four, q_blue, q_paris])
      = ''Score: 0 / 3''"
    by (simp add: score_text_def correctCount_def review_items_def ex_defs digit_char_def)
  ultimately show ?thesis
    using review_shows_frozen_score [OF reachable_ex_submitted submitted_ex_submitted]
      reachable_ex_submitted submitted_ex_submitted
    by simp
qed

lemma step_LoadResolved:
  "n < length (pending a) \<Longrightarrow>
   step rnd a (LoadResolved n all)
     = loadCategory_resume rnd (pending a ! n) all (a\<lparr>pending := remove_nth n (pending a)\<rparr>)"
  by simp

text \<open>
  C33. With two loads in flight the session is the one of the response that arrives
  last, whatever the order of the requests: after request \<open>n\<close> and then request \<open>m\<close> of
  the remaining ones have been answered, the session holds the category of the second
  response and a sample of its pool, and both requests have left the pending list.
\<close>

theorem last_resolved_wins:
  assumes "n < length (pending a)" and "m < length (pending a) - 1"
  shows "state (run rnd a [LoadResolved n all1, LoadResolved m all2])
           = loaded_state (remove_nth n (pending a) ! m)
               (fst (sample rnd (rng a + (length all1 - 1)) all2))
    \<and> pending (run rnd a [LoadResolved n all1, LoadResolved m all2])
           = remove_nth m (remove_nth n (pending a))"
  using assms by (simp add: length_remove_nth)

lemma pending_two_requests [simp]:
  "pending ex_two_requests = [Some ''devops'', Some ''programming'']"
  by (simp add: ex_two_requests_def)

theorem last_resolved_wins_witness:
  "category (state (run (\<lambda>_. 0) ex_two_requests
       [LoadResolved 1 [q_paris], LoadResolved 0 [q_four]])) = Some ''devops''
   \<and> questions (state (run (\<lambda>_. 0) ex_two_requests
       [LoadResolved 1 [q_paris], LoadResolved 0 [q_four]])) = [q_four]
   \<and> pending (run (\<lambda>_. 0) ex_two_requests
       [LoadResolved 1 [q_paris], LoadResolved 0 [q_four]]) = []"
  using last_resolved_wins [of 1 ex_two_requests 0 "\<lambda>_. 0" "[q_paris]" "[q_four]"]
  by (simp add: sample_eq)

lemma load_over_review:
  assumes "visible (document a) ReviewScreen" and "n < length (pending a)" and "all \<noteq> []"
  shows "visible (document (step rnd a (LoadResolved n all))) ReviewScreen
    \<and> visible (document (step rnd a (LoadResolved n all))) QuizScreen
    \<and> \<not> submitted (state (step rnd a (LoadResolved n all)))
    \<and> review_list (document (step rnd a (LoadResolved n all))) = review_list (document a)
    \<and> score (document (step rnd a (LoadResolved n all))) = score (document a)"
  using assms by (simp add: document_loadCategory_resume)

lemma run_retry_fields:
  "hidden (document (run (\<lambda>_. 0) (init_app blank_page) (ex_submitted @ [RetryClick])))
     = {AuthScreen, Dashboard, ReviewScreen}"
  "pending (run (\<lambda>_. 0) (init_app blank_page) (ex_submitted @ [RetryClick])) = [Some ''devops'']"
  "state (run (\<lambda>_. 0) (init_app blank_page) (ex_submitted @ [RetryClick]))
     = retry_state (loaded_state (Some ''devops'') [q_four, q_blue, q_paris])"
  "map label (option_btns (document (run (\<lambda>_. 0) (init_app blank_page) (ex_submitted @ [RetryClick]))))
     = [''3'', ''4'']"
proof -
  let ?a = "run (\<lambda>_. 0) (init_app blank_page) ex_submitted"
  have h: "hidden (document ?a) = {AuthScreen, Dashboard, QuizScreen}"
    using document_run_ex by (auto simp: ex_submitted_def document_submit_click)
  then show "hidden (document (run (\<lambda>_. 0) (init_app blank_page) (ex_submitted @ [RetryClick])))
     = {AuthScreen, Dashboard, ReviewScreen}"
    by auto
  show "pending (run (\<lambda>_. 0) (init_app blank_page) (ex_submitted @ [RetryClick])) = [Some ''devops'']"
    by (simp add: ex_submitted_def ex_events_def state_submit_click)
  show "state (run (\<lambda>_. 0) (init_app blank_page) (ex_submitted @ [RetryClick]))
     = retry_state (loaded_state (Some ''devops'') [q_four, q_blue, q_paris])"
    by (simp add: ex_submitted_def state_run_ex state_submit_click retry_state_def)
  show "map label (option_btns (document (run (\<lambda>_. 0) (init_app blank_page) (ex_submitted @ [RetryClick]))))
     = [''3'', ''4'']"
    by (simp add: ex_submitted_def ex_events_def document_loadCategory_resume)
qed

text \<open>
  C34. A response that arrives while the review screen is shown puts the quiz screen
  next to it. Such a state is reachable: after a quiz has been submitted, the retry button
  empties the session and requests the category again; a click on the submit button
  before the pool arrives submits the empty session and shows its review; the arriving
  pool then starts a new session and shows the quiz screen, while the review screen
  still shows the score 0 of 0.
\<close>

theorem stale_review_reachable:
  "feasible (\<lambda>_. 0) (init_app blank_page) stale_events
   \<and> visible (document (run (\<lambda>_. 0) (init_app blank_page) stale_events)) ReviewScreen
   \<and> visible (document (run (\<lambda>_. 0) (init_app blank_page) stale_events)) QuizScreen
   \<and> \<not> submitted (state (run (\<lambda>_. 0) (init_app blank_page) stale_events))
   \<and> questions (state (run (\<lambda>_. 0) (init_app blank_page) stale_events)) = [q_paris]
   \<and> score (document (run (\<lambda>_. 0) (init_app blank_page) stale_events)) = ''Score: 0 / 0''"
proof -
  let ?r = "run (\<lambda>_. 0) (init_app blank_page) (ex_submitted @ [RetryClick])"
  let ?s = "step (\<lambda>_. 0) ?r (SubmitClick False)"
  have run: "run (\<lambda>_. 0) (init_app blank_page) stale_events
      = step (\<lambda>_. 0) ?s (LoadResolved 0 [q_paris])"
    by (simp add: stale_events_def)
  have u: "unanswered (state ?r) = []"
    by (simp add: run_retry_fields unanswered_def)
  have s1: "visible (document ?s) ReviewScreen" "pending ?s = [Some ''devops'']"
    "score (document ?s) = ''Score: 0 / 0''"
    using u by (simp_all add: document_submit_click run_retry_fields score_text_def
        correctCount_def review_items_def digit_char_def del: run_append)
  have f: "feasible (\<lambda>_. 0) (init_app blank_page) stale_events"
    using feasible_ex_submitted visible_ex_submitted run_retry_fields(1) s1(2)
    by (simp add: stale_events_def visible_def del: step.simps)
  from load_over_review [of ?s 0 "[q_paris]" "\<lambda>_. 0"] s1 f show ?thesis
    by (simp add: run sample_eq del: run_append step.simps)
       (simp add: sample_eq)
qed

section \<open>Reaching a question\<close>

lemma enabled_next:
  assumes "engine_inv a" and "visible (document a) QuizScreen"
    and "index (state a) + 1 < length (questions (state a))"
  shows "enabled a NextClick"
proof -
  from assms(3) have "questions (state a) \<noteq> []" by auto
  with assms(1) have "view_ok (state a) (document a)" by (simp add: engine_invD)
  with assms(2,3) show ?thesis by (simp add: view_ok_def)
qed

lemma enabled_prev:
  assumes "engine_inv a" and "visible (document a) QuizScreen"
    and "0 < index (state a)" and "questions (state a) \<noteq> []"
  shows "enabled a PrevClick"
proof -
  from assms(1,4) have "view_ok (state a) (document a)" by (simp add: engine_invD)
  with assms(2,3) show ?thesis by (simp add: view_ok_def)
qed

lemma visible_nav [simp]:
  "visible (document (next_click a)) el = visible (document a) el"
  "visible (document (prev_click a)) el = visible (document a) el"
  by (simp_all add: visible_def)

lemma forward:
  assumes "engine_inv a" and "visible (document a) QuizScreen"
    and "index (state a) + d < length (questions (state a))"
  shows "feasible rnd a (replicate d NextClick)
    \<and> state (run rnd a (replicate d NextClick)) = (state a)\<lparr>index := index (state a) + d\<rparr>"
  using assms
proof (induction d arbitrary: a)
  case 0
  then show ?case by simp
next
  case (Suc d)
  from Suc.prems have e: "enabled a NextClick"
    by (intro enabled_next) simp_all
  from Suc.prems have "feasible rnd (next_click a) (replicate d NextClick)
    \<and> state (run rnd (next_click a) (replicate d NextClick))
        = (state (next_click a))\<lparr>index := index (state (next_click a)) + d\<rparr>"
    by (intro Suc.IH engine_inv_next_click) simp_all
  with e Suc.prems(3) show ?case by simp
qed

lemma backward:
  assumes "engine_inv a" and "visible (document a) QuizScreen"
    and "d \<le> index (state a)" and "questions (state a) \<noteq> []"
  shows "feasible rnd a (replicate d PrevClick)
    \<and> state (run rnd a (replicate d PrevClick)) = (state a)\<lparr>index := index (state a) - d\<rparr>"
  using assms
proof (induction d arbitrary: a)
  case 0
  then show ?case by simp
next
  case (Suc d)
  from Suc.prems have e: "enabled a PrevClick"
    by (intro enabled_prev) simp_all
  from Suc.prems have "feasible rnd (prev_click a) (replicate d PrevClick)
    \<and> state (run rnd (prev_click a) (replicate d PrevClick))
        = (state (prev_click a))\<lparr>index := index (state (prev_click a)) - d\<rparr>"
    by (intro Suc.IH engine_inv_prev_click) simp_all
  with e Suc.prems(3) show ?case by simp
qed

text \<open>
  C24. Every question can be reached: in a reachable state with the quiz on screen, the
  clicks of \<open>navigate_to k\<close> (next buttons when the question \<open>k\<close> is ahead, previous
  buttons when it is behind) can all be delivered and lead to question \<open>k\<close>, changing
  nothing of the session but the position; their number is the distance to \<open>k\<close>.
\<close>

theorem every_question_reachable:
  assumes "reachable rnd p0 a" and "visible (document a) QuizScreen"
    and "k < length (questions (state a))"
  shows "feasible rnd a (navigate_to k a)
    \<and> state (run rnd a (navigate_to k a)) = (state a)\<lparr>index := k\<rparr>
    \<and> reachable rnd p0 (run rnd a (navigate_to k a))
    \<and> length (navigate_to k a) = (if index (state a) \<le> k then k - index (state a)
                                   else index (state a) - k)"
proof -
  note inv = reachable_engine_inv [OF assms(1)]
  from assms(3) have ne: "questions (state a) \<noteq> []" by auto
  have "feasible rnd a (navigate_to k a)
    \<and> state (run rnd a (navigate_to k a)) = (state a)\<lparr>index := k\<rparr>"
  proof (cases "index (state a) \<le> k")
    case True
    with forward [OF inv assms(2), of "k - index (state a)" rnd] assms(3) show ?thesis
      by (simp add: navigate_to_def)
  next
    case False
    with backward [OF inv assms(2) _ ne, of "index (state a) - k" rnd] show ?thesis
      by (simp add: navigate_to_def)
  qed
  with assms(1) show ?thesis
    by (simp add: reachable_run) (simp add: navigate_to_def)
qed

theorem every_question_reachable_witness:
  "reachable (\<lambda>_. 0) blank_page (run (\<lambda>_. 0) (init_app blank_page) ex_events)
   \<and> visible (document (run (\<lambda>_. 0) (init_app blank_page) ex_events)) QuizScreen
   \<and> navigate_to 2 (run (\<lambda>_. 0) (init_app blank_page) ex_events) = [NextClick, NextClick]
   \<and> index (state (run (\<lambda>_. 0) (run (\<lambda>_. 0) (init_app blank_page) ex_events)
         (navigate_to 2 (run (\<lambda>_. 0) (init_app blank_page) ex_events)))) = 2"
proof -
  have v: "visible (document (run (\<lambda>_. 0) (init_app blank_page) ex_events)) QuizScreen"
    by (simp add: visible_def document_run_ex)
  have n: "navigate_to 2 (run (\<lambda>_. 0) (init_app blank_page) ex_events) = [NextClick, NextClick]"
    by (simp add: navigate_to_def state_run_ex numeral_2_eq_2)
  from every_question_reachable [OF reachable_ex v, of 2] show ?thesis
    by (simp add: reachable_ex v n state_run_ex del: run.simps)
qed

end
