(* ===== verification/Engine_Spec.thy ===== *)
theory Engine_Spec
  imports Session
begin

text \<open>
  The contract of the quiz session engine, as \<^verbatim>\<open>spec.md\<close> states it (sections 3, 4 and 7),
  independent of pages and handlers. It is the abstract side of the refinement proved in
  the root theory; nothing here is taken from the code.

  \<^item> \<open>session\<close> is the Session record of section 3.
  \<^item> \<open>sample_spec n pool picked\<close> is the Sampler's contract (4.1): \<open>picked\<close> has
    \<open>min n (length pool)\<close> elements, drawn from the pool without repetition.
  \<^item> \<open>begin_session\<close>, \<open>moveNext\<close>, \<open>movePrev\<close>, \<open>record_answer\<close>, \<open>trySubmit\<close>,
    \<open>submit\<close> and \<open>score_session\<close> (the operation \<^verbatim>\<open>score\<close>) are the operations of 4.2 to 4.6. The two contract
    violations of section 7 are values: \<open>InvalidSelection\<close> and \<open>PrematureScore\<close>.
  \<^item> A verdict keeps the user's answer as an option: \<open>None\<close> is the sentinel for a
    question without answer, which is never equal to a correct answer.
  \<^item> \<open>session_inv\<close> collects the invariants of section 3.
\<close>

section \<open>Data\<close>

record session =
  s_category :: "string option"
  s_questions :: "question list"
  currentIndex :: nat
  s_answers :: "nat \<rightharpoonup> string"
  s_submitted :: bool

datatype spec_error = InvalidSelection | PrematureScore

datatype submit_result = Ready | Incomplete "nat list"

record verdict =
  v_question :: question
  yourAnswer :: "string option"
  correctAnswer :: string
  isCorrect :: bool

record review_result =
  perQuestion :: "verdict list"
  r_score :: nat
  total :: nat

section \<open>Operations\<close>

definition sample_spec :: "nat \<Rightarrow> 'a list \<Rightarrow> 'a list \<Rightarrow> bool" where
  "sample_spec n pool picked \<longleftrightarrow>
     length picked = min n (length pool) \<and> mset picked \<subseteq># mset pool"

definition begin_session :: "string option \<Rightarrow> question list \<Rightarrow> session" where
  "begin_session cat picked =
     \<lparr>s_category = cat, s_questions = picked, currentIndex = 0, s_answers = Map.empty,
      s_submitted = False\<rparr>"

definition moveNext :: "session \<Rightarrow> session" where
  "moveNext s =
     (if currentIndex s + 1 < length (s_questions s)
      then s\<lparr>currentIndex := currentIndex s + 1\<rparr> else s)"

definition movePrev :: "session \<Rightarrow> session" where
  "movePrev s = (if 0 < currentIndex s then s\<lparr>currentIndex := currentIndex s - 1\<rparr> else s)"

definition record_answer :: "session \<Rightarrow> nat \<Rightarrow> string \<Rightarrow> spec_error + session" where
  "record_answer s i opt =
     (if i < length (s_questions s) \<and> opt \<in> set (options (s_questions s ! i))
      then Inr (s\<lparr>s_answers := (s_answers s)(i \<mapsto> opt)\<rparr>)
      else Inl InvalidSelection)"

definition unansweredIndices :: "session \<Rightarrow> nat list" where
  "unansweredIndices s = filter (\<lambda>i. s_answers s i = None) [0..<length (s_questions s)]"

definition trySubmit :: "session \<Rightarrow> submit_result" where
  "trySubmit s = (if unansweredIndices s = [] then Ready else Incomplete (unansweredIndices s))"

definition submit :: "bool \<Rightarrow> session \<Rightarrow> session" where
  "submit confirmed s =
     (case trySubmit s of
        Ready \<Rightarrow> s\<lparr>s_submitted := True\<rparr>
      | Incomplete _ \<Rightarrow> if confirmed then s\<lparr>s_submitted := True\<rparr> else s)"

definition verdict_of :: "session \<Rightarrow> nat \<Rightarrow> verdict" where
  "verdict_of s i =
     \<lparr>v_question = s_questions s ! i,
      yourAnswer = s_answers s i,
      correctAnswer = answer (s_questions s ! i),
      isCorrect = (s_answers s i = Some (answer (s_questions s ! i)))\<rparr>"

definition score_session :: "session \<Rightarrow> spec_error + review_result" where
  "score_session s =
     (if s_submitted s
      then (let vs = map (verdict_of s) [0..<length (s_questions s)]
            in Inr \<lparr>perQuestion = vs, r_score = length (filter isCorrect vs),
                    total = length (s_questions s)\<rparr>)
      else Inl PrematureScore)"

definition session_inv :: "session \<Rightarrow> bool" where
  "session_inv s \<longleftrightarrow>
     (s_questions s \<noteq> [] \<longrightarrow> currentIndex s < length (s_questions s))
     \<and> (\<forall>i v. s_answers s i = Some v \<longrightarrow>
           i < length (s_questions s) \<and> v \<in> set (options (s_questions s ! i)))"

inductive spec_step :: "session \<Rightarrow> session \<Rightarrow> bool" where
  sp_stutter: "spec_step s s"
| sp_begin: "sample_spec 10 pool picked \<Longrightarrow> spec_step s (begin_session cat picked)"
| sp_next: "\<not> s_submitted s \<Longrightarrow> spec_step s (moveNext s)"
| sp_prev: "\<not> s_submitted s \<Longrightarrow> spec_step s (movePrev s)"
| sp_record: "\<not> s_submitted s \<Longrightarrow> record_answer s i opt = Inr s' \<Longrightarrow> spec_step s s'"
| sp_submit: "\<not> s_submitted s \<Longrightarrow> spec_step s (submit confirmed s)"

section \<open>The contract is consistent\<close>

lemma session_inv_begin [simp]: "session_inv (begin_session cat picked)"
  by (cases picked) (simp_all add: session_inv_def begin_session_def)

lemma session_inv_moveNext: "session_inv s \<Longrightarrow> session_inv (moveNext s)"
  by (auto simp: session_inv_def moveNext_def)

lemma session_inv_movePrev: "session_inv s \<Longrightarrow> session_inv (movePrev s)"
  by (auto simp: session_inv_def movePrev_def)

lemma session_inv_record:
  "session_inv s \<Longrightarrow> record_answer s i opt = Inr s' \<Longrightarrow> session_inv s'"
  by (auto simp: session_inv_def record_answer_def split: if_splits)

lemma session_inv_submit: "session_inv s \<Longrightarrow> session_inv (submit c s)"
  by (auto simp: session_inv_def submit_def split: submit_result.splits)

lemma spec_step_inv: "spec_step s s' \<Longrightarrow> session_inv s \<Longrightarrow> session_inv s'"
  by (induction rule: spec_step.induct)
     (simp_all add: session_inv_moveNext session_inv_movePrev session_inv_record
        session_inv_submit)

lemma record_answer_overwrites:
  assumes "record_answer s i x = Inr s1" and "record_answer s1 i y = Inr s2"
  shows "s_answers s2 i = Some y" and "record_answer s i y = Inr s2"
  using assms by (auto simp: record_answer_def split: if_splits)

lemma submit_monotonic: "s_submitted s \<Longrightarrow> s_submitted (submit c s)"
  by (simp add: submit_def split: submit_result.splits)

lemma score_total:
  "score_session s = Inr r \<Longrightarrow> total r = length (s_questions s) \<and> r_score r \<le> total r
     \<and> length (perQuestion r) = total r"
  using length_filter_le [of "isCorrect \<circ> verdict_of s" "[0..<length (s_questions s)]"]
  by (auto simp: score_session_def Let_def split: if_splits)

inductive_cases spec_step_cases: "spec_step s s'"

end
