(* ===== verification/Refinement.thy ===== *)
theory Refinement
  imports App Engine_Spec
begin

text \<open>
  The handlers of \<^verbatim>\<open>src/script.js\<close> implement the contract of \<open>Engine_Spec\<close>. The
  abstraction \<open>abs_state\<close> reads the global \<^verbatim>\<open>state\<close> as a Session; each lemma has the
  form \<open>abs_state (state (handler a)) = operation (abs_state (state a))\<close>, under the
  conditions it needs:
  \<^item> navigation refines \<open>moveNext\<close> and \<open>movePrev\<close> unconditionally;
  \<^item> a click on an option button refines \<open>record_answer\<close> for the current index when the
    page shows the current question (\<open>engine_inv\<close> with a non-empty quiz);
  \<^item> the submit handler refines \<open>submit\<close>, and its list of question numbers is the list
    of unanswered indices plus one, when no recorded answer is the empty string
    (\<open>answers_nonempty\<close>): the code tests the recorded answer for truthiness, the contract
    for presence;
  \<^item> the review refines \<open>score_session\<close> when no question has the text \<^verbatim>\<open>(no answer)\<close> as its
    correct answer (\<open>sentinel_free\<close>): the code compares the placeholder text itself with
    the correct answer.
  \<open>no_empty_option\<close> is the condition on the question data under which
  \<open>answers_nonempty\<close> holds in every state that satisfies \<open>answers_ok\<close>.
\<close>

section \<open>Abstraction\<close>

definition abs_state :: "state \<Rightarrow> session" where
  "abs_state st =
     \<lparr>s_category = category st, s_questions = questions st, currentIndex = index st,
      s_answers = answers st, s_submitted = submitted st\<rparr>"

definition answers_nonempty :: "state \<Rightarrow> bool" where
  "answers_nonempty st \<longleftrightarrow> (\<forall>i < length (questions st). answers st i \<noteq> Some [])"

definition no_empty_option :: "state \<Rightarrow> bool" where
  "no_empty_option st \<longleftrightarrow> (\<forall>q \<in> set (questions st). [] \<notin> set (options q))"

definition sentinel_free :: "state \<Rightarrow> bool" where
  "sentinel_free st \<longleftrightarrow> (\<forall>q \<in> set (questions st). answer q \<noteq> ''(no answer)'')"

definition shown_answer :: "string option \<Rightarrow> string" where
  "shown_answer v = (case v of None \<Rightarrow> ''(no answer)'' | Some s \<Rightarrow> s)"

section \<open>Abstraction of states\<close>

lemma abs_state_simps [simp]:
  "s_category (abs_state st) = category st"
  "s_questions (abs_state st) = questions st"
  "currentIndex (abs_state st) = index st"
  "s_answers (abs_state st) = answers st"
  "s_submitted (abs_state st) = submitted st"
  by (simp_all add: abs_state_def)

lemma abs_state_updates [simp]:
  "abs_state (st\<lparr>index := i\<rparr>) = (abs_state st)\<lparr>currentIndex := i\<rparr>"
  "abs_state (st\<lparr>answers := m\<rparr>) = (abs_state st)\<lparr>s_answers := m\<rparr>"
  "abs_state (st\<lparr>submitted := b\<rparr>) = (abs_state st)\<lparr>s_submitted := b\<rparr>"
  by (simp_all add: abs_state_def)

lemma abs_state_inj: "abs_state st = abs_state st' \<longleftrightarrow> st = st'"
proof
  assume "abs_state st = abs_state st'"
  then have "category st = category st'" "questions st = questions st'" "index st = index st'"
    "answers st = answers st'" "submitted st = submitted st'"
    by (simp_all add: abs_state_def)
  then show "st = st'" by simp
qed simp

lemma abs_fresh [simp]:
  "abs_state init_state = begin_session None []"
  "abs_state (loaded_state c qs) = begin_session c qs"
  "abs_state (retry_state st) = begin_session (category st) []"
  by (simp_all add: abs_state_def begin_session_def)

lemma session_inv_abs:
  "session_inv (abs_state st) \<longleftrightarrow>
   (questions st \<noteq> [] \<longrightarrow> index st < length (questions st)) \<and> answers_ok st"
  by (simp add: session_inv_def answers_ok_def)

lemma no_empty_option_answers:
  "answers_ok st \<Longrightarrow> no_empty_option st \<Longrightarrow> answers_nonempty st"
  by (force simp: answers_ok_def no_empty_option_def answers_nonempty_def)

section \<open>Sampler\<close>

lemma sample_refines: "unit_interval rnd \<Longrightarrow> sample_spec 10 all (fst (sample rnd k all))"
  by (simp add: sample_spec_def mset_sample_subset)

lemma sample_spec_Nil [simp]: "sample_spec n [] []"
  by (simp add: sample_spec_def)

section \<open>Navigator\<close>

lemma next_click_refines: "abs_state (state (next_click a)) = moveNext (abs_state (state a))"
  by (simp add: moveNext_def)

lemma prev_click_refines: "abs_state (state (prev_click a)) = movePrev (abs_state (state a))"
  by (simp add: movePrev_def)

section \<open>Answer recorder\<close>

lemma option_click_refines:
  assumes inv: "engine_inv a" and ne: "questions (state a) \<noteq> []"
    and n: "n < length (option_btns (document a))"
  shows "record_answer (abs_state (state a)) (index (state a))
           (label (option_btns (document a) ! n))
         = Inr (abs_state (state (option_click n a)))"
proof -
  note d = engine_invD [OF inv]
  from d(4) [OF ne] have "map label (option_btns (document a))
      = options (questions (state a) ! index (state a))"
    by (simp add: view_ok_def)
  with n have "label (option_btns (document a) ! n)
      \<in> set (options (questions (state a) ! index (state a)))"
    by (metis length_map nth_map nth_mem)
  with d(5) [OF ne] n show ?thesis
    by (simp add: record_answer_def option_click_button)
qed

section \<open>Submission validator\<close>

lemma truthy_iff_present:
  "answers_nonempty st \<Longrightarrow> i < length (questions st) \<Longrightarrow>
   truthy (answers st i) \<longleftrightarrow> answers st i \<noteq> None"
  by (cases "answers st i") (auto simp: answers_nonempty_def)

lemma unanswered_refines:
  assumes "answers_nonempty st"
  shows "unanswered st = map Suc (unansweredIndices (abs_state st))"
proof -
  have "filter (\<lambda>i. \<not> truthy (answers st i)) [0..<length (questions st)]
      = filter (\<lambda>i. answers st i = None) [0..<length (questions st)]"
    using assms by (intro filter_cong) (simp_all add: truthy_iff_present)
  then show ?thesis
    by (simp add: unanswered_eq unansweredIndices_def)
qed

lemma submit_click_refines:
  assumes "answers_nonempty (state a)"
  shows "abs_state (state (submit_click go a)) = submit go (abs_state (state a))"
proof (cases "unanswered (state a) = []")
  case True
  with assms have "unansweredIndices (abs_state (state a)) = []"
    by (simp add: unanswered_refines)
  with True show ?thesis
    by (simp add: submit_click_complete submit_def trySubmit_def)
next
  case False
  with assms have "unansweredIndices (abs_state (state a)) \<noteq> []"
    by (simp add: unanswered_refines)
  with False show ?thesis
    by (cases go)
       (simp_all add: submit_click_confirmed submit_click_declined submit_def trySubmit_def)
qed

section \<open>Scorer\<close>

lemma is_correct_refines:
  assumes "sentinel_free st" and "i < length (questions st)"
  shows "is_correct (review_items st ! i) \<longleftrightarrow> isCorrect (verdict_of (abs_state st) i)"
    and "your (review_items st ! i) = shown_answer (yourAnswer (verdict_of (abs_state st) i))"
    and "correct_answer (review_items st ! i) = correctAnswer (verdict_of (abs_state st) i)"
proof -
  from assms have "answer (questions st ! i) \<noteq> ''(no answer)''"
    by (simp add: sentinel_free_def)
  with assms(2) show "is_correct (review_items st ! i) \<longleftrightarrow> isCorrect (verdict_of (abs_state st) i)"
    by (cases "answers st i") (auto simp: nth_review_items verdict_of_def)
  from assms(2) show "your (review_items st ! i)
      = shown_answer (yourAnswer (verdict_of (abs_state st) i))"
    by (cases "answers st i") (simp_all add: nth_review_items verdict_of_def shown_answer_def)
  from assms(2) show "correct_answer (review_items st ! i)
      = correctAnswer (verdict_of (abs_state st) i)"
    by (simp add: nth_review_items verdict_of_def)
qed

lemma verdicts_refine:
  assumes "sentinel_free st"
  shows "map is_correct (review_items st)
       = map isCorrect (map (verdict_of (abs_state st)) [0..<length (questions st)])"
  using assms by (intro nth_equalityI) (simp_all add: is_correct_refines(1))

lemma correctCount_refines:
  assumes "sentinel_free st"
  shows "correctCount st
       = length (filter isCorrect (map (verdict_of (abs_state st)) [0..<length (questions st)]))"
proof -
  have "correctCount st = length (filter (\<lambda>b. b) (map is_correct (review_items st)))"
    by (simp add: correctCount_def filter_map comp_def)
  also have "\<dots> = length (filter (\<lambda>b. b)
      (map isCorrect (map (verdict_of (abs_state st)) [0..<length (questions st)])))"
    by (simp only: verdicts_refine [OF assms])
  finally show ?thesis
    by (simp add: filter_map comp_def)
qed

section \<open>Each handler is a step of the contract\<close>

lemma answers_nonempty_engine:
  assumes "engine_inv a" and "no_empty_option (state a)"
  shows "answers_nonempty (state a)"
proof (cases "questions (state a) = []")
  case True
  then show ?thesis by (simp add: answers_nonempty_def)
next
  case False
  with assms(1) have "answers_ok (state a)"
    by (simp add: engine_inv_def)
  then show ?thesis using assms(2) by (rule no_empty_option_answers)
qed

lemma spec_step_load:
  "unit_interval rnd \<Longrightarrow> spec_step s (abs_state (state (loadCategory_resume rnd c all a)))"
  by (auto intro!: sp_begin sample_refines)

lemma spec_step_retry: "spec_step s (abs_state (state (retry_click a)))"
  using sp_begin [where pool = "[]" and picked = "[]"] by simp

lemma spec_step_prev:
  assumes "\<not> submitted (state a)"
  shows "spec_step (abs_state (state a)) (abs_state (state (prev_click a)))"
proof -
  from assms have "spec_step (abs_state (state a)) (movePrev (abs_state (state a)))"
    by (intro sp_prev) simp
  then show ?thesis by (simp only: prev_click_refines)
qed

lemma spec_step_next:
  assumes "\<not> submitted (state a)"
  shows "spec_step (abs_state (state a)) (abs_state (state (next_click a)))"
proof -
  from assms have "spec_step (abs_state (state a)) (moveNext (abs_state (state a)))"
    by (intro sp_next) simp
  then show ?thesis by (simp only: next_click_refines)
qed

lemma spec_step_option:
  assumes "engine_inv a" and "questions (state a) \<noteq> []"
    and "n < length (option_btns (document a))" and "\<not> submitted (state a)"
  shows "spec_step (abs_state (state a)) (abs_state (state (option_click n a)))"
  using option_click_refines [OF assms(1-3)] assms(4) by (auto intro: sp_record)

lemma spec_step_submit:
  assumes "answers_nonempty (state a)" and "\<not> submitted (state a)"
  shows "spec_step (abs_state (state a)) (abs_state (state (submit_click go a)))"
proof -
  from assms(2) have "spec_step (abs_state (state a)) (submit go (abs_state (state a)))"
    by (intro sp_submit) simp
  then show ?thesis by (simp only: submit_click_refines [OF assms(1)])
qed

lemma reachable_not_submitted:
  "reachable rnd p0 a \<Longrightarrow> visible (document a) QuizScreen \<Longrightarrow> \<not> submitted (state a)"
  by (auto dest: reachable_frozen_inv simp: frozen_inv_def)

end
