(* ===== verification/Store.thy ===== *)
theory Store
  imports QuizLab_Prelude
begin

text \<open>
  The key-value store of \<^verbatim>\<open>src/script.js\<close> (lines 14-18) over \<^verbatim>\<open>localStorage\<close>, and the
  fragment of JavaScript values the program keeps in it.

  \<^item> \<open>jvalue\<close> is a value \<^verbatim>\<open>JSON.parse\<close> returns: \<^verbatim>\<open>null\<close>, a string or an object; an object
    is the list of its own properties. These are the shapes the program writes (the
    users table, its entries, the session); numbers, booleans and arrays in storage are
    outside the model. \<^verbatim>\<open>undefined\<close> is \<open>None\<close> of \<open>jvalue option\<close>.
  \<^item> \<open>stored\<close> is the text of one storage item, kept in the form that decides what the
    program does with it: \<open>Json v\<close> is a text that \<^verbatim>\<open>JSON.parse\<close> reads as \<open>v\<close>, \<open>Text t\<close> is
    the text \<open>t\<close>, which \<^verbatim>\<open>JSON.parse\<close> rejects. So \<^verbatim>\<open>JSON.parse(JSON.stringify(v))\<close> is
    \<open>v\<close> by construction, and the texts \<^verbatim>\<open>dark\<close> and \<^verbatim>\<open>light\<close>, which are not JSON, are
    \<open>Text\<close> items.
  \<^item> \<open>store_get\<close>, \<open>store_set\<close>, \<open>store_del\<close> are \<^verbatim>\<open>store.get\<close>, \<^verbatim>\<open>store.set\<close>, \<^verbatim>\<open>store.del\<close>.
  \<^item> \<open>get_prop\<close> and \<open>set_prop\<close> are property access \<^verbatim>\<open>v[k]\<close> and assignment \<^verbatim>\<open>v[k] = x\<close> on
    a value that is not \<^verbatim>\<open>null\<close>; \<open>truthy_value\<close> is the boolean coercion, \<open>to_text\<close> the
    conversion to a string that a template literal and a computed property key apply.
    The script is a classic script in sloppy mode, where assignment to a property of a
    string is ignored. The properties a string has by itself (\<^verbatim>\<open>length\<close>, indices) and
    the properties every object inherits (\<^verbatim>\<open>constructor\<close>, \<^verbatim>\<open>toString\<close>, ...) are not
    modelled: the model is exact for keys that are none of these names.
\<close>

section \<open>Values and storage\<close>

datatype jvalue = JNull | JStr string | JObj "(string \<times> jvalue) list"

datatype stored = Json jvalue | Text string

type_synonym storage = "string \<rightharpoonup> stored"

definition truthy_value :: "jvalue option \<Rightarrow> bool" where
  "truthy_value v =
     (case v of None \<Rightarrow> False | Some JNull \<Rightarrow> False | Some (JStr s) \<Rightarrow> s \<noteq> []
      | Some (JObj kvs) \<Rightarrow> True)"

definition to_text :: "jvalue option \<Rightarrow> string" where
  "to_text v =
     (case v of None \<Rightarrow> ''undefined'' | Some JNull \<Rightarrow> ''null'' | Some (JStr s) \<Rightarrow> s
      | Some (JObj kvs) \<Rightarrow> ''[object Object]'')"

definition get_prop :: "jvalue \<Rightarrow> string \<Rightarrow> jvalue option" where
  "get_prop v k = (case v of JObj kvs \<Rightarrow> map_of kvs k | _ \<Rightarrow> None)"

fun put :: "string \<Rightarrow> jvalue \<Rightarrow> (string \<times> jvalue) list \<Rightarrow> (string \<times> jvalue) list" where
  "put k x [] = [(k, x)]"
| "put k x ((k', y) # kvs) = (if k' = k then (k, x) # kvs else (k', y) # put k x kvs)"

definition set_prop :: "jvalue \<Rightarrow> string \<Rightarrow> jvalue \<Rightarrow> jvalue" where
  "set_prop v k x = (case v of JObj kvs \<Rightarrow> JObj (put k x kvs) | _ \<Rightarrow> v)"

definition stored_truthy :: "stored option \<Rightarrow> bool" where
  "stored_truthy t = (case t of None \<Rightarrow> False | Some (Json v) \<Rightarrow> True | Some (Text s) \<Rightarrow> s \<noteq> [])"

section \<open>The store\<close>

definition store_get :: "string \<Rightarrow> jvalue \<Rightarrow> storage \<Rightarrow> jvalue" where
  "store_get key def ls =
     (case ls key of
        None \<Rightarrow> def
      | Some (Text t) \<Rightarrow> def
      | Some (Json v) \<Rightarrow> (if v = JNull then def else v))"

definition store_set :: "string \<Rightarrow> jvalue \<Rightarrow> storage \<Rightarrow> storage" where
  "store_set key val ls = ls(key \<mapsto> Json val)"

definition store_del :: "string \<Rightarrow> storage \<Rightarrow> storage" where
  "store_del key ls = ls(key := None)"

lemmas [js_defs] = truthy_value_def to_text_def get_prop_def set_prop_def stored_truthy_def

section \<open>Values\<close>

lemma truthy_value_simps [simp]:
  "truthy_value None = False"
  "truthy_value (Some JNull) = False"
  "truthy_value (Some (JStr s)) = (s \<noteq> [])"
  "truthy_value (Some (JObj kvs)) = True"
  by (simp_all add: truthy_value_def)

lemma to_text_simps [simp]:
  "to_text None = ''undefined''"
  "to_text (Some JNull) = ''null''"
  "to_text (Some (JStr s)) = s"
  "to_text (Some (JObj kvs)) = ''[object Object]''"
  by (simp_all add: to_text_def)

lemma stored_truthy_simps [simp]:
  "stored_truthy None = False"
  "stored_truthy (Some (Json v)) = True"
  "stored_truthy (Some (Text s)) = (s \<noteq> [])"
  by (simp_all add: stored_truthy_def)

lemma get_prop_simps [simp]:
  "get_prop (JObj kvs) k = map_of kvs k"
  "get_prop JNull k = None"
  "get_prop (JStr s) k = None"
  by (simp_all add: get_prop_def)

lemma set_prop_simps [simp]:
  "set_prop (JObj kvs) k x = JObj (put k x kvs)"
  "set_prop JNull k x = JNull"
  "set_prop (JStr s) k x = JStr s"
  by (simp_all add: set_prop_def)

lemma map_of_put [simp]: "map_of (put k x kvs) = (map_of kvs)(k \<mapsto> x)"
  by (induction kvs) auto

lemma map_fst_put:
  "map fst (put k x kvs) = (if k \<in> fst ` set kvs then map fst kvs else map fst kvs @ [k])"
  by (induction kvs) (force split: if_splits)+

lemma distinct_put [simp]: "distinct (map fst (put k x kvs)) = distinct (map fst kvs)"
  by (simp add: map_fst_put)

lemma put_idem [simp]: "put k x (put k y kvs) = put k x kvs"
  by (induction kvs) auto

lemma get_set_prop: "get_prop (set_prop (JObj kvs) k x) k' = (if k' = k then Some x else get_prop (JObj kvs) k')"
  by simp

lemma truthy_value_imp_not_null: "truthy_value (Some v) \<Longrightarrow> v \<noteq> JNull"
  by auto

section \<open>Reading and writing items\<close>

lemma store_get_set [simp]:
  "store_get key def (store_set key' val ls) =
     (if key = key' then (if val = JNull then def else val) else store_get key def ls)"
  by (simp add: store_get_def store_set_def)

lemma store_get_del [simp]:
  "store_get key def (store_del key' ls) = (if key = key' then def else store_get key def ls)"
  by (simp add: store_get_def store_del_def)

lemma store_get_missing [simp]: "ls key = None \<Longrightarrow> store_get key def ls = def"
  by (simp add: store_get_def)

lemma store_get_unreadable [simp]: "ls key = Some (Text t) \<Longrightarrow> store_get key def ls = def"
  by (simp add: store_get_def)

lemma store_get_Json: "ls key = Some (Json v) \<Longrightarrow> store_get key def ls = (if v = JNull then def else v)"
  by (simp add: store_get_def)

lemma store_get_not_null: "def \<noteq> JNull \<Longrightarrow> store_get key def ls \<noteq> JNull"
  by (simp add: store_get_def split: option.splits stored.splits)

lemma store_get_upd_other [simp]: "key \<noteq> key' \<Longrightarrow> store_get key def (ls(key' := x)) = store_get key def ls"
  by (simp add: store_get_def)

lemma store_set_apply [simp]: "store_set key val ls key' = (if key' = key then Some (Json val) else ls key')"
  by (simp add: store_set_def)

lemma store_del_apply [simp]: "store_del key ls key' = (if key' = key then None else ls key')"
  by (simp add: store_del_def)

lemma store_set_set [simp]: "store_set key v (store_set key w ls) = store_set key v ls"
  by (simp add: store_set_def)

lemma store_del_set [simp]: "store_del key (store_set key v ls) = store_del key ls"
  by (simp add: store_set_def store_del_def)

lemma store_del_idem [simp]: "store_del key (store_del key ls) = store_del key ls"
  by (simp add: store_del_def)

end
