(* ===== verification/Browser.thy ===== *)
theory Browser
  imports Quiz Store
begin

text \<open>
  The whole state that \<^verbatim>\<open>src/script.js\<close> reads and writes, as the record \<open>browser\<close>: the
  application state of the quiz engine (\<open>app\<close>), extended by the content of
  \<^verbatim>\<open>localStorage\<close>, by the elements of the sign-in screen and the top bar that the auth
  functions touch (\<open>auth_page\<close>), and by the elements of the theme switch
  (\<open>theme_view\<close>).

  \<^item> \<open>tab\<close> names the two tabs of the sign-in screen by their \<^verbatim>\<open>data-tab\<close> values
    \<^verbatim>\<open>login\<close> and \<^verbatim>\<open>signup\<close>; the form of a tab is \<^verbatim>\<open>#login-form\<close> or \<^verbatim>\<open>#signup-form\<close>.
    \<open>active_tabs\<close> is the set of tabs with the class \<^verbatim>\<open>active\<close>, \<open>visible_forms\<close> the set of
    forms with the class \<^verbatim>\<open>visible\<close>.
  \<^item> The five input fields hold what the user has typed. A password is kept as its
    sequence of code units, names and addresses as strings.
  \<^item> \<open>data_theme\<close> is the attribute \<^verbatim>\<open>data-theme\<close> of the root element, absent at first;
    \<open>toggle\<close> is the button \<^verbatim>\<open>#theme-toggle\<close> with its text and title, \<open>None\<close> when the page
    has no such button; \<open>media_listeners\<close> counts the listeners registered for changes
    of the system colour scheme.
  \<^item> \<open>app_of\<close> is the \<open>app\<close> part of a \<open>browser\<close>; \<open>lift\<close> runs a handler of the quiz engine
    on it and leaves the other parts alone.
\<close>

section \<open>State\<close>

datatype tab = LoginTab | SignupTab

record auth_page =
  active_tabs :: "tab set"
  visible_forms :: "tab set"
  signup_name :: string
  signup_email :: string
  signup_password :: "nat list"
  login_email :: string
  login_password :: "nat list"
  welcome_text :: string

record toggle_btn =
  icon :: string
  title :: string

record theme_view =
  data_theme :: "stored option"
  toggle :: "toggle_btn option"
  media_listeners :: nat

record browser = app +
  local_storage :: storage
  auth :: auth_page
  theme :: theme_view

definition app_of :: "browser \<Rightarrow> app" where
  "app_of b =
     \<lparr>state = state b, document = document b, rng = rng b, pending = pending b,
      log = log b\<rparr>"

definition lift :: "(app \<Rightarrow> app) \<Rightarrow> browser \<Rightarrow> browser" where
  "lift f b =
     (let a = f (app_of b)
      in b\<lparr>state := state a, document := document a, rng := rng a, pending := pending a,
           log := log a\<rparr>)"

definition alert :: "string \<Rightarrow> browser \<Rightarrow> browser" where
  "alert msg b = b\<lparr>log := log b @ [Alert msg]\<rparr>"

definition uncaught :: "js_error \<Rightarrow> browser \<Rightarrow> browser" where
  "uncaught e b = b\<lparr>log := log b @ [Uncaught e]\<rparr>"

definition blank_auth :: auth_page where
  "blank_auth =
     \<lparr>active_tabs = {LoginTab}, visible_forms = {LoginTab}, signup_name = [],
      signup_email = [], signup_password = [], login_email = [], login_password = [],
      welcome_text = []\<rparr>"

definition blank_theme :: theme_view where
  "blank_theme = \<lparr>data_theme = None, toggle = Some \<lparr>icon = [], title = []\<rparr>, media_listeners = 0\<rparr>"

definition browser_of :: "app \<Rightarrow> storage \<Rightarrow> browser" where
  "browser_of a ls =
     \<lparr>state = state a, document = document a, rng = rng a, pending = pending a,
      log = log a, local_storage = ls, auth = blank_auth, theme = blank_theme\<rparr>"

section \<open>Frames\<close>

lemma app_of_fields [simp]:
  "state (app_of b) = state b"
  "document (app_of b) = document b"
  "rng (app_of b) = rng b"
  "pending (app_of b) = pending b"
  "log (app_of b) = log b"
  by (simp_all add: app_of_def)

lemma lift_fields [simp]:
  "state (lift f b) = state (f (app_of b))"
  "document (lift f b) = document (f (app_of b))"
  "rng (lift f b) = rng (f (app_of b))"
  "pending (lift f b) = pending (f (app_of b))"
  "log (lift f b) = log (f (app_of b))"
  "local_storage (lift f b) = local_storage b"
  "auth (lift f b) = auth b"
  "theme (lift f b) = theme b"
  by (simp_all add: lift_def Let_def)

lemma app_of_lift [simp]: "app_of (lift f b) = f (app_of b)"
  by (simp add: app_of_def [of "lift f b"])

lemma lift_id [simp]: "lift (\<lambda>a. a) b = b"
  by (simp add: lift_def)

lemma lift_comp: "lift f (lift g b) = lift (\<lambda>a. f (g a)) b"
  by (simp add: lift_def [of f] lift_def [of "\<lambda>a. f (g a)"] Let_def)

lemma app_of_update [simp]:
  "app_of (b\<lparr>local_storage := ls\<rparr>) = app_of b"
  "app_of (b\<lparr>auth := v\<rparr>) = app_of b"
  "app_of (b\<lparr>theme := t\<rparr>) = app_of b"
  by (simp_all add: app_of_def)

lemma alert_fields [simp]:
  "log (alert msg b) = log b @ [Alert msg]"
  "state (alert msg b) = state b"
  "document (alert msg b) = document b"
  "rng (alert msg b) = rng b"
  "pending (alert msg b) = pending b"
  "local_storage (alert msg b) = local_storage b"
  "auth (alert msg b) = auth b"
  "theme (alert msg b) = theme b"
  by (simp_all add: alert_def)

lemma uncaught_fields [simp]:
  "log (uncaught e b) = log b @ [Uncaught e]"
  "state (uncaught e b) = state b"
  "document (uncaught e b) = document b"
  "rng (uncaught e b) = rng b"
  "pending (uncaught e b) = pending b"
  "local_storage (uncaught e b) = local_storage b"
  "auth (uncaught e b) = auth b"
  "theme (uncaught e b) = theme b"
  by (simp_all add: uncaught_def)

lemma browser_of_fields [simp]:
  "state (browser_of a ls) = state a"
  "document (browser_of a ls) = document a"
  "rng (browser_of a ls) = rng a"
  "pending (browser_of a ls) = pending a"
  "log (browser_of a ls) = log a"
  "local_storage (browser_of a ls) = ls"
  "auth (browser_of a ls) = blank_auth"
  "theme (browser_of a ls) = blank_theme"
  "app_of (browser_of a ls) = a"
  by (simp_all add: browser_of_def app_of_def)

end
