(* ===== verification/Base64.thy ===== *)
theory Base64
  imports QuizLab_Prelude
begin

text \<open>
  The function \<^verbatim>\<open>btoa\<close> that the sign-up and login handlers of \<^verbatim>\<open>src/script.js\<close> apply to
  the password (lines 55 and 69).

  A password is the sequence of UTF-16 code units of the field's value, as natural
  numbers: \<^verbatim>\<open>pass.length\<close> is the length of that sequence, and \<^verbatim>\<open>btoa\<close> raises
  \<^verbatim>\<open>InvalidCharacterError\<close> unless every code unit is below 256. \<open>b64_enc\<close> is the Base64
  encoding of a sequence of bytes: three bytes become four characters of the alphabet,
  and a last group of one or two bytes is padded with \<^verbatim>\<open>=\<close>. \<open>b64_dec\<close> is the matching
  decoder; the program does not call it, it serves to show that \<open>btoa\<close> loses nothing.
\<close>

section \<open>Encoding\<close>

definition b64_alphabet :: string where
  "b64_alphabet = ''ABCDEFGHIJKLMNOPQRSTUVWXYZabcdefghijklmnopqrstuvwxyz0123456789+/''"

definition b64_char :: "nat \<Rightarrow> char" where
  "b64_char n = b64_alphabet ! n"

definition b64_index :: "char \<Rightarrow> nat" where
  "b64_index c = length (takeWhile (\<lambda>x. x \<noteq> c) b64_alphabet)"

fun b64_enc :: "nat list \<Rightarrow> string" where
  "b64_enc [] = []"
| "b64_enc [a] = [b64_char (a div 4), b64_char ((a mod 4) * 16), CHR ''='', CHR ''='']"
| "b64_enc [a, b] =
     [b64_char (a div 4), b64_char ((a mod 4) * 16 + b div 16), b64_char ((b mod 16) * 4),
      CHR ''='']"
| "b64_enc (a # b # c # rest) =
     [b64_char (a div 4), b64_char ((a mod 4) * 16 + b div 16),
      b64_char ((b mod 16) * 4 + c div 64), b64_char (c mod 64)] @ b64_enc rest"

fun b64_dec :: "string \<Rightarrow> nat list" where
  "b64_dec (p # q # r # s # rest) =
     (let a = b64_index p; b = b64_index q; c = b64_index r; d = b64_index s
      in if r = CHR ''='' then [a * 4 + b div 16]
         else if s = CHR ''='' then [a * 4 + b div 16, (b mod 16) * 16 + c div 4]
         else [a * 4 + b div 16, (b mod 16) * 16 + c div 4, (c mod 4) * 64 + d]
                @ b64_dec rest)"
| "b64_dec cs = []"

definition latin1 :: "nat list \<Rightarrow> bool" where
  "latin1 s \<longleftrightarrow> list_all (\<lambda>c. c < 256) s"

definition btoa :: "nat list \<Rightarrow> js_error + string" where
  "btoa s = (if latin1 s then Inr (b64_enc s) else Inl InvalidCharacterError)"

definition code_units :: "string \<Rightarrow> nat list" where
  "code_units s = map of_char s"

section \<open>The alphabet\<close>

lemma length_takeWhile_nth:
  "distinct xs \<Longrightarrow> n < length xs \<Longrightarrow> length (takeWhile (\<lambda>x. x \<noteq> xs ! n) xs) = n"
proof (induction xs arbitrary: n)
  case Nil
  then show ?case by simp
next
  case (Cons x xs)
  then show ?case by (cases n) auto
qed

lemma length_b64_alphabet [simp]: "length b64_alphabet = 64"
  by (simp add: b64_alphabet_def)

lemma distinct_b64_alphabet: "distinct b64_alphabet"
  by (simp add: b64_alphabet_def)

lemma pad_not_in_alphabet: "CHR ''='' \<notin> set b64_alphabet"
  by (simp add: b64_alphabet_def)

lemma b64_index_char [simp]: "n < 64 \<Longrightarrow> b64_index (b64_char n) = n"
  by (simp add: b64_index_def b64_char_def length_takeWhile_nth distinct_b64_alphabet)

lemma b64_char_not_pad [simp]: "n < 64 \<Longrightarrow> b64_char n \<noteq> CHR ''=''"
  by (metis pad_not_in_alphabet nth_mem length_b64_alphabet b64_char_def)

lemma b64_char_inj: "m < 64 \<Longrightarrow> n < 64 \<Longrightarrow> b64_char m = b64_char n \<Longrightarrow> m = n"
  by (metis b64_index_char)

section \<open>Groups of three bytes\<close>

lemma sextet_bounds:
  assumes "a < (256 :: nat)" and "b < (256 :: nat)" and "c < (256 :: nat)"
  shows "a div 4 < 64" and "(a mod 4) * 16 + b div 16 < 64"
    and "(b mod 16) * 4 + c div 64 < 64" and "c mod 64 < 64"
    and "(a mod 4) * 16 < 64" and "(b mod 16) * 4 < 64"
proof -
  have "a mod 4 < 4" "b mod 16 < 16" "b div 16 < 16" "c div 64 < 4"
    using assms by (simp_all add: less_mult_imp_div_less)
  then show "(a mod 4) * 16 + b div 16 < 64" "(b mod 16) * 4 + c div 64 < 64"
    "(a mod 4) * 16 < 64" "(b mod 16) * 4 < 64"
    by linarith+
  show "a div 4 < 64" "c mod 64 < 64"
    using assms by (simp_all add: less_mult_imp_div_less)
qed

lemma bytes_of_sextets:
  assumes "b < (256 :: nat)" and "c < 256"
  shows "(a div 4) * 4 + ((a mod 4) * 16 + b div 16) div 16 = a"
    and "(((a mod 4) * 16 + b div 16) mod 16) * 16 + ((b mod 16) * 4 + c div 64) div 4 = b"
    and "(((b mod 16) * 4 + c div 64) mod 4) * 64 + c mod 64 = c"
proof -
  have b: "b div 16 < 16" and c: "c div 64 < 4"
    using assms by (simp_all add: less_mult_imp_div_less)
  from b have "((a mod 4) * 16 + b div 16) div 16 = a mod 4"
    and "((a mod 4) * 16 + b div 16) mod 16 = b div 16"
    by simp_all
  moreover from c have "((b mod 16) * 4 + c div 64) div 4 = b mod 16"
    and "((b mod 16) * 4 + c div 64) mod 4 = c div 64"
    by simp_all
  ultimately show "(a div 4) * 4 + ((a mod 4) * 16 + b div 16) div 16 = a"
    and "(((a mod 4) * 16 + b div 16) mod 16) * 16 + ((b mod 16) * 4 + c div 64) div 4 = b"
    and "(((b mod 16) * 4 + c div 64) mod 4) * 64 + c mod 64 = c"
    by simp_all
qed

section \<open>Decoding what was encoded\<close>

lemma latin1_simps [simp]:
  "latin1 []"
  "latin1 (c # s) \<longleftrightarrow> c < 256 \<and> latin1 s"
  by (simp_all add: latin1_def)

lemma latin1_append [simp]: "latin1 (s @ t) \<longleftrightarrow> latin1 s \<and> latin1 t"
  by (simp add: latin1_def)

lemma latin1_code_units [simp]: "latin1 (code_units s)"
  by (simp add: latin1_def code_units_def list_all_iff)

lemma length_b64_enc: "length (b64_enc s) = 4 * ((length s + 2) div 3)"
proof (induction s rule: b64_enc.induct)
  case (4 a b c rest)
  have "(length rest + 2 + 3) div 3 = (length rest + 2) div 3 + 1"
    by (rule div_add_self2) simp
  with 4 show ?case
    by (simp add: add.commute add.left_commute)
qed simp_all

lemma b64_enc_eq_Nil [simp]: "b64_enc s = [] \<longleftrightarrow> s = []"
  by (cases s rule: b64_enc.cases) simp_all

lemma b64_dec_enc: "latin1 s \<Longrightarrow> b64_dec (b64_enc s) = s"
proof (induction s rule: b64_enc.induct)
  case 1
  then show ?case by simp
next
  case (2 a)
  have z: "(0 :: nat) < 256" by simp
  from 2 have a: "a < 256" by simp
  show ?case
    using sextet_bounds [OF a z z] bytes_of_sextets(1) [OF z z, of a] by simp
next
  case (3 a b)
  have z: "(0 :: nat) < 256" by simp
  from 3 have a: "a < 256" and b: "b < 256" by simp_all
  show ?case
    using sextet_bounds [OF a b z] bytes_of_sextets(1,2) [OF b z, of a] by simp
next
  case (4 a b c rest)
  then have a: "a < 256" and b: "b < 256" and c: "c < 256" and rest: "latin1 rest"
    by simp_all
  show ?case
    using sextet_bounds [OF a b c] bytes_of_sextets(1,2) [OF b c, of a]
      bytes_of_sextets(3) [OF b c] "4.IH" [OF rest]
    by simp
qed

lemma b64_enc_inj: "latin1 s \<Longrightarrow> latin1 t \<Longrightarrow> b64_enc s = b64_enc t \<Longrightarrow> s = t"
  by (metis b64_dec_enc)

lemma btoa_latin1 [simp]: "latin1 s \<Longrightarrow> btoa s = Inr (b64_enc s)"
  by (simp add: btoa_def)

lemma btoa_not_latin1 [simp]: "\<not> latin1 s \<Longrightarrow> btoa s = Inl InvalidCharacterError"
  by (simp add: btoa_def)

lemma btoa_eq_Inr_iff: "btoa s = Inr h \<longleftrightarrow> latin1 s \<and> h = b64_enc s"
  by (auto simp: btoa_def)

lemma btoa_eq_Inl_iff: "btoa s = Inl e \<longleftrightarrow> \<not> latin1 s \<and> e = InvalidCharacterError"
  by (auto simp: btoa_def)

lemma btoa_inj: "btoa s = Inr h \<Longrightarrow> btoa t = Inr h \<Longrightarrow> s = t"
  by (auto simp: btoa_eq_Inr_iff dest: b64_enc_inj)

lemma b64_char_values:
  "b64_char 28 = CHR ''c''" "b64_char 54 = CHR ''2''" "b64_char 21 = CHR ''V''"
  "b64_char 35 = CHR ''j''" "b64_char 38 = CHR ''m''" "b64_char 52 = CHR ''0''"
  by (simp_all add: b64_char_def b64_alphabet_def)

lemma btoa_secret: "btoa (code_units ''secret'') = Inr ''c2VjcmV0''"
  by (simp add: btoa_def code_units_def b64_char_values)

text \<open>
  C21. \<^verbatim>\<open>btoa\<close> loses nothing: when it returns a text, the decoder gives the password back,
  the text has four characters for every three code units, rounded up, and no other
  password has the same text. So the stored \<^verbatim>\<open>passHash\<close> determines the password, and
  comparing the stored text with the encoding of the typed password (line 69) compares
  the passwords.
\<close>

theorem btoa_decodes:
  assumes "btoa s = Inr h"
  shows "b64_dec h = s \<and> length h = 4 * ((length s + 2) div 3)
    \<and> (\<forall>t. btoa t = Inr h \<longrightarrow> t = s)"
  using assms by (auto simp: btoa_eq_Inr_iff b64_dec_enc length_b64_enc dest: b64_enc_inj)

theorem btoa_decodes_witness:
  "btoa (code_units ''secret'') = Inr ''c2VjcmV0''
   \<and> b64_dec ''c2VjcmV0'' = code_units ''secret'' \<and> length ''c2VjcmV0'' = 8"
  using btoa_decodes [of "code_units ''secret''" "''c2VjcmV0''"] by (simp add: btoa_secret)

end
