(* ===== verification/Auth.thy ===== *)
theory Auth
  imports Browser Base64
begin

text \<open>
  The demo authentication of \<^verbatim>\<open>src/script.js\<close> (lines 33-98): the tabs of the sign-in
  screen, the submit handlers of the sign-up and login forms, \<^verbatim>\<open>onLogin\<close> and \<^verbatim>\<open>logout\<close>.

  \<^item> \<open>trim\<close> and \<open>toLowerCase\<close> are the string methods of the same names on the code units
    below 256: white space is tab, line feed, vertical tab, form feed, carriage
    return, space and no-break space; the capital letters are A-Z and the accented
    capitals of Latin-1.
  \<^item> \<open>address v\<close> abbreviates \<^verbatim>\<open>v.trim().toLowerCase()\<close>, \<open>users_of ls\<close> abbreviates
    \<^verbatim>\<open>store.get('users', {})\<close> and \<open>session_of ls\<close> abbreviates \<^verbatim>\<open>store.get('session')\<close>.
  \<^item> \<open>fill_signup\<close> and \<open>fill_login\<close> are the user typing into the fields. The handlers
    read the fields; the validation the markup may ask of the browser is not modelled,
    so the handlers are defined for every content of the fields.
  \<^item> \<open>signup_submit\<close> and \<open>login_submit\<close> are the two submit listeners of \<^verbatim>\<open>initAuth\<close>,
    \<open>tab_click\<close> its tab listener. A handler that ends with \<^verbatim>\<open>return alert(...)\<close> adds the
    message to the log; an exception of \<^verbatim>\<open>btoa\<close> ends the handler and is logged as
    uncaught.
  \<^item> \<open>user_entry\<close> and \<open>session_entry\<close> are the two object literals the handlers store.
  \<^item> \<open>ex_visitor\<close> is a browser with empty storage that shows the sign-in screen;
    \<open>ex_signup\<close> is the same with the sign-up form filled in; \<open>ex_member\<close> is the browser
    after that sign-up and a logout; \<open>euro_password\<close> is a password that ends with the
    euro sign, code unit 8364.
  \<^item> \<open>entry_ok\<close>, \<open>users_ok\<close>, \<open>session_ok\<close> and \<open>storage_ok\<close> describe a storage that holds
    what these handlers write: a table of accounts under their own addresses, each
    with the encoding of a password of at least six code units (\<open>hash_ok\<close>), and a
    session that names an account. \<open>str_prop\<close> reads a property that is a string.
\<close>

section \<open>Text of the input fields\<close>

definition is_space :: "char \<Rightarrow> bool" where
  "is_space c \<longleftrightarrow> of_char c \<in> {9, 10, 11, 12, 13, 32, 160 :: nat}"

definition trim :: "string \<Rightarrow> string" where
  "trim s = rev (dropWhile is_space (rev (dropWhile is_space s)))"

definition capital :: "nat \<Rightarrow> bool" where
  "capital n \<longleftrightarrow> (65 \<le> n \<and> n \<le> 90) \<or> (192 \<le> n \<and> n \<le> 222 \<and> n \<noteq> 215)"

definition lower_char :: "char \<Rightarrow> char" where
  "lower_char c = (if capital (of_char c) then char_of (of_char c + 32 :: nat) else c)"

definition toLowerCase :: "string \<Rightarrow> string" where
  "toLowerCase s = map lower_char s"

definition fill_signup :: "string \<Rightarrow> string \<Rightarrow> nat list \<Rightarrow> browser \<Rightarrow> browser" where
  "fill_signup name email pass b =
     b\<lparr>auth := (auth b)\<lparr>signup_name := name, signup_email := email, signup_password := pass\<rparr>\<rparr>"

definition fill_login :: "string \<Rightarrow> nat list \<Rightarrow> browser \<Rightarrow> browser" where
  "fill_login email pass b =
     b\<lparr>auth := (auth b)\<lparr>login_email := email, login_password := pass\<rparr>\<rparr>"

abbreviation address :: "string \<Rightarrow> string" where
  "address v \<equiv> toLowerCase (trim v)"

abbreviation users_of :: "storage \<Rightarrow> jvalue" where
  "users_of ls \<equiv> store_get ''users'' (JObj []) ls"

abbreviation session_of :: "storage \<Rightarrow> jvalue" where
  "session_of ls \<equiv> store_get ''session'' JNull ls"

section \<open>Tabs\<close>

definition switchAuthTab :: "tab \<Rightarrow> auth_page \<Rightarrow> auth_page" where
  "switchAuthTab name v =
     v\<lparr>active_tabs := {t. t = name}, visible_forms := {name}\<rparr>"

definition tab_click :: "tab \<Rightarrow> browser \<Rightarrow> browser" where
  "tab_click t b = b\<lparr>auth := switchAuthTab t (auth b)\<rparr>"

section \<open>Signing in and out\<close>

definition user_entry :: "string \<Rightarrow> string \<Rightarrow> string \<Rightarrow> jvalue" where
  "user_entry name email h =
     JObj [(''name'', JStr name), (''email'', JStr email), (''passHash'', JStr h)]"

definition session_entry :: "string \<Rightarrow> jvalue" where
  "session_entry email = JObj [(''email'', JStr email)]"

definition greeting :: "jvalue option \<Rightarrow> string" where
  "greeting u =
     (let name = (case u of None \<Rightarrow> None | Some JNull \<Rightarrow> None | Some v \<Rightarrow> get_prop v ''name'')
      in ''Hi, '' @ (if truthy_value name then to_text name else ''User''))"

definition onLogin :: "browser \<Rightarrow> browser" where
  "onLogin b =
     (let session = store_get ''session'' JNull (local_storage b)
      in if \<not> truthy_value (Some session) then b
         else (let users = store_get ''users'' (JObj []) (local_storage b);
                   u = get_prop users (to_text (get_prop session ''email''))
               in b\<lparr>auth := (auth b)\<lparr>welcome_text := greeting u\<rparr>,
                    document :=
                      show_el Dashboard (show_el Topbar (hide AuthScreen (document b)))\<rparr>))"

definition signup_submit :: "browser \<Rightarrow> browser" where
  "signup_submit b =
     (let name = trim (signup_name (auth b));
          email = toLowerCase (trim (signup_email (auth b)));
          pass = signup_password (auth b)
      in if length pass < 6 then alert ''Password must be at least 6 characters.'' b
         else (let users = store_get ''users'' (JObj []) (local_storage b)
               in if truthy_value (get_prop users email)
                  then alert ''Account already exists. Please log in.'' b
                  else (case btoa pass of
                          Inl e \<Rightarrow> uncaught e b
                        | Inr h \<Rightarrow>
                            onLogin (b\<lparr>local_storage :=
                              store_set ''session'' (session_entry email)
                                (store_set ''users''
                                   (set_prop users email (user_entry name email h))
                                   (local_storage b))\<rparr>))))"

definition login_submit :: "browser \<Rightarrow> browser" where
  "login_submit b =
     (let email = toLowerCase (trim (login_email (auth b)));
          pass = login_password (auth b);
          users = store_get ''users'' (JObj []) (local_storage b)
      in case (if truthy_value (get_prop users email) then get_prop users email else None) of
           None \<Rightarrow> alert ''No account found. Please sign up.'' b
         | Some u \<Rightarrow>
             (case btoa pass of
                Inl e \<Rightarrow> uncaught e b
              | Inr h \<Rightarrow>
                  if get_prop u ''passHash'' \<noteq> Some (JStr h) then alert ''Incorrect password.'' b
                  else onLogin (b\<lparr>local_storage :=
                         store_set ''session'' (session_entry email) (local_storage b)\<rparr>)))"

definition reset_forms :: "auth_page \<Rightarrow> auth_page" where
  "reset_forms v =
     v\<lparr>login_email := [], login_password := [], signup_name := [], signup_email := [],
       signup_password := []\<rparr>"

definition logout :: "browser \<Rightarrow> browser" where
  "logout b =
     b\<lparr>local_storage := store_del ''session'' (local_storage b),
       document :=
         show_el AuthScreen
           (hide ReviewScreen (hide QuizScreen (hide Dashboard (hide Topbar (document b))))),
       auth := switchAuthTab LoginTab (reset_forms (auth b))\<rparr>"

section \<open>Well-formed storage\<close>

definition str_prop :: "jvalue \<Rightarrow> string \<Rightarrow> string option" where
  "str_prop v k = (case get_prop v k of Some (JStr s) \<Rightarrow> Some s | _ \<Rightarrow> None)"

definition hash_ok :: "string \<Rightarrow> bool" where
  "hash_ok h \<longleftrightarrow> latin1 (b64_dec h) \<and> b64_enc (b64_dec h) = h \<and> 6 \<le> length (b64_dec h)"

definition entry_ok :: "string \<Rightarrow> jvalue \<Rightarrow> bool" where
  "entry_ok k v \<longleftrightarrow>
     str_prop v ''name'' \<noteq> None \<and> str_prop v ''email'' = Some k \<and> toLowerCase (trim k) = k
       \<and> (case str_prop v ''passHash'' of None \<Rightarrow> False | Some h \<Rightarrow> hash_ok h)"

definition users_ok :: "storage \<Rightarrow> bool" where
  "users_ok ls =
     (case store_get ''users'' (JObj []) ls of
        JObj kvs \<Rightarrow> list_all (\<lambda>(k, v). entry_ok k v) kvs
      | _ \<Rightarrow> False)"

definition session_ok :: "storage \<Rightarrow> bool" where
  "session_ok ls =
     (case ls ''session'' of
        None \<Rightarrow> True
      | Some it \<Rightarrow>
          (case str_prop (store_get ''session'' JNull ls) ''email'' of
             None \<Rightarrow> False
           | Some e \<Rightarrow>
               it = Json (session_entry e)
                 \<and> truthy_value (get_prop (store_get ''users'' (JObj []) ls) e)))"

definition storage_ok :: "storage \<Rightarrow> bool" where
  "storage_ok ls \<longleftrightarrow> users_ok ls \<and> session_ok ls"

section \<open>Examples\<close>

definition ex_visitor :: browser where
  "ex_visitor =
     browser_of
       \<lparr>state = init_state,
        document = blank_page\<lparr>hidden := {Topbar, Dashboard, QuizScreen, ReviewScreen}\<rparr>,
        rng = 0, pending = [], log = []\<rparr>
       Map.empty"

definition euro_password :: "nat list" where
  "euro_password = code_units ''secret'' @ [8364]"

definition ex_signup :: browser where
  "ex_signup = fill_signup ''Ada '' '' Ada@Example.COM'' (code_units ''secret'') ex_visitor"

definition ex_member :: browser where
  "ex_member = logout (signup_submit ex_signup)"

lemmas [handler_defs] = signup_submit_def login_submit_def logout_def onLogin_def tab_click_def
lemmas [inv_defs] = storage_ok_def users_ok_def session_ok_def entry_ok_def hash_ok_def

section \<open>Trimming and lower case\<close>

lemma dropWhile_rev_dropWhile:
  "dropWhile P (rev (dropWhile P (rev (dropWhile P s)))) = rev (dropWhile P (rev (dropWhile P s)))"
proof -
  let ?t = "dropWhile P s"
  let ?r = "dropWhile P (rev ?t)"
  show "dropWhile P (rev ?r) = rev ?r"
  proof (cases "?r = []")
    case True
    show ?thesis unfolding True by simp
  next
    case False
    then have t: "?t \<noteq> []" by (metis dropWhile.simps(1) rev.simps(1))
    have "?r = drop (length (takeWhile P (rev ?t))) (rev ?t)"
      by (rule dropWhile_eq_drop)
    with False have "last ?r = last (rev ?t)"
      by (metis drop_eq_Nil last_drop not_le)
    also have "\<dots> = hd ?t"
      using t by (simp add: last_rev)
    finally have "\<not> P (hd (rev ?r))"
      using False t hd_dropWhile [of P s] by (simp add: hd_rev)
    then show ?thesis
      by (simp add: dropWhile_eq_self_iff)
  qed
qed

lemma trim_idem [simp]: "trim (trim s) = trim s"
  by (simp add: trim_def dropWhile_rev_dropWhile)

lemma trim_Nil [simp]: "trim [] = []"
  by (simp add: trim_def)

lemma lower_char_capital:
  "capital (of_char c) \<Longrightarrow> lower_char c = char_of (of_char c + 32 :: nat)"
  by (simp add: lower_char_def)

lemma lower_char_other: "\<not> capital (of_char c) \<Longrightarrow> lower_char c = c"
  by (simp add: lower_char_def)

lemma of_char_lower_char:
  "(of_char (lower_char c) :: nat) = (if capital (of_char c) then of_char c + 32 else of_char c)"
proof (cases "capital (of_char c)")
  case True
  then have "(of_char c :: nat) + 32 < 256"
    by (auto simp: capital_def)
  with True show ?thesis
    by (simp add: lower_char_capital of_char_of)
next
  case False
  then show ?thesis by (simp add: lower_char_other)
qed

lemma not_capital_lower_char [simp]: "\<not> capital (of_char (lower_char c))"
  by (auto simp: of_char_lower_char) (auto simp: capital_def)

lemma lower_char_idem [simp]: "lower_char (lower_char c) = lower_char c"
  by (simp add: lower_char_other)

lemma is_space_lower_char [simp]: "is_space (lower_char c) = is_space c"
  by (auto simp: is_space_def of_char_lower_char capital_def)

lemma toLowerCase_idem [simp]: "toLowerCase (toLowerCase s) = toLowerCase s"
  by (simp add: toLowerCase_def)

lemma dropWhile_space_lower:
  "dropWhile is_space (map lower_char s) = map lower_char (dropWhile is_space s)"
  by (simp add: dropWhile_map comp_def)

lemma trim_toLowerCase: "trim (toLowerCase s) = toLowerCase (trim s)"
  by (simp add: trim_def toLowerCase_def dropWhile_space_lower rev_map)

lemma normalise_idem [simp]: "toLowerCase (trim (toLowerCase (trim s))) = toLowerCase (trim s)"
  by (simp add: trim_toLowerCase)

lemma trim_example: "trim ''  Ada Lovelace '' = ''Ada Lovelace''"
  by (simp add: trim_def is_space_def)

lemma toLowerCase_example: "toLowerCase (trim '' Ada@Example.COM '') = ''ada@example.com''"
  by (simp add: trim_def is_space_def toLowerCase_def lower_char_def capital_def char_of_def bit_Suc_0_iff)

lemmas text_eval = trim_def is_space_def toLowerCase_def lower_char_def capital_def char_of_def
  bit_Suc_0_iff

section \<open>Switching tabs and filling fields\<close>

lemma switchAuthTab_fields [simp]:
  "active_tabs (switchAuthTab t v) = {t}"
  "visible_forms (switchAuthTab t v) = {t}"
  "signup_name (switchAuthTab t v) = signup_name v"
  "signup_email (switchAuthTab t v) = signup_email v"
  "signup_password (switchAuthTab t v) = signup_password v"
  "login_email (switchAuthTab t v) = login_email v"
  "login_password (switchAuthTab t v) = login_password v"
  "welcome_text (switchAuthTab t v) = welcome_text v"
  by (simp_all add: switchAuthTab_def)

lemma switchAuthTab_twice [simp]: "switchAuthTab t (switchAuthTab t' v) = switchAuthTab t v"
  by (simp add: switchAuthTab_def)

lemma reset_forms_fields [simp]:
  "active_tabs (reset_forms v) = active_tabs v"
  "visible_forms (reset_forms v) = visible_forms v"
  "signup_name (reset_forms v) = []"
  "signup_email (reset_forms v) = []"
  "signup_password (reset_forms v) = []"
  "login_email (reset_forms v) = []"
  "login_password (reset_forms v) = []"
  "welcome_text (reset_forms v) = welcome_text v"
  by (simp_all add: reset_forms_def)

lemma fill_fields [simp]:
  "signup_name (auth (fill_signup n e p b)) = n"
  "signup_email (auth (fill_signup n e p b)) = e"
  "signup_password (auth (fill_signup n e p b)) = p"
  "login_email (auth (fill_login e p b)) = e"
  "login_password (auth (fill_login e p b)) = p"
  "local_storage (fill_signup n e p b) = local_storage b"
  "local_storage (fill_login e p b) = local_storage b"
  "document (fill_signup n e p b) = document b"
  "document (fill_login e p b) = document b"
  "log (fill_signup n e p b) = log b"
  "log (fill_login e p b) = log b"
  by (simp_all add: fill_signup_def fill_login_def)

section \<open>Greeting\<close>

lemma greeting_simps [simp]:
  "greeting None = ''Hi, User''"
  "greeting (Some JNull) = ''Hi, User''"
  "greeting (Some (JStr s)) = ''Hi, User''"
  "greeting (Some (user_entry name email h)) = ''Hi, '' @ (if name = [] then ''User'' else name)"
  by (simp_all add: greeting_def user_entry_def)

lemma user_entry_props [simp]:
  "get_prop (user_entry name email h) ''name'' = Some (JStr name)"
  "get_prop (user_entry name email h) ''email'' = Some (JStr email)"
  "get_prop (user_entry name email h) ''passHash'' = Some (JStr h)"
  "truthy_value (Some (user_entry name email h))"
  "user_entry name email h \<noteq> JNull"
  by (simp_all add: user_entry_def)

lemma session_entry_props [simp]:
  "get_prop (session_entry email) ''email'' = Some (JStr email)"
  "truthy_value (Some (session_entry email))"
  "session_entry email \<noteq> JNull"
  by (simp_all add: session_entry_def)

section \<open>onLogin\<close>

lemma onLogin_no_session:
  "\<not> truthy_value (Some (session_of (local_storage b))) \<Longrightarrow> onLogin b = b"
  by (simp add: onLogin_def)

lemma onLogin_session:
  "truthy_value (Some (session_of (local_storage b))) \<Longrightarrow>
   onLogin b =
     b\<lparr>auth := (auth b)\<lparr>welcome_text :=
            greeting (get_prop (users_of (local_storage b))
              (to_text (get_prop (session_of (local_storage b)) ''email'')))\<rparr>,
       document := show_el Dashboard (show_el Topbar (hide AuthScreen (document b)))\<rparr>"
  by (simp add: onLogin_def Let_def)

lemma onLogin_frame [simp]:
  "local_storage (onLogin b) = local_storage b"
  "state (onLogin b) = state b"
  "rng (onLogin b) = rng b"
  "pending (onLogin b) = pending b"
  "log (onLogin b) = log b"
  "theme (onLogin b) = theme b"
  "active_tabs (auth (onLogin b)) = active_tabs (auth b)"
  "visible_forms (auth (onLogin b)) = visible_forms (auth b)"
  "signup_name (auth (onLogin b)) = signup_name (auth b)"
  "signup_email (auth (onLogin b)) = signup_email (auth b)"
  "signup_password (auth (onLogin b)) = signup_password (auth b)"
  "login_email (auth (onLogin b)) = login_email (auth b)"
  "login_password (auth (onLogin b)) = login_password (auth b)"
  by (simp_all add: onLogin_def Let_def)

lemma login_screens_idem [simp]:
  "show_el Dashboard (show_el Topbar (hide AuthScreen
     (show_el Dashboard (show_el Topbar (hide AuthScreen p)))))
   = show_el Dashboard (show_el Topbar (hide AuthScreen p))"
proof -
  have "insert AuthScreen (insert AuthScreen (hidden p) - {Topbar} - {Dashboard}) - {Topbar}
          - {Dashboard}
        = insert AuthScreen (hidden p) - {Topbar} - {Dashboard}"
    by auto
  then show ?thesis
    by (simp add: show_el_def hide_def)
qed

lemma onLogin_idem [simp]: "onLogin (onLogin b) = onLogin b"
  by (cases "truthy_value (Some (session_of (local_storage b)))")
     (simp_all add: onLogin_no_session onLogin_session insert_commute)

section \<open>Sign-up\<close>

lemma signup_short:
  "length (signup_password (auth b)) < 6 \<Longrightarrow>
   signup_submit b = alert ''Password must be at least 6 characters.'' b"
  by (simp add: signup_submit_def)

lemma signup_exists:
  "6 \<le> length (signup_password (auth b)) \<Longrightarrow>
   truthy_value (get_prop (users_of (local_storage b))
     (address (signup_email (auth b)))) \<Longrightarrow>
   signup_submit b = alert ''Account already exists. Please log in.'' b"
  by (simp add: signup_submit_def Let_def)

lemma signup_not_latin1:
  "6 \<le> length (signup_password (auth b)) \<Longrightarrow>
   \<not> truthy_value (get_prop (users_of (local_storage b))
     (address (signup_email (auth b)))) \<Longrightarrow>
   \<not> latin1 (signup_password (auth b)) \<Longrightarrow>
   signup_submit b = uncaught InvalidCharacterError b"
  by (simp add: signup_submit_def Let_def)

lemma signup_stores:
  "6 \<le> length (signup_password (auth b)) \<Longrightarrow>
   \<not> truthy_value (get_prop (users_of (local_storage b))
     (address (signup_email (auth b)))) \<Longrightarrow>
   latin1 (signup_password (auth b)) \<Longrightarrow>
   signup_submit b =
     onLogin (b\<lparr>local_storage :=
       store_set ''session'' (session_entry (address (signup_email (auth b))))
         (store_set ''users''
            (set_prop (users_of (local_storage b))
               (address (signup_email (auth b)))
               (user_entry (trim (signup_name (auth b)))
                  (address (signup_email (auth b)))
                  (b64_enc (signup_password (auth b)))))
            (local_storage b))\<rparr>)"
  by (simp add: signup_submit_def Let_def)

section \<open>Login\<close>

lemma login_no_account:
  "\<not> truthy_value (get_prop (users_of (local_storage b))
     (address (login_email (auth b)))) \<Longrightarrow>
   login_submit b = alert ''No account found. Please sign up.'' b"
  by (simp add: login_submit_def Let_def)

lemma login_not_latin1:
  "truthy_value (get_prop (users_of (local_storage b))
     (address (login_email (auth b)))) \<Longrightarrow>
   \<not> latin1 (login_password (auth b)) \<Longrightarrow>
   login_submit b = uncaught InvalidCharacterError b"
  by (auto simp: login_submit_def Let_def split: option.splits)

lemma login_wrong_password:
  "get_prop (users_of (local_storage b))
     (address (login_email (auth b))) = Some u \<Longrightarrow>
   truthy_value (Some u) \<Longrightarrow> latin1 (login_password (auth b)) \<Longrightarrow>
   get_prop u ''passHash'' \<noteq> Some (JStr (b64_enc (login_password (auth b)))) \<Longrightarrow>
   login_submit b = alert ''Incorrect password.'' b"
  by (simp add: login_submit_def Let_def)

lemma login_match:
  "get_prop (users_of (local_storage b))
     (address (login_email (auth b))) = Some u \<Longrightarrow>
   truthy_value (Some u) \<Longrightarrow> latin1 (login_password (auth b)) \<Longrightarrow>
   get_prop u ''passHash'' = Some (JStr (b64_enc (login_password (auth b)))) \<Longrightarrow>
   login_submit b =
     onLogin (b\<lparr>local_storage :=
       store_set ''session'' (session_entry (address (login_email (auth b))))
         (local_storage b)\<rparr>)"
  by (simp add: login_submit_def Let_def)

section \<open>Logout\<close>

lemma logout_fields [simp]:
  "local_storage (logout b) = store_del ''session'' (local_storage b)"
  "hidden (document (logout b)) = insert ReviewScreen (insert QuizScreen (insert Dashboard
     (insert Topbar (hidden (document b))))) - {AuthScreen}"
  "auth (logout b) = switchAuthTab LoginTab (reset_forms (auth b))"
  "state (logout b) = state b"
  "rng (logout b) = rng b"
  "pending (logout b) = pending b"
  "log (logout b) = log b"
  "theme (logout b) = theme b"
  by (simp_all add: logout_def)

lemma visible_logout [simp]: "visible (document (logout b)) el \<longleftrightarrow> el = AuthScreen"
  by (cases el) (simp_all add: logout_def)

lemma onLogin_logout [simp]: "onLogin (logout b) = logout b"
  by (simp add: onLogin_no_session)

lemma logout_idem [simp]: "logout (logout b) = logout b"
proof -
  have "insert ReviewScreen (insert QuizScreen (insert Dashboard (insert Topbar
          (insert ReviewScreen (insert QuizScreen (insert Dashboard (insert Topbar A)))
             - {AuthScreen})))) - {AuthScreen}
        = insert ReviewScreen (insert QuizScreen (insert Dashboard (insert Topbar A)))
             - {AuthScreen}" for A
    by auto
  then show ?thesis
    by (simp add: logout_def show_el_def hide_def reset_forms_def switchAuthTab_def)
qed

section \<open>Accounts\<close>

lemma str_prop_simps [simp]:
  "str_prop JNull k = None"
  "str_prop (JStr s) k = None"
  "str_prop (user_entry name email h) ''name'' = Some name"
  "str_prop (user_entry name email h) ''email'' = Some email"
  "str_prop (user_entry name email h) ''passHash'' = Some h"
  "str_prop (session_entry email) ''email'' = Some email"
  by (simp_all add: str_prop_def)

lemma str_prop_eq_Some_iff: "str_prop v k = Some s \<longleftrightarrow> get_prop v k = Some (JStr s)"
  by (simp add: str_prop_def split: option.splits jvalue.splits)

lemma hash_ok_b64_enc [simp]: "latin1 p \<Longrightarrow> hash_ok (b64_enc p) \<longleftrightarrow> 6 \<le> length p"
  by (simp add: hash_ok_def b64_dec_enc)

lemma hash_okD:
  assumes "hash_ok h"
  obtains p where "h = b64_enc p" and "latin1 p" and "6 \<le> length p"
  using assms by (metis hash_ok_def)

lemma entry_ok_new:
  "latin1 p \<Longrightarrow> 6 \<le> length p \<Longrightarrow>
   entry_ok (address e) (user_entry name (address e) (b64_enc p))"
  by (simp add: entry_ok_def)

lemma entry_okD:
  assumes "entry_ok k v"
  obtains name p where "get_prop v ''name'' = Some (JStr name)"
    and "get_prop v ''email'' = Some (JStr k)"
    and "get_prop v ''passHash'' = Some (JStr (b64_enc p))"
    and "latin1 p" and "6 \<le> length p" and "address k = k"
proof -
  from assms obtain name h where "str_prop v ''name'' = Some name"
    and "str_prop v ''email'' = Some k" and h: "str_prop v ''passHash'' = Some h" "hash_ok h"
    and "address k = k"
    by (auto simp: entry_ok_def split: option.splits)
  moreover from h(2) obtain p where "h = b64_enc p" "latin1 p" "6 \<le> length p"
    by (rule hash_okD)
  ultimately show ?thesis
    using that by (simp add: str_prop_eq_Some_iff)
qed

lemma entry_ok_truthy: "entry_ok k v \<Longrightarrow> truthy_value (Some v)"
  by (cases v) (simp_all add: entry_ok_def)

lemma list_all_put:
  "list_all P kvs \<Longrightarrow> P (k, x) \<Longrightarrow> list_all P (put k x kvs)"
  by (induction kvs) auto

lemma users_okD:
  assumes "users_ok ls"
  obtains kvs where "users_of ls = JObj kvs"
    and "list_all (\<lambda>(k, v). entry_ok k v) kvs"
  using assms by (auto simp: users_ok_def split: jvalue.splits)

lemma users_ok_lookup:
  assumes "users_ok ls" and "get_prop (users_of ls) k = Some v"
  shows "entry_ok k v"
proof -
  from assms(1) obtain kvs where kvs: "users_of ls = JObj kvs"
    and all: "list_all (\<lambda>(k, v). entry_ok k v) kvs"
    by (rule users_okD)
  from assms(2) kvs have "(k, v) \<in> set kvs"
    by (simp add: map_of_SomeD)
  with all show ?thesis
    by (auto simp: list_all_iff)
qed

lemma users_ok_truthy_iff:
  "users_ok ls \<Longrightarrow>
   truthy_value (get_prop (users_of ls) k)
     \<longleftrightarrow> get_prop (users_of ls) k \<noteq> None"
  by (cases "get_prop (users_of ls) k")
     (auto dest: users_ok_lookup entry_ok_truthy)

lemma users_ok_empty [simp]: "users_ok Map.empty"
  by (simp add: users_ok_def)

lemma users_ok_other_key [simp]:
  "key \<noteq> ''users'' \<Longrightarrow> users_ok (store_set key v ls) = users_ok ls"
  "key \<noteq> ''users'' \<Longrightarrow> users_ok (store_del key ls) = users_ok ls"
  "key \<noteq> ''users'' \<Longrightarrow> users_ok (ls(key := x)) = users_ok ls"
  by (simp_all add: users_ok_def)

lemma users_ok_add:
  assumes "users_ok ls" and "entry_ok k v"
  shows "users_ok (store_set ''users'' (set_prop (users_of ls) k v) ls)"
proof -
  from assms(1) obtain kvs where kvs: "users_of ls = JObj kvs"
    and all: "list_all (\<lambda>(k, v). entry_ok k v) kvs"
    by (rule users_okD)
  from all assms(2) have "list_all (\<lambda>(k, v). entry_ok k v) (put k v kvs)"
    by (simp add: list_all_put)
  with kvs show ?thesis
    by (simp add: users_ok_def)
qed

lemma session_ok_no_session [simp]: "ls ''session'' = None \<Longrightarrow> session_ok ls"
  by (simp add: session_ok_def)

lemma session_ok_set:
  "truthy_value (get_prop (users_of ls) e) \<Longrightarrow>
   session_ok (store_set ''session'' (session_entry e) ls)"
  by (simp add: session_ok_def)

lemma session_ok_del [simp]: "session_ok (store_del ''session'' ls)"
  by (simp add: session_ok_def)

lemma session_okD:
  assumes "session_ok ls" and "truthy_value (Some (session_of ls))"
  obtains e where "session_of ls = session_entry e"
    and "truthy_value (get_prop (users_of ls) e)"
proof (cases "ls ''session''")
  case None
  with assms(2) show ?thesis by simp
next
  case (Some it)
  with assms(1) obtain e where "it = Json (session_entry e)"
    and "truthy_value (get_prop (users_of ls) e)"
    by (auto simp: session_ok_def split: option.splits)
  with Some that show ?thesis
    by (simp add: store_get_Json)
qed

section \<open>Handlers keep the storage well formed\<close>

lemma storage_ok_session_update:
  "users_ok ls \<Longrightarrow> truthy_value (get_prop (users_of ls) e) \<Longrightarrow>
   storage_ok (store_set ''session'' (session_entry e) ls)"
  by (simp add: storage_ok_def session_ok_set)

lemma users_obj:
  assumes "users_ok ls"
  obtains kvs where "users_of ls = JObj kvs"
  using assms by (rule users_okD)

lemma storage_ok_new_account:
  assumes "users_ok ls" and "latin1 p" and "6 \<le> length p"
  shows "storage_ok
    (store_set ''session'' (session_entry (address e))
       (store_set ''users''
          (set_prop (users_of ls) (address e)
             (user_entry name (address e) (b64_enc p)))
          ls))"
proof -
  let ?e = "address e"
  let ?ls1 = "store_set ''users''
    (set_prop (users_of ls) ?e (user_entry name ?e (b64_enc p))) ls"
  from assms(1) obtain kvs where kvs: "users_of ls = JObj kvs"
    by (rule users_obj)
  from assms have "users_ok ?ls1"
    by (intro users_ok_add entry_ok_new)
  moreover have "truthy_value (get_prop (users_of ?ls1) ?e)"
    by (simp add: kvs user_entry_def)
  ultimately show ?thesis
    by (rule storage_ok_session_update)
qed

lemma storage_ok_signup:
  assumes "storage_ok (local_storage b)"
  shows "storage_ok (local_storage (signup_submit b))"
proof -
  let ?e = "address (signup_email (auth b))"
  let ?p = "signup_password (auth b)"
  let ?users = "users_of (local_storage b)"
  from assms have u: "users_ok (local_storage b)" by (simp add: storage_ok_def)
  consider "length ?p < 6" | "6 \<le> length ?p" "truthy_value (get_prop ?users ?e)"
    | "6 \<le> length ?p" "\<not> truthy_value (get_prop ?users ?e)" "\<not> latin1 ?p"
    | "6 \<le> length ?p" "\<not> truthy_value (get_prop ?users ?e)" "latin1 ?p"
    by linarith
  then show ?thesis
  proof cases
    case 4
    with u show ?thesis
      by (simp add: signup_stores storage_ok_new_account)
  qed (simp_all add: assms signup_short signup_exists signup_not_latin1)
qed

lemma storage_ok_login:
  assumes "storage_ok (local_storage b)"
  shows "storage_ok (local_storage (login_submit b))"
proof -
  let ?ls = "local_storage b"
  let ?e = "address (login_email (auth b))"
  let ?users = "users_of ?ls"
  from assms have u: "users_ok ?ls" by (simp add: storage_ok_def)
  show ?thesis
  proof (cases "truthy_value (get_prop ?users ?e)")
    case True
    with u have "storage_ok (store_set ''session'' (session_entry ?e) ?ls)"
      by (rule storage_ok_session_update)
    with True assms show ?thesis
      by (auto simp: login_submit_def Let_def split: option.splits sum.splits)
  next
    case False
    with assms show ?thesis by (simp add: login_no_account)
  qed
qed

lemma storage_ok_logout:
  "storage_ok (local_storage b) \<Longrightarrow> storage_ok (local_storage (logout b))"
  by (simp add: storage_ok_def)

section \<open>Evaluation on the examples\<close>

lemma ex_visitor_fields [simp]:
  "local_storage ex_visitor = Map.empty"
  "auth ex_visitor = blank_auth"
  "log ex_visitor = []"
  "hidden (document ex_visitor) = {Topbar, Dashboard, QuizScreen, ReviewScreen}"
  by (simp_all add: ex_visitor_def)

lemma blank_auth_fields [simp]:
  "signup_name blank_auth = []" "signup_email blank_auth = []" "signup_password blank_auth = []"
  "login_email blank_auth = []" "login_password blank_auth = []"
  "active_tabs blank_auth = {LoginTab}" "visible_forms blank_auth = {LoginTab}"
  by (simp_all add: blank_auth_def)

lemma fill_frame [simp]:
  "state (fill_signup n e p b) = state b"
  "state (fill_login e p b) = state b"
  "pending (fill_signup n e p b) = pending b"
  "pending (fill_login e p b) = pending b"
  "rng (fill_signup n e p b) = rng b"
  "rng (fill_login e p b) = rng b"
  "theme (fill_signup n e p b) = theme b"
  "theme (fill_login e p b) = theme b"
  by (simp_all add: fill_signup_def fill_login_def)

lemma ada_texts [simp]:
  "trim ''Ada '' = ''Ada''"
  "address '' Ada@Example.COM'' = ''ada@example.com''"
  "address ''ada@example.com'' = ''ada@example.com''"
  by (simp_all add: text_eval)

lemma length_code_units [simp]: "length (code_units s) = length s"
  by (simp add: code_units_def)

lemma not_latin1_euro [simp]: "\<not> latin1 euro_password" "length euro_password = 7"
  by (simp_all add: euro_password_def)

lemma visible_onLogin:
  "truthy_value (Some (session_of (local_storage b))) \<Longrightarrow>
   visible (document (onLogin b)) el \<longleftrightarrow>
     el = Dashboard \<or> el = Topbar \<or> (el \<noteq> AuthScreen \<and> visible (document b) el)"
  by (auto simp: onLogin_session)

lemma welcome_onLogin:
  "truthy_value (Some (session_of (local_storage b))) \<Longrightarrow>
   welcome_text (auth (onLogin b)) =
     greeting (get_prop (users_of (local_storage b))
       (to_text (get_prop (session_of (local_storage b)) ''email'')))"
  by (simp add: onLogin_session)

lemma signup_ok_fields:
  assumes "users_ok (local_storage b)"
    and "6 \<le> length (signup_password (auth b))" and "latin1 (signup_password (auth b))"
    and "get_prop (users_of (local_storage b)) (address (signup_email (auth b))) = None"
  shows "get_prop (users_of (local_storage (signup_submit b))) k =
           (if k = address (signup_email (auth b))
            then Some (user_entry (trim (signup_name (auth b))) (address (signup_email (auth b)))
                   (b64_enc (signup_password (auth b))))
            else get_prop (users_of (local_storage b)) k)"
    and "session_of (local_storage (signup_submit b))
           = session_entry (address (signup_email (auth b)))"
    and "welcome_text (auth (signup_submit b))
           = ''Hi, '' @ (if trim (signup_name (auth b)) = [] then ''User''
                         else trim (signup_name (auth b)))"
    and "hidden (document (signup_submit b))
           = insert AuthScreen (hidden (document b)) - {Topbar} - {Dashboard}"
    and "log (signup_submit b) = log b"
    and "storage_ok (local_storage (signup_submit b))"
proof -
  from assms(1) obtain kvs where kvs: "users_of (local_storage b) = JObj kvs"
    by (rule users_obj)
  note eq = signup_stores [OF assms(2) _ assms(3)]
  from assms(4) kvs show "get_prop (users_of (local_storage (signup_submit b))) k =
           (if k = address (signup_email (auth b))
            then Some (user_entry (trim (signup_name (auth b))) (address (signup_email (auth b)))
                   (b64_enc (signup_password (auth b))))
            else get_prop (users_of (local_storage b)) k)"
    and "session_of (local_storage (signup_submit b))
           = session_entry (address (signup_email (auth b)))"
    and "welcome_text (auth (signup_submit b))
           = ''Hi, '' @ (if trim (signup_name (auth b)) = [] then ''User''
                         else trim (signup_name (auth b)))"
    and "hidden (document (signup_submit b))
           = insert AuthScreen (hidden (document b)) - {Topbar} - {Dashboard}"
    and "log (signup_submit b) = log b"
    by (simp_all add: eq onLogin_session)
  from assms(1-4) show "storage_ok (local_storage (signup_submit b))"
    by (simp add: eq storage_ok_new_account)
qed


lemma signup_twice:
  assumes "users_ok (local_storage b)"
    and "6 \<le> length (signup_password (auth b))" and "latin1 (signup_password (auth b))"
    and "get_prop (users_of (local_storage b)) (address (signup_email (auth b))) = None"
  shows "signup_submit (signup_submit b)
    = alert ''Account already exists. Please log in.'' (signup_submit b)"
proof -
  note s = signup_ok_fields [OF assms]
  have f: "signup_email (auth (signup_submit b)) = signup_email (auth b)"
    "signup_password (auth (signup_submit b)) = signup_password (auth b)"
    using assms(2-4) by (simp_all add: signup_stores)
  show ?thesis
    by (rule signup_exists) (simp_all add: f s(1) assms(2))
qed

lemma auth_frame [simp]:
  "state (signup_submit b) = state b" "pending (signup_submit b) = pending b"
  "rng (signup_submit b) = rng b"
  "state (login_submit b) = state b" "pending (login_submit b) = pending b"
  "rng (login_submit b) = rng b"
  by (simp_all add: signup_submit_def login_submit_def Let_def split: sum.splits option.splits)

lemma session_truthy_iff:
  assumes "session_ok ls"
  shows "truthy_value (Some (session_of ls)) \<longleftrightarrow> ls ''session'' \<noteq> None"
proof (cases "ls ''session''")
  case None
  then show ?thesis by simp
next
  case (Some it)
  with assms obtain e where "it = Json (session_entry e)"
    by (auto simp: session_ok_def split: option.splits)
  with Some show ?thesis
    by (simp add: store_get_Json)
qed

text \<open>
  C14. Signing up: when the password has at least six code units, all of them below 256,
  and the table of accounts has no entry under the trimmed, lower-cased address, the
  sign-up handler adds the entry (trimmed name, address, Base64 text of the password)
  under that address and leaves every other entry alone, stores a session for the
  address, greets the user by name, or as \<open>User\<close> when the name is empty, shows the top bar
  and the dashboard, hides the sign-in screen, raises no dialog, and leaves the storage
  well formed.
\<close>

theorem signup_creates_account:
  assumes "users_ok (local_storage b)"
    and "6 \<le> length (signup_password (auth b))" and "latin1 (signup_password (auth b))"
    and "get_prop (users_of (local_storage b))
           (address (signup_email (auth b))) = None"
  shows "get_prop (users_of (local_storage (signup_submit b))) k =
           (if k = address (signup_email (auth b))
            then Some (user_entry (trim (signup_name (auth b)))
                   (address (signup_email (auth b)))
                   (b64_enc (signup_password (auth b))))
            else get_prop (users_of (local_storage b)) k)
    \<and> session_of (local_storage (signup_submit b))
        = session_entry (address (signup_email (auth b)))
    \<and> welcome_text (auth (signup_submit b))
        = ''Hi, '' @ (if trim (signup_name (auth b)) = [] then ''User''
                      else trim (signup_name (auth b)))
    \<and> visible (document (signup_submit b)) Dashboard
    \<and> visible (document (signup_submit b)) Topbar
    \<and> \<not> visible (document (signup_submit b)) AuthScreen
    \<and> log (signup_submit b) = log b
    \<and> storage_ok (local_storage (signup_submit b))"
  using signup_ok_fields [OF assms] by (simp add: visible_def)


lemma b64_enc_secret [simp]: "b64_enc (code_units ''secret'') = ''c2VjcmV0''"
  using btoa_secret by (simp add: btoa_eq_Inr_iff)

lemma ex_signup_fields [simp]:
  "local_storage ex_signup = Map.empty"
  "signup_name (auth ex_signup) = ''Ada ''"
  "signup_email (auth ex_signup) = '' Ada@Example.COM''"
  "signup_password (auth ex_signup) = code_units ''secret''"
  "log ex_signup = []"
  by (simp_all add: ex_signup_def)

theorem signup_creates_account_witness:
  "users_ok (local_storage ex_signup)
   \<and> get_prop (users_of (local_storage (signup_submit ex_signup)))
        ''ada@example.com'' = Some (user_entry ''Ada'' ''ada@example.com'' ''c2VjcmV0'')
   \<and> session_of (local_storage (signup_submit ex_signup))
        = session_entry ''ada@example.com''
   \<and> welcome_text (auth (signup_submit ex_signup)) = ''Hi, Ada''
   \<and> visible (document (signup_submit ex_signup)) Dashboard
   \<and> log (signup_submit ex_signup) = []"
  using signup_creates_account [of ex_signup "''ada@example.com''"] by simp

text \<open>
  C15. Login checks the password: for an account whose stored text is the encoding of
  the password \<open>p\<close>, the login handler opens a session, greets the user and shows the
  dashboard exactly when the password field holds \<open>p\<close>; with another password of
  code units below 256 it only reports \<^verbatim>\<open>Incorrect password.\<close>; with a password that has a
  code unit above 255 the call of \<^verbatim>\<open>btoa\<close> ends the handler with an uncaught
  \<^verbatim>\<open>InvalidCharacterError\<close>.
\<close>

theorem login_checks_password:
  assumes "users_ok (local_storage b)"
    and "get_prop (users_of (local_storage b))
           (address (login_email (auth b))) = Some u"
    and "get_prop u ''passHash'' = Some (JStr (b64_enc p))" and "latin1 p"
  shows "(login_password (auth b) = p \<longrightarrow>
            login_submit b = onLogin (b\<lparr>local_storage := store_set ''session''
              (session_entry (address (login_email (auth b)))) (local_storage b)\<rparr>)
            \<and> session_of (local_storage (login_submit b))
                = session_entry (address (login_email (auth b)))
            \<and> welcome_text (auth (login_submit b)) = greeting (Some u)
            \<and> visible (document (login_submit b)) Dashboard
            \<and> \<not> visible (document (login_submit b)) AuthScreen
            \<and> log (login_submit b) = log b)
    \<and> (login_password (auth b) \<noteq> p \<longrightarrow> latin1 (login_password (auth b)) \<longrightarrow>
            login_submit b = alert ''Incorrect password.'' b)
    \<and> (\<not> latin1 (login_password (auth b)) \<longrightarrow>
            login_submit b = uncaught InvalidCharacterError b)"
proof -
  from assms(1,2) have "entry_ok (address (login_email (auth b))) u"
    by (rule users_ok_lookup)
  then have t: "truthy_value (Some u)"
    by (rule entry_ok_truthy)
  have wrong: "login_submit b = alert ''Incorrect password.'' b"
    if "login_password (auth b) \<noteq> p" "latin1 (login_password (auth b))"
  proof -
    from that assms(4) have "b64_enc (login_password (auth b)) \<noteq> b64_enc p"
      by (auto dest: b64_enc_inj)
    with assms(2,3) t that(2) show ?thesis
      by (simp add: login_wrong_password)
  qed
  have right: "login_submit b = onLogin (b\<lparr>local_storage := store_set ''session''
      (session_entry (address (login_email (auth b)))) (local_storage b)\<rparr>)"
    if "login_password (auth b) = p"
    using that assms(2-4) t by (simp add: login_match)
  have bad: "login_submit b = uncaught InvalidCharacterError b"
    if "\<not> latin1 (login_password (auth b))"
    using that assms(2) t by (simp add: login_not_latin1)
  from right assms(2) show ?thesis
    by (auto simp: wrong bad visible_onLogin welcome_onLogin)
qed


lemma signup_ex:
  "signup_submit ex_signup = onLogin (ex_signup\<lparr>local_storage :=
     store_set ''session'' (session_entry ''ada@example.com'')
       (store_set ''users''
          (JObj [(''ada@example.com'', user_entry ''Ada'' ''ada@example.com'' ''c2VjcmV0'')])
          Map.empty)\<rparr>)"
  by (simp add: signup_stores)

lemma users_ex_member [simp]:
  "users_of (local_storage ex_member)
     = JObj [(''ada@example.com'', user_entry ''Ada'' ''ada@example.com'' ''c2VjcmV0'')]"
  "session_of (local_storage ex_member) = JNull"
  "log ex_member = []"
  "visible (document ex_member) el \<longleftrightarrow> el = AuthScreen"
  by (simp_all add: ex_member_def signup_ex)

lemma users_ok_ex_member [simp]: "users_ok (local_storage ex_member)"
  using signup_ex storage_ok_logout [OF storage_ok_signup, of ex_signup]
  by (simp add: ex_member_def storage_ok_def)

lemma wrong_password_ex: "code_units ''Secret'' \<noteq> code_units ''secret''"
  by (simp add: code_units_def)

lemma euro_neq: "euro_password \<noteq> code_units ''secret''"
  by (simp add: euro_password_def)

theorem login_checks_password_witness:
  "users_ok (local_storage ex_member)
   \<and> welcome_text (auth (login_submit
         (fill_login ''ada@example.com'' (code_units ''secret'') ex_member))) = ''Hi, Ada''
   \<and> visible (document (login_submit
         (fill_login ''ada@example.com'' (code_units ''secret'') ex_member))) Dashboard
   \<and> log (login_submit (fill_login ''ada@example.com'' (code_units ''Secret'') ex_member))
        = [Alert ''Incorrect password.'']
   \<and> log (login_submit (fill_login ''ada@example.com'' euro_password ex_member))
        = [Uncaught InvalidCharacterError]"
proof -
  have "get_prop (users_of (local_storage (fill_login ''ada@example.com'' q ex_member)))
           (toLowerCase (trim (login_email (auth (fill_login ''ada@example.com'' q ex_member)))))
        = Some (user_entry ''Ada'' ''ada@example.com'' ''c2VjcmV0'')" for q
    by simp
  note inst = login_checks_password [OF _ this, of _ "code_units ''secret''"]
  from inst [of "code_units ''secret''"] inst [of "code_units ''Secret''"] inst [of euro_password]
  show ?thesis
    by (simp add: wrong_password_ex euro_neq visible_onLogin welcome_onLogin)
qed

text \<open>
  C22. Logout ends the session: the stored session is gone, so a later \<^verbatim>\<open>onLogin\<close> does
  nothing; the accounts are untouched; of the five sections only the sign-in screen is
  shown; the login tab and form are the active ones and all five fields are empty. The
  quiz session in memory and the category loads in flight are not touched.
\<close>

theorem logout_ends_session:
  "session_of (local_storage (logout b)) = JNull
   \<and> store_get ''users'' d (local_storage (logout b)) = store_get ''users'' d (local_storage b)
   \<and> (\<forall>el. visible (document (logout b)) el \<longleftrightarrow> el = AuthScreen)
   \<and> active_tabs (auth (logout b)) = {LoginTab}
   \<and> visible_forms (auth (logout b)) = {LoginTab}
   \<and> login_email (auth (logout b)) = [] \<and> login_password (auth (logout b)) = []
   \<and> signup_name (auth (logout b)) = [] \<and> signup_email (auth (logout b)) = []
   \<and> signup_password (auth (logout b)) = []
   \<and> onLogin (logout b) = logout b
   \<and> state (logout b) = state b \<and> pending (logout b) = pending b"
  by simp

theorem logout_ends_session_witness:
  "session_of (local_storage (signup_submit ex_signup))
     = session_entry ''ada@example.com''
   \<and> session_of (local_storage (logout (signup_submit ex_signup))) = JNull
   \<and> visible (document (logout (signup_submit ex_signup))) AuthScreen
   \<and> \<not> visible (document (logout (signup_submit ex_signup))) Dashboard"
  using logout_ends_session [of "signup_submit ex_signup"] by (simp add: signup_ex)

text \<open>
  C23. Sign-up with a password of six or more code units of which one is above 255 ends
  with an uncaught \<^verbatim>\<open>InvalidCharacterError\<close> from \<^verbatim>\<open>btoa\<close> (line 55): no account and no session
  are stored, the page is unchanged and no message is shown to the user.
\<close>

theorem signup_non_latin1_throws:
  assumes "6 \<le> length (signup_password (auth b))"
    and "\<not> latin1 (signup_password (auth b))"
    and "\<not> truthy_value (get_prop (users_of (local_storage b))
           (address (signup_email (auth b))))"
  shows "log (signup_submit b) = log b @ [Uncaught InvalidCharacterError]
    \<and> local_storage (signup_submit b) = local_storage b
    \<and> document (signup_submit b) = document b
    \<and> auth (signup_submit b) = auth b"
  using assms by (simp add: signup_not_latin1)

theorem signup_non_latin1_throws_witness:
  "6 \<le> length euro_password \<and> \<not> latin1 euro_password
   \<and> log (signup_submit (fill_signup ''Ada'' ''ada@example.com'' euro_password ex_visitor))
        = [Uncaught InvalidCharacterError]
   \<and> local_storage (signup_submit (fill_signup ''Ada'' ''ada@example.com'' euro_password
        ex_visitor)) = Map.empty"
  using signup_non_latin1_throws
    [of "fill_signup ''Ada'' ''ada@example.com'' euro_password ex_visitor"]
  by simp

text \<open>
  C20. Sign-up, logout and login again: after a successful sign-up and a logout, a login
  with the same password and any spelling of the address that trims and lower-cases to
  the same text opens the session of that account again, greets with the same name
  and shows the dashboard, without any dialog.
\<close>

theorem signup_then_login:
  assumes "users_ok (local_storage b)"
    and "6 \<le> length (signup_password (auth b))" and "latin1 (signup_password (auth b))"
    and "get_prop (users_of (local_storage b)) (address (signup_email (auth b))) = None"
    and "address e = address (signup_email (auth b))"
  shows "session_of (local_storage
           (login_submit (fill_login e (signup_password (auth b)) (logout (signup_submit b)))))
         = session_entry (address (signup_email (auth b)))
    \<and> welcome_text (auth
           (login_submit (fill_login e (signup_password (auth b)) (logout (signup_submit b)))))
         = welcome_text (auth (signup_submit b))
    \<and> visible (document
           (login_submit (fill_login e (signup_password (auth b)) (logout (signup_submit b)))))
         Dashboard
    \<and> log (login_submit (fill_login e (signup_password (auth b)) (logout (signup_submit b))))
         = log b"
proof -
  let ?u = "user_entry (trim (signup_name (auth b))) (address (signup_email (auth b)))
              (b64_enc (signup_password (auth b)))"
  let ?b = "fill_login e (signup_password (auth b)) (logout (signup_submit b))"
  note s = signup_ok_fields [OF assms(1-4)]
  have u: "get_prop (users_of (local_storage ?b)) (address (login_email (auth ?b))) = Some ?u"
    by (simp add: s(1) assms(5))
  have "login_submit ?b = onLogin (?b\<lparr>local_storage :=
          store_set ''session'' (session_entry (address (login_email (auth ?b))))
            (local_storage ?b)\<rparr>)"
    using u by (rule login_match) (simp_all add: assms(3))
  then show ?thesis
    using u by (simp add: visible_onLogin welcome_onLogin s(3,5) assms(5))
qed

theorem signup_then_login_witness:
  "users_ok (local_storage ex_signup)
   \<and> welcome_text (auth (login_submit
         (fill_login ''ADA@example.com '' (code_units ''secret'') (logout (signup_submit ex_signup)))))
       = ''Hi, Ada''
   \<and> session_of (local_storage (login_submit
         (fill_login ''ADA@example.com '' (code_units ''secret'') (logout (signup_submit ex_signup)))))
       = session_entry ''ada@example.com''"
  using signup_then_login [of ex_signup "''ADA@example.com ''"] signup_ok_fields(3) [of ex_signup]
  by (simp add: text_eval)

end
