(* ===== verification/Theme.thy ===== *)
theory Theme
  imports Browser
begin

text \<open>
  The theme switch of \<^verbatim>\<open>src/script.js\<close> (lines 211-254): \<^verbatim>\<open>initTheme\<close>, \<^verbatim>\<open>toggleTheme\<close>,
  \<^verbatim>\<open>updateThemeToggle\<close> and the listener for changes of the system colour scheme.

  \<^item> The theme code reads and writes \<^verbatim>\<open>localStorage\<close> directly, as text: the saved theme
    is the item under the key \<^verbatim>\<open>theme\<close>, and it becomes the value of the attribute
    \<^verbatim>\<open>data-theme\<close> as it is. \<open>is_dark\<close> is the test \<^verbatim>\<open>currentTheme === 'dark'\<close>.
  \<^item> \<open>initTheme\<close> takes what \<^verbatim>\<open>window.matchMedia\<close> answers for the dark colour scheme:
    \<open>None\<close> when the browser has no \<^verbatim>\<open>matchMedia\<close>, otherwise \<open>Some\<close> of the \<^verbatim>\<open>matches\<close> flag.
    It returns the new state and the exception that ended it, if any.
  \<^item> \<open>system_theme_change\<close> is the listener registered at line 226, with the \<^verbatim>\<open>matches\<close>
    flag of the event.
  \<^item> \<open>ex_light\<close> is a browser with empty storage after \<open>initTheme\<close> under a light system
    scheme.
  \<^item> \<open>sun_icon\<close> and \<open>moon_icon\<close> are the two emoji of line 248, as UTF-8 bytes.
  \<^item> \<open>toggle_shows\<close> says that the button announces the theme that a click would switch
    to; \<open>two_valued\<close> says that the attribute is \<^verbatim>\<open>dark\<close> or \<^verbatim>\<open>light\<close>; \<open>pref_ok\<close> says that
    the saved theme, if any, is one of the two.
\<close>

section \<open>Operations\<close>

definition sun_icon :: string where
  "sun_icon = map char_of [0xE2, 0x98, 0x80, 0xEF, 0xB8, 0x8F :: nat]"

definition moon_icon :: string where
  "moon_icon = map char_of [0xF0, 0x9F, 0x8C, 0x99 :: nat]"

definition is_dark :: "theme_view \<Rightarrow> bool" where
  "is_dark v \<longleftrightarrow> data_theme v = Some (Text ''dark'')"

definition updateThemeToggle :: "theme_view \<Rightarrow> theme_view" where
  "updateThemeToggle v =
     (case toggle v of
        None \<Rightarrow> v
      | Some t \<Rightarrow>
          v\<lparr>toggle := Some (t\<lparr>icon := (if is_dark v then sun_icon else moon_icon),
                 title := ''Switch to '' @ (if is_dark v then ''light'' else ''dark'')
                            @ '' mode''\<rparr>)\<rparr>)"

definition initTheme :: "bool option \<Rightarrow> browser \<Rightarrow> browser \<times> js_error option" where
  "initTheme media b =
     (let savedTheme = local_storage b ''theme'';
          v = (if stored_truthy savedTheme then (theme b)\<lparr>data_theme := savedTheme\<rparr>
               else if media = Some True then (theme b)\<lparr>data_theme := Some (Text ''dark'')\<rparr>
               else (theme b)\<lparr>data_theme := Some (Text ''light'')\<rparr>);
          v' = updateThemeToggle v
      in case media of
           None \<Rightarrow> (b\<lparr>theme := v'\<rparr>, Some TypeError)
         | Some m \<Rightarrow> (b\<lparr>theme := v'\<lparr>media_listeners := media_listeners v' + 1\<rparr>\<rparr>, None))"

definition system_theme_change :: "bool \<Rightarrow> browser \<Rightarrow> browser" where
  "system_theme_change matches b =
     (if \<not> stored_truthy (local_storage b ''theme'')
      then (let newTheme = (if matches then ''dark'' else ''light'')
            in b\<lparr>theme := updateThemeToggle ((theme b)\<lparr>data_theme := Some (Text newTheme)\<rparr>)\<rparr>)
      else b)"

definition toggleTheme :: "browser \<Rightarrow> browser" where
  "toggleTheme b =
     (let newTheme = (if is_dark (theme b) then ''light'' else ''dark'')
      in b\<lparr>theme := updateThemeToggle ((theme b)\<lparr>data_theme := Some (Text newTheme)\<rparr>),
           local_storage := (local_storage b)(''theme'' \<mapsto> Text newTheme)\<rparr>)"

section \<open>Consistency of the view\<close>

definition toggle_shows :: "theme_view \<Rightarrow> bool" where
  "toggle_shows v =
     (case toggle v of
        None \<Rightarrow> True
      | Some t \<Rightarrow>
          icon t = (if is_dark v then sun_icon else moon_icon)
            \<and> title t = (if is_dark v then ''Switch to light mode'' else ''Switch to dark mode''))"

definition two_valued :: "theme_view \<Rightarrow> bool" where
  "two_valued v \<longleftrightarrow> data_theme v = Some (Text ''dark'') \<or> data_theme v = Some (Text ''light'')"

definition pref_ok :: "storage \<Rightarrow> bool" where
  "pref_ok ls \<longleftrightarrow> ls ''theme'' \<in> {None, Some (Text ''dark''), Some (Text ''light'')}"

definition theme_ok :: "browser \<Rightarrow> bool" where
  "theme_ok b \<longleftrightarrow> two_valued (theme b) \<and> toggle_shows (theme b) \<and> pref_ok (local_storage b)"

section \<open>Example\<close>

definition ex_light :: browser where
  "ex_light = fst (initTheme (Some False) (browser_of ex_app Map.empty))"

lemmas [handler_defs] = toggleTheme_def system_theme_change_def initTheme_def
lemmas [inv_defs] = theme_ok_def two_valued_def toggle_shows_def pref_ok_def

section \<open>The button\<close>

lemma sun_neq_moon [simp]: "sun_icon \<noteq> moon_icon" "moon_icon \<noteq> sun_icon"
  by (simp_all add: sun_icon_def moon_icon_def)

lemma updateThemeToggle_fields [simp]:
  "data_theme (updateThemeToggle v) = data_theme v"
  "media_listeners (updateThemeToggle v) = media_listeners v"
  "is_dark (updateThemeToggle v) = is_dark v"
  "toggle (updateThemeToggle v) = None \<longleftrightarrow> toggle v = None"
  by (simp_all add: updateThemeToggle_def is_dark_def split: option.splits)

lemma toggle_shows_update [simp]: "toggle_shows (updateThemeToggle v)"
  by (simp add: toggle_shows_def updateThemeToggle_def is_dark_def split: option.splits)

lemma updateThemeToggle_fixed: "toggle_shows v \<Longrightarrow> updateThemeToggle v = v"
  by (cases "toggle v") (auto simp: toggle_shows_def updateThemeToggle_def)

lemma updateThemeToggle_idem [simp]: "updateThemeToggle (updateThemeToggle v) = updateThemeToggle v"
  by (simp add: updateThemeToggle_fixed)

lemma updateThemeToggle_no_button [simp]: "toggle v = None \<Longrightarrow> updateThemeToggle v = v"
  by (simp add: updateThemeToggle_def)

lemma toggle_shows_listeners [simp]:
  "toggle_shows (v\<lparr>media_listeners := n\<rparr>) = toggle_shows v"
  by (simp add: toggle_shows_def is_dark_def)

lemma is_dark_simps [simp]:
  "is_dark (v\<lparr>data_theme := t\<rparr>) \<longleftrightarrow> t = Some (Text ''dark'')"
  "is_dark (v\<lparr>media_listeners := n\<rparr>) = is_dark v"
  "is_dark (v\<lparr>toggle := x\<rparr>) = is_dark v"
  by (simp_all add: is_dark_def)

lemma two_valued_simps [simp]:
  "two_valued (updateThemeToggle v) = two_valued v"
  "two_valued (v\<lparr>media_listeners := n\<rparr>) = two_valued v"
  "two_valued (v\<lparr>data_theme := Some (Text ''dark'')\<rparr>)"
  "two_valued (v\<lparr>data_theme := Some (Text ''light'')\<rparr>)"
  by (simp_all add: two_valued_def)

section \<open>Frames\<close>

lemma toggleTheme_fields [simp]:
  "data_theme (theme (toggleTheme b))
     = Some (Text (if is_dark (theme b) then ''light'' else ''dark''))"
  "local_storage (toggleTheme b)
     = (local_storage b)(''theme'' \<mapsto> Text (if is_dark (theme b) then ''light'' else ''dark''))"
  "media_listeners (theme (toggleTheme b)) = media_listeners (theme b)"
  "toggle_shows (theme (toggleTheme b))"
  "state (toggleTheme b) = state b"
  "document (toggleTheme b) = document b"
  "auth (toggleTheme b) = auth b"
  "log (toggleTheme b) = log b"
  "pending (toggleTheme b) = pending b"
  "rng (toggleTheme b) = rng b"
  by (simp_all add: toggleTheme_def Let_def)

lemma system_theme_change_frame [simp]:
  "local_storage (system_theme_change m b) = local_storage b"
  "media_listeners (theme (system_theme_change m b)) = media_listeners (theme b)"
  "state (system_theme_change m b) = state b"
  "document (system_theme_change m b) = document b"
  "auth (system_theme_change m b) = auth b"
  "log (system_theme_change m b) = log b"
  "pending (system_theme_change m b) = pending b"
  "rng (system_theme_change m b) = rng b"
  by (simp_all add: system_theme_change_def Let_def)

lemma initTheme_frame [simp]:
  "local_storage (fst (initTheme media b)) = local_storage b"
  "state (fst (initTheme media b)) = state b"
  "document (fst (initTheme media b)) = document b"
  "auth (fst (initTheme media b)) = auth b"
  "log (fst (initTheme media b)) = log b"
  "pending (fst (initTheme media b)) = pending b"
  "rng (fst (initTheme media b)) = rng b"
  "toggle_shows (theme (fst (initTheme media b)))"
  by (simp_all add: initTheme_def Let_def split: option.splits)

lemma snd_initTheme [simp]:
  "snd (initTheme media b) = (if media = None then Some TypeError else None)"
  by (simp add: initTheme_def Let_def split: option.splits)

lemma data_theme_initTheme:
  "data_theme (theme (fst (initTheme media b))) =
     (if stored_truthy (local_storage b ''theme'') then local_storage b ''theme''
      else if media = Some True then Some (Text ''dark'') else Some (Text ''light''))"
  by (simp add: initTheme_def Let_def split: option.splits)

lemma media_listeners_initTheme [simp]:
  "media_listeners (theme (fst (initTheme media b)))
     = (if media = None then media_listeners (theme b) else media_listeners (theme b) + 1)"
  by (simp add: initTheme_def Let_def split: option.splits)

section \<open>Preservation of consistency\<close>

lemma pref_ok_truthy: "pref_ok ls \<Longrightarrow> stored_truthy (ls ''theme'') \<longleftrightarrow> ls ''theme'' \<noteq> None"
  by (auto simp: pref_ok_def)

lemma theme_ok_toggleTheme: "toggle_shows (theme (toggleTheme b)) \<and> two_valued (theme (toggleTheme b))
    \<and> pref_ok (local_storage (toggleTheme b))"
  by (simp add: two_valued_def pref_ok_def)

lemma theme_ok_initTheme: "pref_ok (local_storage b) \<Longrightarrow> theme_ok (fst (initTheme media b))"
  by (auto simp: theme_ok_def two_valued_def data_theme_initTheme pref_ok_def)

lemma theme_ok_system_theme_change:
  "theme_ok b \<Longrightarrow> theme_ok (system_theme_change m b)"
  by (auto simp: theme_ok_def system_theme_change_def)

section \<open>Switching and initialising\<close>

lemma blank_theme_fields [simp]:
  "data_theme blank_theme = None" "toggle blank_theme = Some \<lparr>icon = [], title = []\<rparr>"
  "media_listeners blank_theme = 0"
  by (simp_all add: blank_theme_def)

lemma theme_ex_light [simp]:
  "theme ex_light = \<lparr>data_theme = Some (Text ''light''),
     toggle = Some \<lparr>icon = moon_icon, title = ''Switch to dark mode''\<rparr>, media_listeners = 1\<rparr>"
  "local_storage ex_light = Map.empty"
  by (simp_all add: ex_light_def initTheme_def updateThemeToggle_def blank_theme_def Let_def
      is_dark_def)

lemma updateThemeToggle_absorb:
  "updateThemeToggle ((updateThemeToggle v)\<lparr>data_theme := t\<rparr>)
     = updateThemeToggle (v\<lparr>data_theme := t\<rparr>)"
  by (cases "toggle v") (simp_all add: updateThemeToggle_def)

lemma theme_toggleTheme:
  "theme (toggleTheme b) = updateThemeToggle ((theme b)\<lparr>data_theme :=
     Some (Text (if is_dark (theme b) then ''light'' else ''dark''))\<rparr>)"
  by (simp add: toggleTheme_def Let_def)

lemma theme_toggleTheme_twice:
  assumes "two_valued (theme b)" and "toggle_shows (theme b)"
  shows "theme (toggleTheme (toggleTheme b)) = theme b"
proof -
  from assms(1) have "(theme b)\<lparr>data_theme :=
      Some (Text (if is_dark (theme (toggleTheme b)) then ''light'' else ''dark''))\<rparr> = theme b"
    by (auto simp: two_valued_def is_dark_def)
  then have "theme (toggleTheme (toggleTheme b)) = updateThemeToggle (theme b)"
    by (simp add: theme_toggleTheme [of "toggleTheme b"] theme_toggleTheme [of b]
        updateThemeToggle_absorb del: toggleTheme_fields)
  with assms(2) show ?thesis
    by (simp add: updateThemeToggle_fixed)
qed

text \<open>
  C29. The theme switch flips between the two themes: when the attribute is \<^verbatim>\<open>dark\<close> or
  \<^verbatim>\<open>light\<close> and the button is up to date, a click makes the page dark exactly when it
  was not, saves the new theme under the key \<^verbatim>\<open>theme\<close>, brings the button up to date, and
  a second click restores the attribute and the button.
\<close>

theorem toggleTheme_flips:
  assumes "two_valued (theme b)" and "toggle_shows (theme b)"
  shows "(is_dark (theme (toggleTheme b)) \<longleftrightarrow> \<not> is_dark (theme b))
    \<and> two_valued (theme (toggleTheme b))
    \<and> local_storage (toggleTheme b) ''theme'' = data_theme (theme (toggleTheme b))
    \<and> toggle_shows (theme (toggleTheme b))
    \<and> theme (toggleTheme (toggleTheme b)) = theme b
    \<and> local_storage (toggleTheme (toggleTheme b)) ''theme'' = data_theme (theme b)"
  using assms theme_toggleTheme_twice [OF assms]
  by (auto simp: two_valued_def is_dark_def)

theorem toggleTheme_flips_witness:
  "two_valued (theme ex_light) \<and> toggle_shows (theme ex_light)
   \<and> theme (toggleTheme ex_light)
       = \<lparr>data_theme = Some (Text ''dark''),
          toggle = Some \<lparr>icon = sun_icon, title = ''Switch to light mode''\<rparr>,
          media_listeners = 1\<rparr>
   \<and> local_storage (toggleTheme ex_light) ''theme'' = Some (Text ''dark'')
   \<and> theme (toggleTheme (toggleTheme ex_light)) = theme ex_light"
  using toggleTheme_flips [of ex_light]
  by (simp add: two_valued_def toggle_shows_def is_dark_def theme_toggleTheme
      updateThemeToggle_def)

text \<open>
  C30. Precedence in \<^verbatim>\<open>initTheme\<close>: a saved theme wins; without one the system colour
  scheme decides, and without \<^verbatim>\<open>matchMedia\<close> or a dark scheme the theme is \<^verbatim>\<open>light\<close>; the
  button is brought up to date and storage is not written. When the browser has no
  \<^verbatim>\<open>matchMedia\<close> the function still ends with a \<^verbatim>\<open>TypeError\<close>, because the registration at
  line 226 calls it without the test that line 216 makes; otherwise one listener for
  changes of the system scheme is registered.
\<close>

theorem initTheme_precedence:
  assumes "pref_ok (local_storage b)"
  shows "(local_storage b ''theme'' \<noteq> None \<longrightarrow>
           data_theme (theme (fst (initTheme media b))) = local_storage b ''theme'')
    \<and> (local_storage b ''theme'' = None \<longrightarrow>
           data_theme (theme (fst (initTheme media b)))
             = Some (Text (if media = Some True then ''dark'' else ''light'')))
    \<and> theme_ok (fst (initTheme media b))
    \<and> local_storage (fst (initTheme media b)) = local_storage b
    \<and> (snd (initTheme media b) = Some TypeError \<longleftrightarrow> media = None)
    \<and> (snd (initTheme media b) = None \<longleftrightarrow> media \<noteq> None)
    \<and> media_listeners (theme (fst (initTheme media b)))
         = media_listeners (theme b) + (if media = None then 0 else 1)"
  using assms
  by (auto simp: data_theme_initTheme pref_ok_truthy theme_ok_initTheme)

theorem initTheme_precedence_witness:
  "pref_ok (local_storage (toggleTheme ex_light))
   \<and> data_theme (theme (fst (initTheme (Some False) (toggleTheme ex_light))))
       = Some (Text ''dark'')
   \<and> data_theme (theme (fst (initTheme (Some True) ex_light))) = Some (Text ''dark'')
   \<and> data_theme (theme (fst (initTheme None ex_light))) = Some (Text ''light'')
   \<and> snd (initTheme None ex_light) = Some TypeError"
  using initTheme_precedence [of "toggleTheme ex_light" "Some False"]
    initTheme_precedence [of ex_light "Some True"] initTheme_precedence [of ex_light None]
  by (simp add: pref_ok_def is_dark_def)

end
