(* ===== verification/Boot.thy ===== *)
theory Boot
  imports App Auth Theme
begin

text \<open>
  The start of the program and the delivery of events to its listeners: the top level
  of \<^verbatim>\<open>src/script.js\<close> and its \<^verbatim>\<open>DOMContentLoaded\<close> listener (lines 254-272 and 304-315).

  \<^item> \<open>registry\<close> counts, for the listeners that the script registers in more than one
    place, how many are registered: the submit listeners of the two forms and the tab
    listeners (\<open>initAuth\<close>, called at line 312 and again at line 259), and the click
    listeners of the category buttons (lines 306-309 and again lines 262-264). Every
    call of \<^verbatim>\<open>addEventListener\<close> there passes a new function, so each call adds a listener.
    All other listeners are registered once, at the top level.
  \<^item> \<open>runtime\<close> is the browser state together with the registry and the flag that
    \<^verbatim>\<open>DOMContentLoaded\<close> has been delivered.
  \<^item> \<open>boot\<close> is the run of the script itself: it registers the listeners and calls
    \<^verbatim>\<open>onLogin\<close> when a session is stored. \<open>dom_content_loaded\<close> is the listener of line 257;
    an exception of \<^verbatim>\<open>initTheme\<close> ends it before it registers anything.
  \<^item> \<open>ui_event\<close> is what the browser can deliver: \<^verbatim>\<open>DOMContentLoaded\<close> with the answer of
    \<^verbatim>\<open>matchMedia\<close>, an event of the quiz engine, typing into a form, clicks and form
    submissions of the sign-in screen, the logout button, the theme switch and a change
    of the system colour scheme. \<open>dispatch\<close> runs every listener registered for the
    event, in the order of registration; an exception in one listener does not keep
    the next from running. \<open>deliverable\<close> says when the browser can deliver an event:
    the element must be on a visible section (the forms on the sign-in screen, the
    logout button on the top bar), and \<^verbatim>\<open>DOMContentLoaded\<close> comes at most once.
  \<^item> \<open>running\<close> are the runtime states reachable from the start of the script by
    deliverable events; \<open>play\<close> executes a list of events.
  \<^item> \<open>ex_loaded\<close> is the runtime after the script and \<^verbatim>\<open>DOMContentLoaded\<close> in the browser
    \<open>ex_visitor\<close>; \<open>ex_signup_events\<close> is a visitor signing up, \<open>ex_filled\<close> the state just
    before the form is submitted, \<open>ex_browsing\<close> the state after a click on a category,
    \<open>ex_returning\<close> a fresh page over the storage that the sign-up has left, and
    \<open>ex_login\<close> a signed-out member about to submit the login form.
  \<^item> \<open>site_inv\<close> collects what holds in every such state when the stored data are well
    formed at the start (\<open>start_ok\<close>): the invariants of storage and of the quiz engine
    (\<open>world_inv\<close>), one or two listeners of each registered kind (\<open>listeners_ok\<close>), and a
    consistent theme once \<^verbatim>\<open>DOMContentLoaded\<close> has been delivered.
\<close>

section \<open>Listener registration\<close>

record registry =
  tab_listeners :: nat
  signup_listeners :: nat
  login_listeners :: nat
  category_listeners :: nat

record runtime =
  world :: browser
  reg :: registry
  dom_ready :: bool

definition no_listeners :: registry where
  "no_listeners =
     \<lparr>tab_listeners = 0, signup_listeners = 0, login_listeners = 0, category_listeners = 0\<rparr>"

definition initAuth :: "registry \<Rightarrow> registry" where
  "initAuth r =
     r\<lparr>tab_listeners := tab_listeners r + 1, signup_listeners := signup_listeners r + 1,
       login_listeners := login_listeners r + 1\<rparr>"

definition register_categories :: "registry \<Rightarrow> registry" where
  "register_categories r = r\<lparr>category_listeners := category_listeners r + 1\<rparr>"

definition boot :: "browser \<Rightarrow> runtime" where
  "boot b =
     \<lparr>world = (if truthy_value (Some (session_of (local_storage b))) then onLogin b else b),
      reg = initAuth (register_categories no_listeners),
      dom_ready = False\<rparr>"

definition dom_content_loaded :: "bool option \<Rightarrow> runtime \<Rightarrow> runtime" where
  "dom_content_loaded media rt =
     (case initTheme media (world rt) of
        (b, Some e) \<Rightarrow> rt\<lparr>world := uncaught e b, dom_ready := True\<rparr>
      | (b, None) \<Rightarrow>
          rt\<lparr>world :=
               (if \<not> truthy_value (Some (session_of (local_storage b)))
                then b\<lparr>document :=
                       show_el AuthScreen (hide Topbar (hide Dashboard (document b)))\<rparr>
                else b),
             reg := register_categories (initAuth (reg rt)),
             dom_ready := True\<rparr>)"

section \<open>Events\<close>

datatype ui_event =
    DomContentLoaded "bool option"
  | Quiz event
  | TabClick tab
  | FillSignup string string "nat list"
  | FillLogin string "nat list"
  | SignupSubmit
  | LoginSubmit
  | LogoutClick
  | ThemeToggleClick
  | SystemThemeChange bool

definition on_world :: "(browser \<Rightarrow> browser) \<Rightarrow> runtime \<Rightarrow> runtime" where
  "on_world f rt = rt\<lparr>world := f (world rt)\<rparr>"

fun dispatch :: "rand \<Rightarrow> runtime \<Rightarrow> ui_event \<Rightarrow> runtime" where
  "dispatch rnd rt (DomContentLoaded media) =
     (if dom_ready rt then rt else dom_content_loaded media rt)"
| "dispatch rnd rt (Quiz (CategoryClick c)) =
     on_world (lift (\<lambda>a. step rnd a (CategoryClick c)) ^^ category_listeners (reg rt)) rt"
| "dispatch rnd rt (Quiz e) = on_world (lift (\<lambda>a. step rnd a e)) rt"
| "dispatch rnd rt (TabClick t) = on_world (tab_click t ^^ tab_listeners (reg rt)) rt"
| "dispatch rnd rt (FillSignup n e p) = on_world (fill_signup n e p) rt"
| "dispatch rnd rt (FillLogin e p) = on_world (fill_login e p) rt"
| "dispatch rnd rt SignupSubmit = on_world (signup_submit ^^ signup_listeners (reg rt)) rt"
| "dispatch rnd rt LoginSubmit = on_world (login_submit ^^ login_listeners (reg rt)) rt"
| "dispatch rnd rt LogoutClick = on_world logout rt"
| "dispatch rnd rt ThemeToggleClick = on_world toggleTheme rt"
| "dispatch rnd rt (SystemThemeChange m) =
     on_world (system_theme_change m ^^ media_listeners (theme (world rt))) rt"

fun deliverable :: "runtime \<Rightarrow> ui_event \<Rightarrow> bool" where
  "deliverable rt (DomContentLoaded media) = (\<not> dom_ready rt)"
| "deliverable rt (Quiz e) = enabled (app_of (world rt)) e"
| "deliverable rt (TabClick t) = visible (document (world rt)) AuthScreen"
| "deliverable rt (FillSignup n e p) =
     (visible (document (world rt)) AuthScreen \<and> SignupTab \<in> visible_forms (auth (world rt)))"
| "deliverable rt (FillLogin e p) =
     (visible (document (world rt)) AuthScreen \<and> LoginTab \<in> visible_forms (auth (world rt)))"
| "deliverable rt SignupSubmit =
     (visible (document (world rt)) AuthScreen \<and> SignupTab \<in> visible_forms (auth (world rt)))"
| "deliverable rt LoginSubmit =
     (visible (document (world rt)) AuthScreen \<and> LoginTab \<in> visible_forms (auth (world rt)))"
| "deliverable rt LogoutClick = visible (document (world rt)) Topbar"
| "deliverable rt ThemeToggleClick = (toggle (theme (world rt)) \<noteq> None)"
| "deliverable rt (SystemThemeChange m) = True"

fun play :: "rand \<Rightarrow> runtime \<Rightarrow> ui_event list \<Rightarrow> runtime" where
  "play rnd rt [] = rt"
| "play rnd rt (e # es) = play rnd (dispatch rnd rt e) es"

fun playable :: "rand \<Rightarrow> runtime \<Rightarrow> ui_event list \<Rightarrow> bool" where
  "playable rnd rt [] = True"
| "playable rnd rt (e # es) = (deliverable rt e \<and> playable rnd (dispatch rnd rt e) es)"

inductive running :: "rand \<Rightarrow> browser \<Rightarrow> runtime \<Rightarrow> bool" for rnd :: rand and b0 :: browser where
  start: "running rnd b0 (boot b0)"
| deliver: "running rnd b0 rt \<Longrightarrow> deliverable rt e \<Longrightarrow> running rnd b0 (dispatch rnd rt e)"

section \<open>Examples\<close>

definition ex_loaded :: runtime where
  "ex_loaded = dispatch (\<lambda>_. 0) (boot ex_visitor) (DomContentLoaded (Some False))"

definition ex_signup_events :: "ui_event list" where
  "ex_signup_events =
     [TabClick SignupTab, FillSignup ''Ada '' '' Ada@Example.COM'' (code_units ''secret''),
      SignupSubmit]"

definition ex_filled :: runtime where
  "ex_filled = play (\<lambda>_. 0) ex_loaded
     [TabClick SignupTab, FillSignup ''Ada '' '' Ada@Example.COM'' (code_units ''secret'')]"

definition ex_browsing :: runtime where
  "ex_browsing = play (\<lambda>_. 0) ex_loaded (ex_signup_events @ [Quiz (CategoryClick ''devops'')])"

definition ex_returning :: browser where
  "ex_returning =
     ex_visitor\<lparr>local_storage := local_storage (world (play (\<lambda>_. 0) ex_loaded ex_signup_events))\<rparr>"

definition ex_login :: runtime where
  "ex_login =
     \<lparr>world = fill_login ''ada@example.com'' (code_units ''secret'') ex_member,
      reg = \<lparr>tab_listeners = 2, signup_listeners = 2, login_listeners = 2,
              category_listeners = 2\<rparr>,
      dom_ready = True\<rparr>"

section \<open>Invariant\<close>

definition listeners_ok :: "runtime \<Rightarrow> bool" where
  "listeners_ok rt \<longleftrightarrow>
     tab_listeners (reg rt) = category_listeners (reg rt)
     \<and> signup_listeners (reg rt) = category_listeners (reg rt)
     \<and> login_listeners (reg rt) = category_listeners (reg rt)
     \<and> (category_listeners (reg rt) = 1 \<or> category_listeners (reg rt) = 2 \<and> dom_ready rt)"

definition world_inv :: "browser \<Rightarrow> bool" where
  "world_inv b \<longleftrightarrow>
     storage_ok (local_storage b) \<and> pref_ok (local_storage b)
     \<and> engine_inv (app_of b) \<and> frozen_inv (app_of b)"

definition site_inv :: "runtime \<Rightarrow> bool" where
  "site_inv rt \<longleftrightarrow>
     world_inv (world rt) \<and> listeners_ok rt \<and> (dom_ready rt \<longrightarrow> theme_ok (world rt))"

definition start_ok :: "browser \<Rightarrow> bool" where
  "start_ok b \<longleftrightarrow>
     storage_ok (local_storage b) \<and> pref_ok (local_storage b)
     \<and> app_of b = init_app (document b) \<and> media_listeners (theme b) = 0"

lemmas [handler_defs] = boot_def dom_content_loaded_def initAuth_def register_categories_def
  on_world_def
lemmas [inv_defs] = site_inv_def world_inv_def listeners_ok_def start_ok_def

section \<open>Repeated listeners\<close>

lemma funpow_invariant:
  assumes "\<And>x. P x \<Longrightarrow> P (f x)" and "P x"
  shows "P ((f ^^ n) x)"
  using assms(2) by (induction n) (simp_all add: assms(1))

lemma funpow_idem:
  assumes "f (f x) = f x"
  shows "(f ^^ Suc n) x = f x"
  by (induction n) (simp_all add: assms)

lemma funpow_two: "(f ^^ 2) x = f (f x)"
  by (simp add: numeral_2_eq_2)

section \<open>What the auth handlers leave alone\<close>

lemma session_ok_other_key:
  assumes "key \<noteq> ''users''" and "key \<noteq> ''session''"
  shows "session_ok (ls(key := x)) = session_ok ls"
proof -
  from assms have "session_of (ls(key := x)) = session_of ls"
    and "users_of (ls(key := x)) = users_of ls"
    by (simp_all add: store_get_def)
  with assms show ?thesis
    by (simp add: session_ok_def split: option.splits)
qed

lemma storage_ok_other_key [simp]:
  "key \<noteq> ''users'' \<Longrightarrow> key \<noteq> ''session'' \<Longrightarrow> storage_ok (ls(key := x)) = storage_ok ls"
  by (simp add: storage_ok_def session_ok_other_key)

lemma pref_ok_other_key [simp]:
  "key \<noteq> ''theme'' \<Longrightarrow> pref_ok (store_set key v ls) = pref_ok ls"
  "key \<noteq> ''theme'' \<Longrightarrow> pref_ok (store_del key ls) = pref_ok ls"
  by (simp_all add: pref_ok_def)

lemma onLogin_quiz [simp]:
  "engine_inv (app_of (onLogin b)) = engine_inv (app_of b)"
  "frozen_inv (app_of (onLogin b)) = frozen_inv (app_of b)"
  by (cases "truthy_value (Some (session_of (local_storage b)))";
      simp add: onLogin_no_session onLogin_session engine_inv_def frozen_inv_def)+

lemma engine_frozen_storage [simp]:
  "app_of (alert m b) = (app_of b)\<lparr>log := log b @ [Alert m]\<rparr>"
  "app_of (uncaught e b) = (app_of b)\<lparr>log := log b @ [Uncaught e]\<rparr>"
  by (simp_all add: app_of_def alert_def uncaught_def)

lemma inv_log_update [simp]:
  "engine_inv (a\<lparr>log := l\<rparr>) = engine_inv a"
  "frozen_inv (a\<lparr>log := l\<rparr>) = frozen_inv a"
  by (simp_all add: engine_inv_def frozen_inv_def)

lemma signup_keeps:
  "pref_ok (local_storage (signup_submit b)) = pref_ok (local_storage b)"
  "engine_inv (app_of (signup_submit b)) = engine_inv (app_of b)"
  "frozen_inv (app_of (signup_submit b)) = frozen_inv (app_of b)"
  "theme (signup_submit b) = theme b"
  by (simp_all add: signup_submit_def Let_def split: sum.splits)

lemma login_keeps:
  "pref_ok (local_storage (login_submit b)) = pref_ok (local_storage b)"
  "engine_inv (app_of (login_submit b)) = engine_inv (app_of b)"
  "frozen_inv (app_of (login_submit b)) = frozen_inv (app_of b)"
  "theme (login_submit b) = theme b"
  by (simp_all add: login_submit_def Let_def split: sum.splits option.splits)

lemma logout_keeps:
  "pref_ok (local_storage (logout b)) = pref_ok (local_storage b)"
  "engine_inv (app_of (logout b)) = engine_inv (app_of b)"
  "frozen_inv (app_of b) \<Longrightarrow> frozen_inv (app_of (logout b))"
  by (simp_all add: engine_inv_def frozen_inv_def logout_def)

lemma tab_click_keeps [simp]:
  "local_storage (tab_click t b) = local_storage b"
  "app_of (tab_click t b) = app_of b"
  "theme (tab_click t b) = theme b"
  "local_storage (fill_signup n e p b) = local_storage b"
  "app_of (fill_signup n e p b) = app_of b"
  "theme (fill_signup n e p b) = theme b"
  "local_storage (fill_login e p b) = local_storage b"
  "app_of (fill_login e p b) = app_of b"
  "theme (fill_login e p b) = theme b"
  by (simp_all add: tab_click_def fill_signup_def fill_login_def)

lemma theme_handlers_keep [simp]:
  "app_of (toggleTheme b) = app_of b"
  "app_of (system_theme_change m b) = app_of b"
  "storage_ok (local_storage (toggleTheme b)) = storage_ok (local_storage b)"
  "pref_ok (local_storage (toggleTheme b))"
  by (simp_all add: toggleTheme_def system_theme_change_def Let_def pref_ok_def)

section \<open>Handlers keep the invariants\<close>

lemma on_world_fields [simp]:
  "world (on_world f rt) = f (world rt)"
  "reg (on_world f rt) = reg rt"
  "dom_ready (on_world f rt) = dom_ready rt"
  by (simp_all add: on_world_def)

lemma listeners_ok_on_world [simp]: "listeners_ok (on_world f rt) = listeners_ok rt"
  by (simp add: listeners_ok_def)

lemma world_inv_lift: "world_inv b \<Longrightarrow> world_inv (lift (\<lambda>a. step rnd a e) b)"
  by (simp add: world_inv_def engine_inv_step frozen_inv_step)

lemma storage_ok_del_session: "storage_ok ls \<Longrightarrow> storage_ok (store_del ''session'' ls)"
  by (simp add: storage_ok_def)

lemma world_inv_auth:
  assumes "world_inv b"
  shows "world_inv (signup_submit b)" and "world_inv (login_submit b)"
    and "world_inv (logout b)" and "world_inv (tab_click t b)"
    and "world_inv (fill_signup n e p b)" and "world_inv (fill_login e p b)"
  using assms
  by (simp_all add: world_inv_def storage_ok_signup storage_ok_login storage_ok_del_session
      signup_keeps login_keeps logout_keeps)

lemma pref_ok_saved [simp]:
  "pref_ok (ls(''theme'' \<mapsto> Text ''dark''))" "pref_ok (ls(''theme'' \<mapsto> Text ''light''))"
  by (simp_all add: pref_ok_def)

lemma world_inv_theme:
  assumes "world_inv b"
  shows "world_inv (toggleTheme b)" and "world_inv (system_theme_change m b)"
  using assms by (simp_all add: world_inv_def)

lemma theme_ok_cong:
  "theme b' = theme b \<Longrightarrow> pref_ok (local_storage b') = pref_ok (local_storage b) \<Longrightarrow>
   theme_ok b' = theme_ok b"
  by (simp add: theme_ok_def)

lemma theme_ok_lift [simp]: "theme_ok (lift f b) = theme_ok b"
  by (simp add: theme_ok_def)

lemma theme_ok_auth [simp]:
  "theme_ok (signup_submit b) = theme_ok b"
  "theme_ok (login_submit b) = theme_ok b"
  "theme_ok (logout b) = theme_ok b"
  "theme_ok (tab_click t b) = theme_ok b"
  "theme_ok (fill_signup n e p b) = theme_ok b"
  "theme_ok (fill_login e p b) = theme_ok b"
  by (rule theme_ok_cong; simp add: signup_keeps login_keeps logout_keeps)+

lemma theme_ok_toggle: "theme_ok b \<Longrightarrow> theme_ok (toggleTheme b)"
  by (simp add: theme_ok_def two_valued_def)

lemmas world_inv_repeat = funpow_invariant [where P = world_inv]
lemmas theme_ok_repeat = funpow_invariant [where P = theme_ok]

lemma world_inv_step:
  "world_inv (world rt) \<Longrightarrow> \<not> (\<exists>m. e = DomContentLoaded m) \<Longrightarrow>
   world_inv (world (dispatch rnd rt e))"
  by (induction rnd rt e rule: dispatch.induct)
     (auto simp del: step.simps intro!: world_inv_repeat world_inv_lift world_inv_auth
        world_inv_theme)

lemma theme_ok_step:
  "theme_ok (world rt) \<Longrightarrow> \<not> (\<exists>m. e = DomContentLoaded m) \<Longrightarrow>
   theme_ok (world (dispatch rnd rt e))"
  by (induction rnd rt e rule: dispatch.induct)
     (auto simp del: step.simps intro!: theme_ok_repeat theme_ok_toggle
        theme_ok_system_theme_change)

section \<open>Start and page load\<close>

lemma app_of_initTheme [simp]: "app_of (fst (initTheme media b)) = app_of b"
  by (simp add: app_of_def [of "fst (initTheme media b)"] app_of_def [of b])

lemma app_of_document_update:
  "engine_inv (app_of (b\<lparr>document := show_el el (document b)\<rparr>)) = engine_inv (app_of b)"
  "engine_inv (app_of (b\<lparr>document := hide el (document b)\<rparr>)) = engine_inv (app_of b)"
  by (simp_all add: engine_inv_def)

lemma world_inv_initTheme [simp]: "world_inv (fst (initTheme media b)) = world_inv b"
  by (simp add: world_inv_def)

lemma world_inv_uncaught [simp]: "world_inv (uncaught e b) = world_inv b"
  by (simp add: world_inv_def)

lemma theme_ok_uncaught [simp]: "theme_ok (uncaught e b) = theme_ok b"
  by (simp add: theme_ok_def)

lemma world_inv_sign_in_screen:
  "world_inv b \<Longrightarrow>
   world_inv (b\<lparr>document := show_el AuthScreen (hide Topbar (hide Dashboard (document b)))\<rparr>)"
  by (simp add: world_inv_def engine_inv_def frozen_inv_def)

lemma theme_ok_document [simp]: "theme_ok (b\<lparr>document := p\<rparr>) = theme_ok b"
  by (simp add: theme_ok_def)

lemma dom_content_loaded_cases:
  "dom_content_loaded None rt
     = rt\<lparr>world := uncaught TypeError (fst (initTheme None (world rt))), dom_ready := True\<rparr>"
  "dom_content_loaded (Some m) rt
     = rt\<lparr>world :=
            (if \<not> truthy_value (Some (session_of (local_storage (world rt))))
             then (fst (initTheme (Some m) (world rt)))\<lparr>document :=
                    show_el AuthScreen (hide Topbar (hide Dashboard (document (world rt))))\<rparr>
             else fst (initTheme (Some m) (world rt))),
          reg := register_categories (initAuth (reg rt)),
          dom_ready := True\<rparr>"
  by (simp_all add: dom_content_loaded_def initTheme_def Let_def)

lemma registry_fields [simp]:
  "tab_listeners (initAuth r) = tab_listeners r + 1"
  "signup_listeners (initAuth r) = signup_listeners r + 1"
  "login_listeners (initAuth r) = login_listeners r + 1"
  "category_listeners (initAuth r) = category_listeners r"
  "tab_listeners (register_categories r) = tab_listeners r"
  "signup_listeners (register_categories r) = signup_listeners r"
  "login_listeners (register_categories r) = login_listeners r"
  "category_listeners (register_categories r) = category_listeners r + 1"
  "tab_listeners no_listeners = 0" "signup_listeners no_listeners = 0"
  "login_listeners no_listeners = 0" "category_listeners no_listeners = 0"
  by (simp_all add: initAuth_def register_categories_def no_listeners_def)

lemma site_inv_dom_content_loaded:
  assumes "site_inv rt" and "\<not> dom_ready rt"
  shows "site_inv (dom_content_loaded media rt)"
proof -
  from assms have w: "world_inv (world rt)" and l: "listeners_ok rt"
    by (simp_all add: site_inv_def)
  from w have t: "theme_ok (fst (initTheme media (world rt)))"
    by (simp add: world_inv_def theme_ok_initTheme)
  show ?thesis
  proof (cases media)
    case None
    with w l t assms(2) show ?thesis
      by (auto simp: site_inv_def dom_content_loaded_cases listeners_ok_def)
  next
    case (Some m)
    with w l t assms(2) show ?thesis
      by (auto simp: site_inv_def dom_content_loaded_cases listeners_ok_def
          world_inv_sign_in_screen [of "fst (initTheme (Some m) (world rt))", simplified])
  qed
qed

lemma world_inv_onLogin [simp]: "world_inv (onLogin b) = world_inv b"
  by (simp add: world_inv_def)

lemma site_inv_boot: "start_ok b \<Longrightarrow> site_inv (boot b)"
  by (simp add: start_ok_def site_inv_def boot_def world_inv_def listeners_ok_def
      engine_inv_init frozen_inv_init)

lemma site_inv_dispatch:
  assumes "site_inv rt"
  shows "site_inv (dispatch rnd rt e)"
proof (cases "\<exists>m. e = DomContentLoaded m")
  case True
  with assms show ?thesis
    by (auto simp: site_inv_dom_content_loaded)
next
  case False
  have same: "reg (dispatch rnd rt e) = reg rt" "dom_ready (dispatch rnd rt e) = dom_ready rt"
    using False by (induction rnd rt e rule: dispatch.induct) simp_all
  with assms False show ?thesis
    by (simp add: site_inv_def world_inv_step theme_ok_step listeners_ok_def)
qed

lemma running_site_inv: "running rnd b0 rt \<Longrightarrow> start_ok b0 \<Longrightarrow> site_inv rt"
  by (induction rule: running.induct) (simp_all add: site_inv_boot site_inv_dispatch)

lemma play_append [simp]: "play rnd rt (es @ es') = play rnd (play rnd rt es) es'"
  by (induction es arbitrary: rt) simp_all

lemma running_play:
  "running rnd b0 rt \<Longrightarrow> playable rnd rt es \<Longrightarrow> running rnd b0 (play rnd rt es)"
  by (induction es arbitrary: rt) (simp_all add: running.deliver)

section \<open>Example run\<close>

lemma ex_visitor_app [simp]:
  "state ex_visitor = init_state" "pending ex_visitor = []" "rng ex_visitor = 0"
  "theme ex_visitor = blank_theme"
  by (simp_all add: ex_visitor_def)

lemma start_ok_visitor [simp]: "start_ok ex_visitor"
  by (simp add: start_ok_def ex_visitor_def init_app_def app_of_def browser_of_def
      blank_theme_def storage_ok_def pref_ok_def)

lemma boot_visitor [simp]:
  "world (boot ex_visitor) = ex_visitor"
  "reg (boot ex_visitor)
     = \<lparr>tab_listeners = 1, signup_listeners = 1, login_listeners = 1, category_listeners = 1\<rparr>"
  "dom_ready (boot ex_visitor) = False"
  by (simp_all add: boot_def initAuth_def register_categories_def no_listeners_def)

lemma ex_loaded_fields [simp]:
  "reg ex_loaded
     = \<lparr>tab_listeners = 2, signup_listeners = 2, login_listeners = 2, category_listeners = 2\<rparr>"
  "dom_ready ex_loaded"
  "local_storage (world ex_loaded) = Map.empty"
  "auth (world ex_loaded) = blank_auth"
  "log (world ex_loaded) = []"
  "hidden (document (world ex_loaded)) = {Topbar, Dashboard, QuizScreen, ReviewScreen}"
  "state (world ex_loaded) = init_state"
  "pending (world ex_loaded) = []"
  "rng (world ex_loaded) = 0"
  by (simp_all add: ex_loaded_def dom_content_loaded_cases initAuth_def
      register_categories_def insert_commute)

lemma running_ex_loaded: "running (\<lambda>_. 0) ex_visitor ex_loaded"
  unfolding ex_loaded_def by (rule running.deliver [OF running.start]) simp


section \<open>Two listeners on the sign-up form\<close>

text \<open>
  C17. After \<^verbatim>\<open>DOMContentLoaded\<close> the sign-up form has two submit listeners, because
  \<^verbatim>\<open>initAuth\<close> runs at line 312 and again at line 259. A sign-up that succeeds therefore
  ends with the dialog \<^verbatim>\<open>Account already exists. Please log in.\<close>: the first listener
  stores the account, opens the session and shows the dashboard, and the second listener
  finds the account that the first has just stored.
\<close>

theorem signup_reports_existing_account:
  assumes "signup_listeners (reg rt) = 2"
    and "users_ok (local_storage (world rt))"
    and "6 \<le> length (signup_password (auth (world rt)))"
    and "latin1 (signup_password (auth (world rt)))"
    and "get_prop (users_of (local_storage (world rt)))
           (address (signup_email (auth (world rt)))) = None"
  shows "world (dispatch rnd rt SignupSubmit)
           = alert ''Account already exists. Please log in.'' (signup_submit (world rt))
    \<and> log (world (dispatch rnd rt SignupSubmit))
           = log (world rt) @ [Alert ''Account already exists. Please log in.'']
    \<and> session_of (local_storage (world (dispatch rnd rt SignupSubmit)))
           = session_entry (address (signup_email (auth (world rt))))
    \<and> visible (document (world (dispatch rnd rt SignupSubmit))) Dashboard"
  using assms(1) signup_twice [OF assms(2-5)] signup_ok_fields [OF assms(2-5)]
  by (simp add: funpow_two visible_def)

lemma ex_filled_fields [simp]:
  "local_storage (world ex_filled) = Map.empty"
  "signup_name (auth (world ex_filled)) = ''Ada ''"
  "signup_email (auth (world ex_filled)) = '' Ada@Example.COM''"
  "signup_password (auth (world ex_filled)) = code_units ''secret''"
  "log (world ex_filled) = []"
  "signup_listeners (reg ex_filled) = 2"
  "visible_forms (auth (world ex_filled)) = {SignupTab}"
  "pending (world ex_filled) = []"
  "rng (world ex_filled) = 0"
  "state (world ex_filled) = init_state"
  "hidden (document (world ex_filled)) = {Topbar, Dashboard, QuizScreen, ReviewScreen}"
  by (simp_all add: ex_filled_def funpow_two tab_click_def fill_signup_def)

lemma play_signup_events:
  "play (\<lambda>_. 0) ex_loaded ex_signup_events = dispatch (\<lambda>_. 0) ex_filled SignupSubmit"
  by (simp add: ex_signup_events_def ex_filled_def)

theorem signup_reports_existing_account_witness:
  "log (world (play (\<lambda>_. 0) ex_loaded ex_signup_events))
     = [Alert ''Account already exists. Please log in.'']
   \<and> session_of (local_storage (world (play (\<lambda>_. 0) ex_loaded ex_signup_events)))
     = session_entry ''ada@example.com''
   \<and> visible (document (world (play (\<lambda>_. 0) ex_loaded ex_signup_events))) Dashboard"
  unfolding play_signup_events
  using signup_reports_existing_account [of ex_filled "\<lambda>_. 0", THEN conjunct2]
  by (simp del: dispatch.simps)


section \<open>Every state of a run\<close>

text \<open>
  C16. In every state of a run that starts with well-formed storage and an initial quiz
  state: storage is well formed (accounts as the sign-up handler writes them, a session
  that names an account, a saved theme that is \<^verbatim>\<open>dark\<close> or \<^verbatim>\<open>light\<close>); the invariants of the
  quiz engine hold; the theme is consistent once \<^verbatim>\<open>DOMContentLoaded\<close> has been delivered;
  and each of the four kinds of listener that are registered twice in the source is
  registered once or twice, twice only after \<^verbatim>\<open>DOMContentLoaded\<close>.
\<close>

theorem running_invariants:
  assumes "start_ok b0" and "running rnd b0 rt"
  shows "storage_ok (local_storage (world rt)) \<and> pref_ok (local_storage (world rt))
    \<and> engine_inv (app_of (world rt)) \<and> frozen_inv (app_of (world rt))
    \<and> (dom_ready rt \<longrightarrow> theme_ok (world rt))
    \<and> signup_listeners (reg rt) = category_listeners (reg rt)
    \<and> login_listeners (reg rt) = category_listeners (reg rt)
    \<and> tab_listeners (reg rt) = category_listeners (reg rt)
    \<and> 1 \<le> category_listeners (reg rt) \<and> category_listeners (reg rt) \<le> 2
    \<and> (category_listeners (reg rt) = 2 \<longrightarrow> dom_ready rt)"
  using running_site_inv [OF assms(2,1)]
  by (auto simp: site_inv_def world_inv_def listeners_ok_def)

lemma playable_signup_events: "playable (\<lambda>_. 0) ex_loaded ex_signup_events"
  by (simp add: ex_signup_events_def funpow_two tab_click_def fill_signup_def visible_def)

lemma running_ex_signed_up:
  "running (\<lambda>_. 0) ex_visitor (play (\<lambda>_. 0) ex_loaded ex_signup_events)"
  by (intro running_play running_ex_loaded playable_signup_events)

lemma ex_signed_up_runtime [simp]:
  "dom_ready (play (\<lambda>_. 0) ex_loaded ex_signup_events)"
  "reg (play (\<lambda>_. 0) ex_loaded ex_signup_events) = reg ex_loaded"
  by (simp_all add: ex_signup_events_def)

theorem running_invariants_witness:
  "start_ok ex_visitor
   \<and> running (\<lambda>_. 0) ex_visitor (play (\<lambda>_. 0) ex_loaded ex_signup_events)
   \<and> storage_ok (local_storage (world (play (\<lambda>_. 0) ex_loaded ex_signup_events)))
   \<and> theme_ok (world (play (\<lambda>_. 0) ex_loaded ex_signup_events))
   \<and> signup_listeners (reg (play (\<lambda>_. 0) ex_loaded ex_signup_events)) = 2"
  using running_invariants [OF start_ok_visitor running_ex_signed_up]
  by (simp add: running_ex_signed_up)


section \<open>A response that arrives after logout\<close>

lemma load_after_logout:
  assumes "n < length (pending b)" and "all \<noteq> []"
  shows "visible (document (lift (\<lambda>a. step rnd a (LoadResolved n all)) (logout b))) el
           \<longleftrightarrow> el = QuizScreen \<or> el = AuthScreen"
    and "state (lift (\<lambda>a. step rnd a (LoadResolved n all)) (logout b))
           = loaded_state (pending b ! n) (fst (sample rnd (rng b) all))"
  using assms by (cases el; simp add: document_loadCategory_resume)+

text \<open>
  C31. Logout does not cancel a category load in flight: when the response arrives after
  the logout it can be delivered, installs its session and shows the quiz screen, so the
  quiz screen and the sign-in screen are shown together, with no session stored.
\<close>

theorem late_load_after_logout:
  assumes "n < length (pending (world rt))" and "all \<noteq> []"
  shows "deliverable (dispatch rnd rt LogoutClick) (Quiz (LoadResolved n all))
    \<and> (\<forall>el. visible (document (world
           (dispatch rnd (dispatch rnd rt LogoutClick) (Quiz (LoadResolved n all))))) el
         \<longleftrightarrow> el = QuizScreen \<or> el = AuthScreen)
    \<and> questions (state (world
          (dispatch rnd (dispatch rnd rt LogoutClick) (Quiz (LoadResolved n all)))))
        = fst (sample rnd (rng (world rt)) all)
    \<and> session_of (local_storage (world
          (dispatch rnd (dispatch rnd rt LogoutClick) (Quiz (LoadResolved n all))))) = JNull"
  using assms load_after_logout [OF assms, where rnd = rnd]
  by (simp del: step.simps)

lemma playable_append [simp]:
  "playable rnd rt (es @ es') \<longleftrightarrow> playable rnd rt es \<and> playable rnd (play rnd rt es) es'"
  by (induction es arbitrary: rt) simp_all

lemma ex_signed_up_world:
  "world (play (\<lambda>_. 0) ex_loaded ex_signup_events)
     = alert ''Account already exists. Please log in.'' (signup_submit (world ex_filled))"
  "hidden (document (signup_submit (world ex_filled))) = {AuthScreen, QuizScreen, ReviewScreen}"
proof -
  show "world (play (\<lambda>_. 0) ex_loaded ex_signup_events)
     = alert ''Account already exists. Please log in.'' (signup_submit (world ex_filled))"
    using signup_twice [of "world ex_filled"] by (simp add: play_signup_events funpow_two)
  have "{Topbar, Dashboard, QuizScreen, ReviewScreen, AuthScreen} - {Topbar} - {Dashboard}
      = {AuthScreen, QuizScreen, ReviewScreen}"
    by auto
  then show "hidden (document (signup_submit (world ex_filled)))
      = {AuthScreen, QuizScreen, ReviewScreen}"
    using signup_ok_fields(4) [of "world ex_filled"] by (simp add: insert_commute)
qed

lemma playable_browsing:
  "playable (\<lambda>_. 0) ex_loaded (ex_signup_events @ [Quiz (CategoryClick ''devops'')])"
  by (simp add: playable_signup_events ex_signed_up_world visible_def)

lemma running_ex_browsing: "running (\<lambda>_. 0) ex_visitor ex_browsing"
  unfolding ex_browsing_def
  by (intro running_play running_ex_loaded playable_browsing)

lemma pending_ex_browsing: "pending (world ex_browsing) = [Some ''devops'', Some ''devops'']"
  by (simp add: ex_browsing_def ex_signed_up_world funpow_two)

theorem late_load_after_logout_witness:
  "running (\<lambda>_. 0) ex_visitor ex_browsing \<and> 0 < length (pending (world ex_browsing))
   \<and> visible (document (world (dispatch (\<lambda>_. 0) (dispatch (\<lambda>_. 0) ex_browsing LogoutClick)
         (Quiz (LoadResolved 0 [q_paris, q_four, q_blue]))))) QuizScreen
   \<and> visible (document (world (dispatch (\<lambda>_. 0) (dispatch (\<lambda>_. 0) ex_browsing LogoutClick)
         (Quiz (LoadResolved 0 [q_paris, q_four, q_blue]))))) AuthScreen
   \<and> questions (state (world (dispatch (\<lambda>_. 0) (dispatch (\<lambda>_. 0) ex_browsing LogoutClick)
         (Quiz (LoadResolved 0 [q_paris, q_four, q_blue]))))) = [q_four, q_blue, q_paris]"
  using late_load_after_logout [of 0 ex_browsing "[q_paris, q_four, q_blue]" "\<lambda>_. 0"]
  by (simp add: running_ex_browsing pending_ex_browsing del: dispatch.simps)


section \<open>The first screen\<close>

lemma world_boot:
  "world (boot b) = (if truthy_value (Some (session_of (local_storage b))) then onLogin b else b)"
  "reg (boot b)
     = \<lparr>tab_listeners = 1, signup_listeners = 1, login_listeners = 1, category_listeners = 1\<rparr>"
  "dom_ready (boot b) = False"
  by (simp_all add: boot_def initAuth_def register_categories_def no_listeners_def)

text \<open>
  C28. The first screen: after the script has run and \<^verbatim>\<open>DOMContentLoaded\<close> has been delivered
  in a browser with \<^verbatim>\<open>matchMedia\<close>, a visitor without a stored session sees the sign-in
  screen and neither top bar nor dashboard; a visitor with a stored session sees top bar
  and dashboard, not the sign-in screen, and the greeting of the stored account; the
  forms and the category buttons have two listeners each. In a browser without
  \<^verbatim>\<open>matchMedia\<close> the listener ends with the \<^verbatim>\<open>TypeError\<close> of \<^verbatim>\<open>initTheme\<close> before it has hidden
  or registered anything, so the sections stay as the script left them and every
  listener is registered once.
\<close>

theorem page_load_shows:
  assumes "session_ok (local_storage b)"
  shows "(local_storage b ''session'' = None \<longrightarrow>
           hidden (document (world (dispatch rnd (boot b) (DomContentLoaded (Some m)))))
             = insert Topbar (insert Dashboard (hidden (document b))) - {AuthScreen})
    \<and> (local_storage b ''session'' \<noteq> None \<longrightarrow>
           hidden (document (world (dispatch rnd (boot b) (DomContentLoaded (Some m)))))
             = insert AuthScreen (hidden (document b)) - {Topbar} - {Dashboard}
           \<and> welcome_text (auth (world (dispatch rnd (boot b) (DomContentLoaded (Some m)))))
             = greeting (get_prop (users_of (local_storage b))
                 (to_text (get_prop (session_of (local_storage b)) ''email''))))
    \<and> signup_listeners (reg (dispatch rnd (boot b) (DomContentLoaded (Some m)))) = 2
    \<and> category_listeners (reg (dispatch rnd (boot b) (DomContentLoaded (Some m)))) = 2
    \<and> hidden (document (world (dispatch rnd (boot b) (DomContentLoaded None))))
         = hidden (document (world (boot b)))
    \<and> log (world (dispatch rnd (boot b) (DomContentLoaded None)))
         = log b @ [Uncaught TypeError]
    \<and> signup_listeners (reg (dispatch rnd (boot b) (DomContentLoaded None))) = 1"
  using session_truthy_iff [OF assms]
  by (auto simp: world_boot dom_content_loaded_cases onLogin_session insert_commute)

lemma ex_returning_storage:
  "session_ok (local_storage ex_returning)"
  "local_storage ex_returning ''session'' \<noteq> None"
  "session_of (local_storage ex_returning) = session_entry ''ada@example.com''"
  "get_prop (users_of (local_storage ex_returning)) ''ada@example.com''
     = Some (user_entry ''Ada'' ''ada@example.com'' ''c2VjcmV0'')"
  "hidden (document ex_returning) = {Topbar, Dashboard, QuizScreen, ReviewScreen}"
proof -
  have ls: "local_storage ex_returning = local_storage (signup_submit (world ex_filled))"
    by (simp add: ex_returning_def ex_signed_up_world)
  from running_site_inv [OF running_ex_signed_up start_ok_visitor]
  show "session_ok (local_storage ex_returning)"
    by (simp add: ex_returning_def site_inv_def world_inv_def storage_ok_def)
  show "session_of (local_storage ex_returning) = session_entry ''ada@example.com''"
    and "get_prop (users_of (local_storage ex_returning)) ''ada@example.com''
     = Some (user_entry ''Ada'' ''ada@example.com'' ''c2VjcmV0'')"
    unfolding ls
    using signup_ok_fields(1) [of "world ex_filled" "''ada@example.com''"]
      signup_ok_fields(2) [of "world ex_filled"]
    by simp_all
  then show "local_storage ex_returning ''session'' \<noteq> None"
    by (auto simp: store_get_def session_entry_def split: option.splits)
  show "hidden (document ex_returning) = {Topbar, Dashboard, QuizScreen, ReviewScreen}"
    by (simp add: ex_returning_def)
qed

theorem page_load_shows_witness:
  "session_ok (local_storage ex_visitor) \<and> session_ok (local_storage ex_returning)
   \<and> hidden (document (world (dispatch (\<lambda>_. 0) (boot ex_visitor)
         (DomContentLoaded (Some False))))) = {Topbar, Dashboard, QuizScreen, ReviewScreen}
   \<and> hidden (document (world (dispatch (\<lambda>_. 0) (boot ex_returning)
         (DomContentLoaded (Some False))))) = {AuthScreen, QuizScreen, ReviewScreen}
   \<and> welcome_text (auth (world (dispatch (\<lambda>_. 0) (boot ex_returning)
         (DomContentLoaded (Some False))))) = ''Hi, Ada''"
proof -
  have "{Topbar, Dashboard, QuizScreen, ReviewScreen, AuthScreen} - {Topbar} - {Dashboard}
      = {AuthScreen, QuizScreen, ReviewScreen}"
    by auto
  with page_load_shows [of ex_visitor "\<lambda>_. 0" False]
    page_load_shows [of ex_returning "\<lambda>_. 0" False]
  show ?thesis
    by (simp add: ex_returning_storage insert_commute del: dispatch.simps)
qed

section \<open>Two listeners with the effect of one\<close>

lemma local_storage_same: "local_storage x = v \<Longrightarrow> x\<lparr>local_storage := v\<rparr> = x"
  by auto

lemma login_twice:
  assumes "get_prop (users_of (local_storage b)) (address (login_email (auth b))) = Some u"
    and "truthy_value (Some u)" and "latin1 (login_password (auth b))"
    and "get_prop u ''passHash'' = Some (JStr (b64_enc (login_password (auth b))))"
  shows "login_submit (login_submit b) = login_submit b"
proof -
  let ?b1 = "b\<lparr>local_storage :=
       store_set ''session'' (session_entry (address (login_email (auth b)))) (local_storage b)\<rparr>"
  note eq = login_match [OF assms]
  have "login_submit (onLogin ?b1) = onLogin ((onLogin ?b1)\<lparr>local_storage :=
       store_set ''session'' (session_entry (address (login_email (auth (onLogin ?b1)))))
         (local_storage (onLogin ?b1))\<rparr>)"
    using assms by (intro login_match [where u = u]) simp_all
  also have "\<dots> = onLogin (onLogin ?b1)"
    by (simp add: local_storage_same)
  finally show ?thesis
    by (simp add: eq)
qed

lemma tab_click_twice [simp]: "tab_click t (tab_click t b) = tab_click t b"
  by (simp add: tab_click_def)

text \<open>
  C27. Where the second listener changes nothing: with two listeners on the login form and
  on the tabs, a login that succeeds and a click on a tab leave the browser in the
  state that a single listener would produce.
\<close>

theorem second_listener_harmless:
  assumes "login_listeners (reg rt) = 2" and "tab_listeners (reg rt) = 2"
    and "get_prop (users_of (local_storage (world rt))) (address (login_email (auth (world rt))))
           = Some u"
    and "truthy_value (Some u)" and "latin1 (login_password (auth (world rt)))"
    and "get_prop u ''passHash'' = Some (JStr (b64_enc (login_password (auth (world rt)))))"
  shows "world (dispatch rnd rt LoginSubmit) = login_submit (world rt)
    \<and> world (dispatch rnd rt (TabClick t)) = tab_click t (world rt)"
  using assms(1,2) login_twice [OF assms(3-6)] by (simp add: funpow_two)


theorem second_listener_harmless_witness:
  "login_listeners (reg ex_login) = 2
   \<and> world (dispatch (\<lambda>_. 0) ex_login LoginSubmit) = login_submit (world ex_login)
   \<and> world (dispatch (\<lambda>_. 0) ex_login (TabClick SignupTab))
       = tab_click SignupTab (world ex_login)"
  using second_listener_harmless [of ex_login "user_entry ''Ada'' ''ada@example.com'' ''c2VjcmV0''"
      "\<lambda>_. 0" SignupTab]
  by (simp add: ex_login_def del: dispatch.simps)

end
