(* ===== verification/Spec2Isabelle.thy ===== *)
theory Spec2Isabelle
  imports Refinement Boot
begin

text \<open>
  \<^bold>\<open>QuizLab: the single-page quiz of \<^verbatim>\<open>src/script.js\<close>.\<close>

  \<^bold>\<open>The program.\<close> QuizLab is a single-page quiz. A visitor signs up or logs in; accounts
  and the session are kept in \<^verbatim>\<open>localStorage\<close> through the small \<^verbatim>\<open>store\<close> object, the
  password as the text \<^verbatim>\<open>btoa\<close> gives for it. A theme switch toggles between a dark and a
  light theme and remembers the choice. A signed-in user picks a category on
  the dashboard; \<open>loadCategory\<close> fetches the category's question pool, samples ten
  questions with \<open>shuffle\<close> and installs a new global \<^verbatim>\<open>state\<close>; \<open>renderQuestion\<close> shows
  the current question; click listeners move between questions, record the selected
  option and submit; \<open>showReview\<close> scores the attempt and shows the review; the header
  buttons lead back to the dashboard or restart the category. All handlers run to
  completion one after the other on one thread; the only suspension is inside
  \<open>loadCategory\<close>, between the request and the arrival of the pool.

  \<^bold>\<open>The theories\<close>, in dependency order.
  \<^item> \<open>QuizLab_Prelude\<close>: the JavaScript primitives the program relies on (indexing that
    yields \<^verbatim>\<open>undefined\<close>, truthiness, \<^verbatim>\<open>??\<close>, decimal text of numbers, \<^verbatim>\<open>join\<close>,
    \<^verbatim>\<open>Math.floor(Math.random() * n)\<close>), the contract of \<^verbatim>\<open>Math.random\<close>, and the fact
    collections shared by the other theories.
  \<^item> \<open>Shuffle\<close>: \<open>shuffle\<close> (lines 20-27) as the loop \<open>shuffle_loop\<close> over \<open>swap\<close>, and
    \<open>sample\<close> (line 124); \<open>shuffle_while\<close> is the same loop with \<open>while_option\<close> and the
    loop body \<open>shuffle_body\<close>. Shown: permutation, number of draws, contract of the
    sample, termination of the loop, and that every selection can be drawn.
  \<^item> \<open>Session\<close>: the records \<open>question\<close> and \<open>state\<close> (lines 112-118), the three state
    constructors of the program, and the well-formedness predicates.
  \<^item> \<open>Page\<close>: the elements the engine writes, as the record \<open>page\<close>; \<open>show_el\<close> and
    \<open>hide\<close> (lines 30-31).
  \<^item> \<open>Render\<close>: \<open>renderProgress\<close>, \<open>renderQuestion\<close> and \<open>showReview\<close> (lines 133-161
    and 187-208). Shown: the result field by field, the \<open>TypeError\<close> of an index out of
    range, the range of the progress value, the scoring rule and the specification's
    scoring example.
  \<^item> \<open>Quiz\<close>: the application state \<open>app\<close>, \<open>loadCategory\<close> in its three parts (lines
    120-130), and the click handlers \<open>option_click\<close>, \<open>prev_click\<close>, \<open>next_click\<close>,
    \<open>submit_click\<close>, \<open>back_to_dashboard_click\<close>, \<open>back_to_categories_click\<close>,
    \<open>home_click\<close> and \<open>retry_click\<close> (lines 148-153, 164-184, 275-303). Shown: the
    behaviour of every handler on every branch, including the uncaught exceptions.
  \<^item> \<open>App\<close>: the event machine (\<open>event\<close>, \<open>step\<close>, \<open>enabled\<close>, \<open>run\<close>, \<open>reachable\<close>)
    and its invariants \<open>engine_inv\<close>, \<open>frozen_inv\<close> and \<open>review_inv\<close>, by induction
    over the reachable states.
  \<^item> \<open>Engine_Spec\<close>: the contract of the engine as the specification states it.
  \<^item> \<open>Refinement\<close>: the abstraction \<open>abs_state\<close> and one refinement lemma per
    operation of the contract.
  \<^item> \<open>Store\<close>: \<^verbatim>\<open>store.get\<close>, \<^verbatim>\<open>store.set\<close>, \<^verbatim>\<open>store.del\<close> (lines 14-18) over a storage
    whose items are JSON values or texts that are not JSON, with property access,
    assignment and truthiness of the values.
  \<^item> \<open>Base64\<close>: \<^verbatim>\<open>btoa\<close> on a password given by its code units, with the exception for
    code units above 255 and a decoder. Shown: decoding after encoding is the identity.
  \<^item> \<open>Browser\<close>: the record \<open>browser\<close> that extends \<open>app\<close> by storage, the sign-in
    screen and the theme elements; \<open>lift\<close> runs a quiz handler in it.
  \<^item> \<open>Auth\<close>: \<open>switchAuthTab\<close>, the listeners of \<open>initAuth\<close> (\<open>tab_click\<close>,
    \<open>signup_submit\<close>, \<open>login_submit\<close>), \<open>onLogin\<close> and \<open>logout\<close> (lines 33-98). Shown:
    each handler on each branch, the password check, sign-up followed by login, and
    that every handler keeps the storage well formed.
  \<^item> \<open>Theme\<close>: \<open>initTheme\<close>, \<open>toggleTheme\<close>, \<open>updateThemeToggle\<close> and the listener of
    the system colour scheme (lines 211-254). Shown: precedence of the saved theme,
    the toggle as an involution, consistency of attribute, button and saved theme.
  \<^item> \<open>Boot\<close>: the top level of the script and its \<^verbatim>\<open>DOMContentLoaded\<close> listener (lines
    254-272 and 304-315), the count of listeners per event, the delivery of an event
    to all of them (\<open>dispatch\<close>), the runs of the whole program (\<open>running\<close>) and their
    invariant \<open>site_inv\<close>.
  \<^item> This theory: the simulation theorem that ties the event machine to the contract,
    and the reachable states and inputs on which code and contract differ.

  \<^bold>\<open>How the model reads the code.\<close>
  \<^item> State. The global \<^verbatim>\<open>state\<close> is the record \<open>state\<close>; the document is the record
    \<open>page\<close>; \<open>app\<close> adds what the browser holds for the program: the position in the
    sequence of random numbers, the requests in flight, and a log of dialogs, requests
    and uncaught exceptions. A handler is a function from \<open>app\<close> to \<open>app\<close>.
  \<^item> Inputs. Whatever the program receives is an argument: the sequence \<open>rnd\<close> of values
    of \<^verbatim>\<open>Math.random\<close>, the pool a response carries, the user's answer to the
    confirmation dialog, the button that is clicked.
  \<^item> Errors. A property access on \<^verbatim>\<open>undefined\<close> is the value \<open>Inl TypeError\<close> of
    \<open>renderQuestion\<close>. It ends the calling handler, which records \<open>Uncaught TypeError\<close>
    in the log; statements after the call are not executed. A failed fetch or parse is
    the event \<open>LoadRejected\<close>.
  \<^item> Numbers. Indices and counters are natural numbers: every decrement in the source
    is guarded. Comparisons that involve \<^verbatim>\<open>length - 1\<close> are written over the integers,
    as the source evaluates them. Floating point values (the random numbers, the
    progress percentage) are real numbers.
  \<^item> Loops. The loop of \<open>shuffle\<close> is a recursion on its loop variable; the loops over
    the questions in the submit handler and in \<open>showReview\<close> are a list comprehension
    and a map over the enumerated questions. All of them are total; no fuel is needed.
    The only loop of the program with a condition of its own, the \<^verbatim>\<open>for\<close> loop of
    \<open>shuffle\<close>, is also given as \<open>shuffle_while\<close>, whose value is \<open>None\<close> if the loop does
    not end; \<open>Shuffle.shuffle_terminates\<close> shows that it always ends with the result of
    the recursion.
  \<^item> Text. Strings are lists of characters. Template literals are concatenations, with
    \<open>string_of_nat\<close> for interpolated numbers. The markup written through \<^verbatim>\<open>innerHTML\<close>
    is represented by the values it interpolates.
  \<^item> Data. A question is a record of a prompt, its options and its correct answer, as
    the specification describes the question bank; pools that are not lists of such
    records are outside the model.
  \<^item> Storage. An item of \<^verbatim>\<open>localStorage\<close> is \<open>Json v\<close> when its text parses to the value
    \<open>v\<close> and \<open>Text t\<close> when it is the text \<open>t\<close> that does not parse; so writing a value
    with \<^verbatim>\<open>JSON.stringify\<close> and parsing it again gives the value back by construction.
    Values are \<^verbatim>\<open>null\<close>, strings and objects, which is what the program writes.
  \<^item> Passwords are sequences of code units, since the program measures their length
    and \<^verbatim>\<open>btoa\<close> rejects code units above 255. Names and addresses are strings of code
    units below 256, on which \<open>trim\<close> and \<open>toLowerCase\<close> are defined.
  \<^item> Listeners. The script registers some listeners in two places. \<open>registry\<close> counts
    them and \<open>dispatch\<close> runs a handler as often as it is registered; an exception
    ends one listener, not the delivery.
  \<^item> Environment. What \<^verbatim>\<open>matchMedia\<close> answers, and whether the browser has it, is an
    argument of \<open>initTheme\<close>. Which element is on which section follows the element
    ids; the markup is not part of the sources, and the validation it may ask of the
    browser for the form fields is not assumed.

  \<^bold>\<open>What is shown.\<close> The sampler returns a permutation and a sample that meets its
  contract, its loop ends, and every duplicate-free selection of ten questions in every
  order is drawn for some values of \<^verbatim>\<open>Math.random\<close>. Navigation stays in bounds and touches nothing but the position. Recording
  overwrites. Submission asks for confirmation exactly when questions are open, names
  them, and changes nothing when declined. The review scores by string equality with the
  correct answer. Every reachable state has a well-formed session whose current question
  is the one on screen; a submitted session cannot be edited and its review is the one
  shown. Every deliverable event is an operation of the contract, under the stated
  conditions on the question data. Sign-up stores an account under the normalised
  address and opens a session; login opens a session exactly for the stored password;
  logout ends the session; the text that \<^verbatim>\<open>btoa\<close> stores determines the password. The
  theme switch flips between two themes and \<open>initTheme\<close> prefers the saved one. In
  every state of a run of the whole program the storage is well formed and the
  invariants of the engine hold.

  \<^bold>\<open>Where the code leaves the contract\<close> (each is a theorem): an empty pool and the retry
  button end in an uncaught \<open>TypeError\<close>; a response that arrives late replaces the
  session, also over a visible review; stale option buttons can write into an empty
  session; an empty-string answer is treated as missing at submission; the placeholder
  for a missing answer can coincide with a correct answer; a successful sign-up is
  followed by the dialog that the account already exists, because its listener is
  registered twice; a password with a character above U+00FF ends sign-up and login
  with an uncaught exception; a response that arrives after logout shows the quiz to a
  signed-out visitor; without \<^verbatim>\<open>matchMedia\<close> the \<^verbatim>\<open>DOMContentLoaded\<close> listener ends early.

  \<^bold>\<open>Not modelled.\<close> The element lookups \<^verbatim>\<open>$\<close> and \<^verbatim>\<open>$$\<close> (the model names elements
  directly), the network and the JSON parser of the browser, the markup and the style
  sheet. JSON numbers, booleans and arrays in storage, the properties that strings have
  by themselves and the properties that every object inherits are outside the model of
  the store; characters above U+00FF are outside the model of names and addresses.
\<close>

section \<open>Example inputs\<close>

definition interim_events :: "event list" where
  "interim_events = ex_submitted @ [RetryClick, OptionClick 0]"



section \<open>The engine implements its contract\<close>

text \<open>
  C13. Simulation. Every event that can be delivered in a reachable state changes the
  session by one operation of the contract, or not at all: a response is \<open>begin\<close> with a
  sample of its pool, the retry button is \<open>begin\<close> with an empty pool, the navigation
  buttons are \<open>movePrev\<close> and \<open>moveNext\<close>, an option button is \<open>record\<close>, the submit
  button is the validated submission, and all other events leave the session alone. The
  operations on an existing session are applied to unsubmitted sessions only. This holds
  when \<^verbatim>\<open>Math.random\<close> keeps its contract and no option of the quiz is the empty string,
  for every event except a click on an option button while the quiz is empty.
\<close>

theorem step_refines_spec:
  assumes r: "reachable rnd p0 a" and en: "enabled a e" and u: "unit_interval rnd"
    and clean: "no_empty_option (state a)"
    and shown: "questions (state a) \<noteq> [] \<or> (\<forall>n. e \<noteq> OptionClick n)"
  shows "spec_step (abs_state (state a)) (abs_state (state (step rnd a e)))"
proof -
  note inv = reachable_engine_inv [OF r]
  have ns: "\<not> submitted (state a)" if "visible (document a) QuizScreen"
    using r that by (rule reachable_not_submitted)
  show ?thesis
  proof (cases e)
    case (LoadResolved n all)
    with en have "n < length (pending a)" by simp
    then show ?thesis
      by (simp only: LoadResolved step_LoadResolved spec_step_load [OF u])
  next
    case (OptionClick n)
    with en shown have "questions (state a) \<noteq> []" "n < length (option_btns (document a))"
      "\<not> submitted (state a)"
      by (simp_all add: ns)
    then show ?thesis
      unfolding OptionClick step.simps by (rule spec_step_option [OF inv])
  next
    case PrevClick
    with en have "\<not> submitted (state a)" by (simp add: ns)
    then show ?thesis unfolding PrevClick step.simps by (rule spec_step_prev)
  next
    case NextClick
    with en have "\<not> submitted (state a)" by (simp add: ns)
    then show ?thesis unfolding NextClick step.simps by (rule spec_step_next)
  next
    case (SubmitClick go)
    with en have "\<not> submitted (state a)" by (simp add: ns)
    with answers_nonempty_engine [OF inv clean] show ?thesis
      unfolding SubmitClick step.simps by (rule spec_step_submit)
  next
    case RetryClick
    show ?thesis unfolding RetryClick step.simps by (rule spec_step_retry)
  qed (simp_all add: sp_stutter split: option.splits)
qed

theorem step_refines_spec_witness:
  "reachable (\<lambda>_. 0) blank_page (run (\<lambda>_. 0) (init_app blank_page) ex_events)
   \<and> enabled (run (\<lambda>_. 0) (init_app blank_page) ex_events) (OptionClick 1)
   \<and> unit_interval (\<lambda>_. 0)
   \<and> no_empty_option (state (run (\<lambda>_. 0) (init_app blank_page) ex_events))
   \<and> spec_step (abs_state (state (run (\<lambda>_. 0) (init_app blank_page) ex_events)))
        (abs_state (state (step (\<lambda>_. 0) (run (\<lambda>_. 0) (init_app blank_page) ex_events)
           (OptionClick 1))))"
proof -
  let ?a = "run (\<lambda>_. 0) (init_app blank_page) ex_events"
  have en: "enabled ?a (OptionClick 1)"
    using document_run_ex
    by (simp add: visible_def) (simp add: ex_events_def document_loadCategory_resume)
  have clean: "no_empty_option (state ?a)"
    by (simp add: state_run_ex no_empty_option_def)
  have ne: "questions (state ?a) \<noteq> [] \<or> (\<forall>n. OptionClick 1 \<noteq> OptionClick n)"
    by (simp add: state_run_ex)
  from step_refines_spec [OF reachable_ex en unit_interval_const clean ne] reachable_ex en clean
  show ?thesis by simp
qed

text \<open>
  Loading implements \<open>begin\<close>: when \<^verbatim>\<open>Math.random\<close> keeps its contract, the questions
  of the installed session satisfy the Sampler's contract for the delivered pool and a
  size of ten, the session is the one \<open>begin_session\<close> builds from them, and it
  satisfies the invariants of the Session.
\<close>

theorem load_refines_begin:
  assumes "unit_interval rnd"
  shows "sample_spec 10 all (questions (state (loadCategory_resume rnd c all a)))
    \<and> abs_state (state (loadCategory_resume rnd c all a))
        = begin_session c (questions (state (loadCategory_resume rnd c all a)))
    \<and> session_inv (abs_state (state (loadCategory_resume rnd c all a)))"
  using assms by (simp add: sample_refines)

theorem load_refines_begin_witness:
  "unit_interval (\<lambda>_. 0)
   \<and> sample_spec 10 [q_paris, q_four, q_blue]
        (questions (state (loadCategory_resume (\<lambda>_. 0) None [q_paris, q_four, q_blue] ex_app)))
   \<and> abs_state (state (loadCategory_resume (\<lambda>_. 0) None [q_paris, q_four, q_blue] ex_app))
       = begin_session None [q_four, q_blue, q_paris]"
  using load_refines_begin [of "\<lambda>_. 0" "[q_paris, q_four, q_blue]" None ex_app]
  by simp

text \<open>
  The handlers of the quiz screen implement the Navigator and the Answer Recorder:
  the next and previous buttons change the session as \<open>moveNext\<close> and \<open>movePrev\<close> do,
  and, when the page shows the current question of a non-empty quiz, a click on option
  button \<open>n\<close> is a successful \<open>record\<close> of that button's text for the current index.
\<close>

theorem handlers_refine_operations:
  assumes "engine_inv a" and "questions (state a) \<noteq> []"
    and "n < length (option_btns (document a))"
  shows "abs_state (state (next_click a)) = moveNext (abs_state (state a))
    \<and> abs_state (state (prev_click a)) = movePrev (abs_state (state a))
    \<and> record_answer (abs_state (state a)) (index (state a))
          (label (option_btns (document a) ! n))
        = Inr (abs_state (state (option_click n a)))"
  using option_click_refines [OF assms]
  by (simp only: next_click_refines prev_click_refines simp_thms)

lemma engine_inv_ex_app: "engine_inv ex_app"
proof -
  have "view_ok ex_state (question_view ex_state (questions ex_state ! index ex_state) blank_page)"
    by (intro view_ok_question_view) simp_all
  then have "view_ok ex_state (document ex_app)"
    by (simp add: ex_app_def)
  moreover have "answers_ok ex_state"
    by (auto simp: answers_ok_def split: if_splits)
  ultimately show ?thesis
    by (simp add: engine_inv_def index_ok_def)
qed

theorem handlers_refine_operations_witness:
  "engine_inv ex_app \<and> questions (state ex_app) \<noteq> []
   \<and> record_answer (abs_state ex_state) 0 ''Rome''
       = Inr ((abs_state ex_state)\<lparr>s_answers := [0 \<mapsto> ''Rome'', 2 \<mapsto> ''Green'']\<rparr>)
   \<and> currentIndex (moveNext (abs_state ex_state)) = 1"
proof -
  have "(answers ex_state)(0 \<mapsto> ''Rome'') = [0 \<mapsto> ''Rome'', 2 \<mapsto> ''Green'']"
    by (simp add: fun_upd_twist)
  with handlers_refine_operations [OF engine_inv_ex_app, of 1] engine_inv_ex_app show ?thesis
    by (simp add: option_click_button moveNext_def)
qed

text \<open>
  C35. The submit handler implements the Submission Validator when no recorded answer is
  the empty string: the question numbers it lists are the unanswered indices of the
  contract plus one, the session changes as \<open>submit\<close> prescribes for the user's decision,
  and a confirmation dialog appears exactly when \<open>trySubmit\<close> is not ready.
\<close>

theorem submit_refines:
  assumes "answers_nonempty (state a)"
  shows "unanswered (state a) = map Suc (unansweredIndices (abs_state (state a)))
    \<and> abs_state (state (submit_click go a)) = submit go (abs_state (state a))
    \<and> (trySubmit (abs_state (state a)) = Ready \<longleftrightarrow> log (submit_click go a) = log a)"
  using assms unanswered_refines [OF assms]
  by (simp add: submit_click_refines trySubmit_def log_submit_click)

theorem submit_refines_witness:
  "answers_nonempty (state ex_app)
   \<and> unansweredIndices (abs_state (state ex_app)) = [1]
   \<and> unanswered (state ex_app) = [2]
   \<and> trySubmit (abs_state (state ex_app)) = Incomplete [1]
   \<and> s_submitted (submit True (abs_state (state ex_app)))"
proof -
  have a: "answers_nonempty (state ex_app)"
    by (simp add: answers_nonempty_def)
  have u: "unansweredIndices (abs_state (state ex_app)) = [1]"
    by (simp add: unansweredIndices_def upt_rec)
  from submit_refines [OF a, of True] a u show ?thesis
    by (simp add: trySubmit_def submit_def)
qed

text \<open>
  C36. The review implements the Scorer when no question has the placeholder text as its
  correct answer: for a submitted session \<open>score\<close> succeeds, and its score, total,
  verdicts, correct answers and user answers (with the placeholder shown for a missing
  one) are those of the review list and the score line.
\<close>

theorem score_refines:
  assumes "sentinel_free st" and "submitted st"
  shows "\<exists>r. score_session (abs_state st) = Inr r
    \<and> r_score r = correctCount st
    \<and> total r = length (questions st)
    \<and> map isCorrect (perQuestion r) = map is_correct (review_items st)
    \<and> map (shown_answer \<circ> yourAnswer) (perQuestion r) = map your (review_items st)
    \<and> map correctAnswer (perQuestion r) = map correct_answer (review_items st)"
proof -
  let ?vs = "map (verdict_of (abs_state st)) [0..<length (questions st)]"
  have "map (shown_answer \<circ> yourAnswer) ?vs = map your (review_items st)"
    using assms(1) by (intro nth_equalityI) (simp_all add: is_correct_refines(2))
  moreover have "map correctAnswer ?vs = map correct_answer (review_items st)"
    using assms(1) by (intro nth_equalityI) (simp_all add: is_correct_refines(3))
  ultimately show ?thesis
    using assms(2) verdicts_refine [OF assms(1)] correctCount_refines [OF assms(1)]
    by (simp add: score_session_def)
qed

theorem score_refines_witness:
  "sentinel_free (ex_state\<lparr>submitted := True\<rparr>) \<and> submitted (ex_state\<lparr>submitted := True\<rparr>)
   \<and> (\<exists>r. score_session (abs_state (ex_state\<lparr>submitted := True\<rparr>)) = Inr r \<and> r_score r = 1 \<and> total r = 3
          \<and> map isCorrect (perQuestion r) = [True, False, False]
          \<and> map yourAnswer (perQuestion r) = [Some ''Paris'', None, Some ''Green''])"
proof -
  have s: "sentinel_free (ex_state\<lparr>submitted := True\<rparr>)"
    by (simp add: sentinel_free_def)
  from score_refines [OF s] obtain r where r: "score_session (abs_state (ex_state\<lparr>submitted := True\<rparr>)) = Inr r"
    by auto
  then have "r_score r = 1 \<and> total r = 3 \<and> map isCorrect (perQuestion r) = [True, False, False]
      \<and> map yourAnswer (perQuestion r) = [Some ''Paris'', None, Some ''Green'']"
    by (auto simp: score_session_def verdict_of_def upt_rec)
  with s r show ?thesis by simp
qed

section \<open>Where code and contract part\<close>



text \<open>
  C39. Between a click on the retry button and the arrival of the pool the option buttons
  of the previous attempt are still on the visible quiz screen. A click on one of them
  records an answer for question 0 of a session that has no questions, which contradicts
  the Session invariant that answers belong to questions of the quiz.
\<close>

theorem interim_answer_reachable:
  "feasible (\<lambda>_. 0) (init_app blank_page) interim_events
   \<and> questions (state (run (\<lambda>_. 0) (init_app blank_page) interim_events)) = []
   \<and> answers (state (run (\<lambda>_. 0) (init_app blank_page) interim_events)) = [0 \<mapsto> ''3'']
   \<and> \<not> answers_ok (state (run (\<lambda>_. 0) (init_app blank_page) interim_events))
   \<and> \<not> session_inv (abs_state (state (run (\<lambda>_. 0) (init_app blank_page) interim_events)))"
proof -
  let ?r = "run (\<lambda>_. 0) (init_app blank_page) (ex_submitted @ [RetryClick])"
  have run: "run (\<lambda>_. 0) (init_app blank_page) interim_events = option_click 0 ?r"
    by (simp add: interim_events_def)
  from run_retry_fields(4) have len: "length (option_btns (document ?r)) = 2"
    and lab: "label (option_btns (document ?r) ! 0) = ''3''"
    by (metis length_map length_Cons list.size(3) One_nat_def Suc_1,
        metis length_map nth_map nth_Cons_0 length_Cons zero_less_Suc)
  have f: "feasible (\<lambda>_. 0) (init_app blank_page) interim_events"
    using feasible_ex_submitted visible_ex_submitted run_retry_fields(1) len
    by (simp add: interim_events_def visible_def)
  have ans: "answers (state (option_click 0 ?r)) = [0 \<mapsto> ''3'']"
    using len lab by (simp add: answers_option_click run_retry_fields(3) del: run_append)
  have q: "questions (state (option_click 0 ?r)) = []"
    by (simp add: run_retry_fields(3) del: run_append)
  from f ans q show ?thesis
    by (simp add: run session_inv_abs answers_ok_def del: run_append)
qed

end
